theory Spec2Isabelle
  imports Main
begin

section \<open>JavaScript values used by the server\<close>

text \<open>
  A value of type \<open>string | null | undefined\<close> is a \<open>string option\<close>. JavaScript treats
  both the absent value and the empty string as false, so \<open>a || b\<close> on such a value
  yields \<open>b\<close> in both cases.
\<close>

definition truthy :: "string option \<Rightarrow> bool" where
  "truthy x = (case x of None \<Rightarrow> False | Some s \<Rightarrow> s \<noteq> [])"

definition js_or :: "string option \<Rightarrow> string \<Rightarrow> string" where
  "js_or x d = (case x of None \<Rightarrow> d | Some s \<Rightarrow> if s = [] then d else s)"

text \<open>
  A JavaScript \<open>Map\<close> keeps its entries in insertion order; \<open>set\<close> overwrites the value
  of a key that is present and appends a new entry otherwise.
\<close>

definition map_has :: "('k \<times> 'v) list \<Rightarrow> 'k \<Rightarrow> bool" where
  "map_has m k = (map_of m k \<noteq> None)"

definition map_get :: "('k \<times> 'v) list \<Rightarrow> 'k \<Rightarrow> 'v option" where
  "map_get m k = map_of m k"

fun map_set :: "('k \<times> 'v) list \<Rightarrow> 'k \<Rightarrow> 'v \<Rightarrow> ('k \<times> 'v) list" where
  "map_set [] k v = [(k, v)]"
| "map_set ((k', v') # m) k v =
     (if k' = k then (k, v) # m else (k', v') # map_set m k v)"

text \<open>
  A JavaScript value as the server meets it. A request body is parsed from JSON, so its
  values are \<open>null\<close>, booleans, numbers and strings, with \<open>JOther\<close> for everything else
  (an object, an array, a number that is not an integer, an invalid \<open>Date\<close>). \<open>JDate\<close> is
  a valid \<open>Date\<close> object, in milliseconds: the server makes one with \<open>new Date\<close> and the
  database returns one for a timestamp column, but no JSON body contains one. An object
  is a list of keys with their values; a key that is not in the list is \<open>undefined\<close>.
\<close>

datatype jsval = JNull | JBool bool | JNum int | JStr string | JDate int | JOther

type_synonym row = "(string \<times> jsval) list"

definition js_truthy :: "jsval option \<Rightarrow> bool" where
  "js_truthy x =
     (case x of
        None \<Rightarrow> False
      | Some JNull \<Rightarrow> False
      | Some (JBool b) \<Rightarrow> b
      | Some (JNum n) \<Rightarrow> n \<noteq> 0
      | Some (JStr s) \<Rightarrow> s \<noteq> []
      | Some (JDate d) \<Rightarrow> True
      | Some JOther \<Rightarrow> True)"

definition as_string :: "jsval option \<Rightarrow> string option" where
  "as_string x = (case x of Some (JStr s) \<Rightarrow> Some s | _ \<Rightarrow> None)"

definition as_int :: "jsval option \<Rightarrow> int option" where
  "as_int x = (case x of Some (JNum n) \<Rightarrow> Some n | _ \<Rightarrow> None)"

definition as_date :: "jsval option \<Rightarrow> int option" where
  "as_date x = (case x of Some (JDate d) \<Rightarrow> Some d | _ \<Rightarrow> None)"

definition as_bool :: "jsval option \<Rightarrow> bool option" where
  "as_bool x = (case x of Some (JBool b) \<Rightarrow> Some b | _ \<Rightarrow> None)"

definition is_date :: "jsval \<Rightarrow> bool" where
  "is_date v = (case v of JDate d \<Rightarrow> True | _ \<Rightarrow> False)"

definition json_body :: "row \<Rightarrow> bool" where
  "json_body obj = list_all (\<lambda>kv. \<not> is_date (snd kv)) obj"

definition in_int4 :: "int \<Rightarrow> bool" where
  "in_int4 n = (- 2147483648 \<le> n \<and> n \<le> 2147483647)"

section \<open>server/db.ts: the registry of tenant connections\<close>

text \<open>
  \<open>getTenantDb\<close> keeps one module-level \<open>Map\<close> from connection string to the drizzle
  handle of a \<open>pg\<close> pool. A handle is an object: its identity is the allocation that
  made it, recorded as \<open>pool_id\<close>, the number of pools \<open>getTenantDb\<close> had constructed
  before. The registry state also logs every \<open>new Pool\<close> that \<open>getTenantDb\<close> runs. The
  platform's own pool, made once when the module is loaded, is outside the registry.
\<close>

record pool =
  pool_id :: nat
  connectionString :: string
  pool_max :: nat

record registry =
  tenantConnections :: "(string \<times> pool) list"
  constructed :: "pool list"

definition init_registry :: registry where
  "init_registry = \<lparr>tenantConnections = [], constructed = []\<rparr>"

definition new_Pool :: "string \<Rightarrow> registry \<Rightarrow> pool \<times> registry" where
  "new_Pool cs reg =
     (let tenantPool = \<lparr>pool_id = length (constructed reg), connectionString = cs, pool_max = 5\<rparr>
      in (tenantPool, reg\<lparr>constructed := constructed reg @ [tenantPool]\<rparr>))"

definition getTenantDb :: "string \<Rightarrow> registry \<Rightarrow> pool option \<times> registry" where
  "getTenantDb cs reg =
     (let reg' =
        (if \<not> map_has (tenantConnections reg) cs then
           (let (tenantPool, r) = new_Pool cs reg
            in r\<lparr>tenantConnections := map_set (tenantConnections r) cs tenantPool\<rparr>)
         else reg)
      in (map_get (tenantConnections reg') cs, reg'))"

text \<open>
  \<open>getTenantDb\<close> is a synchronous function: it contains no \<open>await\<close>, so on the
  single-threaded event loop each call runs to completion before any other request's
  code runs. Requests that are in flight together therefore reach the registry as some
  interleaving of whole calls, which is a list of connection strings in the order the
  calls happen to run.
\<close>

fun run_calls :: "string list \<Rightarrow> registry \<Rightarrow> pool option list \<times> registry" where
  "run_calls [] reg = ([], reg)"
| "run_calls (cs # css) reg =
     (let (h, reg1) = getTenantDb cs reg;
          (hs, reg2) = run_calls css reg1
      in (h # hs, reg2))"

definition pools_for :: "registry \<Rightarrow> string \<Rightarrow> pool list" where
  "pools_for reg a = filter (\<lambda>p. connectionString p = a) (constructed reg)"

definition registry_inv :: "registry \<Rightarrow> bool" where
  "registry_inv reg =
     (map fst (tenantConnections reg) = map connectionString (constructed reg) \<and>
      map snd (tenantConnections reg) = constructed reg \<and>
      distinct (map connectionString (constructed reg)) \<and>
      map pool_id (constructed reg) = [0..<length (constructed reg)])"

section \<open>shared/schema.ts: the tables\<close>

text \<open>
  The rows that the server reads field by field, tenants and users, are records: a
  column that may be NULL is an option, a timestamp is milliseconds since the epoch.
  Column names are the source's; a name that several tables share carries the table's
  name in front.
\<close>

record tenant =
  tenant_id :: int
  tenant_name :: string
  subdomain :: string
  dbConnectionString :: "string option"
  tenant_status :: string
  subscriptionPlan :: string
  subscriptionStatus :: string
  subscriptionEndsAt :: "int option"
  stripeCustomerId :: "string option"
  stripeSubscriptionId :: "string option"
  maxUsers :: int
  tenant_createdAt :: int
  tenant_updatedAt :: int

record user =
  user_id :: int
  user_email :: string
  password :: string
  firstName :: "string option"
  lastName :: "string option"
  employeeId :: "string option"
  department :: "string option"
  designation :: "string option"
  role :: string
  isActive :: bool
  user_tenantId :: int
  user_createdAt :: int
  user_updatedAt :: int

text \<open>
  The rows of the other tables pass through the server as objects, and are kept so.
  A table declaration lists, for every column but \<open>id\<close> and the timestamps the database
  fills in, its name, type, whether it is NOT NULL, its default and whether it is
  unique.
\<close>

datatype coltype = CInteger | CText | CVarchar nat | CNumeric nat nat | CBoolean | CTimestamp

datatype column =
  Column (col_name: string) (col_type: coltype) (col_notnull: bool) (col_default: "jsval option")
    (col_unique: bool)

definition tenants_columns :: "column list" where
  "tenants_columns =
     [Column ''name'' (CVarchar 255) True None False,
      Column ''subdomain'' (CVarchar 100) True None True,
      Column ''dbConnectionString'' CText False None False,
      Column ''status'' (CVarchar 20) True (Some (JStr ''active'')) False,
      Column ''subscriptionPlan'' (CVarchar 50) True (Some (JStr ''free'')) False,
      Column ''subscriptionStatus'' (CVarchar 20) True (Some (JStr ''active'')) False,
      Column ''subscriptionEndsAt'' CTimestamp False None False,
      Column ''stripeCustomerId'' (CVarchar 255) False None False,
      Column ''stripeSubscriptionId'' (CVarchar 255) False None False,
      Column ''maxUsers'' CInteger True (Some (JNum 10)) False]"

definition users_columns :: "column list" where
  "users_columns =
     [Column ''email'' (CVarchar 255) True None True,
      Column ''password'' CText True None False,
      Column ''firstName'' (CVarchar 100) False None False,
      Column ''lastName'' (CVarchar 100) False None False,
      Column ''employeeId'' (CVarchar 50) False None True,
      Column ''department'' (CVarchar 100) False None False,
      Column ''designation'' (CVarchar 100) False None False,
      Column ''role'' (CVarchar 20) True (Some (JStr ''user'')) False,
      Column ''isActive'' CBoolean True (Some (JBool True)) False,
      Column ''tenantId'' CInteger True None False]"

definition customers_columns :: "column list" where
  "customers_columns =
     [Column ''customerId'' (CVarchar 50) True None True,
      Column ''name'' (CVarchar 255) True None False,
      Column ''email'' (CVarchar 255) True None False,
      Column ''status'' (CVarchar 20) True (Some (JStr ''active'')) False,
      Column ''address'' CText False None False,
      Column ''city'' (CVarchar 100) False None False,
      Column ''state'' (CVarchar 100) False None False,
      Column ''pincode'' (CVarchar 20) False None False,
      Column ''tenantId'' CInteger True None False,
      Column ''createdById'' CInteger True None False]"

definition tasks_columns :: "column list" where
  "tasks_columns =
     [Column ''projectId'' CInteger True None False,
      Column ''name'' (CVarchar 255) True None False,
      Column ''description'' CText False None False,
      Column ''startDate'' CTimestamp False None False,
      Column ''endDate'' CTimestamp False None False,
      Column ''status'' (CVarchar 20) True (Some (JStr ''active'')) False,
      Column ''tenantId'' CInteger True None False,
      Column ''createdById'' CInteger True None False]"

definition timesheets_columns :: "column list" where
  "timesheets_columns =
     [Column ''userId'' CInteger True None False,
      Column ''projectId'' CInteger True None False,
      Column ''taskId'' CInteger False None False,
      Column ''customerId'' CInteger True None False,
      Column ''date'' CTimestamp True None False,
      Column ''mondayHours'' (CNumeric 4 2) False (Some (JStr ''0'')) False,
      Column ''tuesdayHours'' (CNumeric 4 2) False (Some (JStr ''0'')) False,
      Column ''wednesdayHours'' (CNumeric 4 2) False (Some (JStr ''0'')) False,
      Column ''thursdayHours'' (CNumeric 4 2) False (Some (JStr ''0'')) False,
      Column ''fridayHours'' (CNumeric 4 2) False (Some (JStr ''0'')) False,
      Column ''saturdayHours'' (CNumeric 4 2) False (Some (JStr ''0'')) False,
      Column ''sundayHours'' (CNumeric 4 2) False (Some (JStr ''0'')) False,
      Column ''totalHours'' (CNumeric 4 2) False (Some (JStr ''0'')) False,
      Column ''payType'' (CVarchar 20) True (Some (JStr ''regular'')) False,
      Column ''status'' (CVarchar 20) True (Some (JStr ''draft'')) False,
      Column ''notes'' CText False None False,
      Column ''tenantId'' CInteger True None False]"

definition projects_columns :: "column list" where
  "projects_columns =
     [Column ''name'' (CVarchar 255) True None False,
      Column ''description'' CText False None False,
      Column ''status'' (CVarchar 20) True (Some (JStr ''active'')) False,
      Column ''customerId'' CInteger False None False,
      Column ''startDate'' CTimestamp False None False,
      Column ''endDate'' CTimestamp False None False,
      Column ''tenantId'' CInteger True None False,
      Column ''createdById'' CInteger True None False]"

definition expenses_columns :: "column list" where
  "expenses_columns =
     [Column ''userId'' CInteger True None False,
      Column ''projectId'' CInteger False None False,
      Column ''amount'' (CNumeric 10 2) True None False,
      Column ''currency'' (CVarchar 3) True (Some (JStr ''USD'')) False,
      Column ''description'' CText False None False,
      Column ''category'' (CVarchar 100) False None False,
      Column ''date'' CTimestamp True None False,
      Column ''status'' (CVarchar 20) True (Some (JStr ''pending'')) False,
      Column ''receiptUrl'' CText False None False,
      Column ''tenantId'' CInteger True None False]"

text \<open>The tenant-level tables of one database.\<close>

record tenant_db =
  users :: "user list"
  customers :: "row list"
  projects :: "row list"
  tasks :: "row list"
  timesheets :: "row list"
  expenses :: "row list"
  projectUsers :: "row list"

section \<open>The process, its collaborators and its state\<close>

text \<open>
  What a request handler reads from outside the repository is a field of \<open>env\<close>: the
  environment variable, the clock (one reading per request), and the results of the
  libraries it calls (\<open>jsonwebtoken\<close>, \<open>bcryptjs\<close>, the id generators, Stripe). A library
  call that throws returns \<open>None\<close> or \<open>Inl\<close> with the error's message.
\<close>

record claims =
  claim_userId :: int
  claim_tenantId :: int
  claim_role :: string
  claim_type :: string

record customer_params =
  cp_email :: string
  cp_name :: string
  cp_tenantId :: int
  cp_subdomain :: string

record subscription_params =
  sp_customer :: string
  sp_product_name :: string
  sp_unit_amount :: int

record stripe_subscription =
  sub_id :: string
  sub_status :: string
  sub_client_secret :: "string option"

datatype stripe_call =
  CustomersCreate customer_params
  | SubscriptionsCreate subscription_params
  | SubscriptionsCancel string

text \<open>
  The fields from \<open>parseInt\<close> on are what the JavaScript runtime, the schema library
  and PostgreSQL decide, where the repository's code does not:
  \<^item> \<open>parseInt\<close> and \<open>new_Date\<close> are the builtins \<open>parseInt(v)\<close> and \<open>new Date(v)\<close>; \<open>None\<close> is
    \<open>NaN\<close> and an invalid date;
  \<^item> \<open>zod_column_limits\<close> tells whether the insert schemas that \<open>drizzle-zod\<close> derives
    carry the limits of the columns (the range of an integer, the length of a varchar),
    which depends on the version of the library;
  \<^item> \<open>pg_now\<close> is the database's \<open>now()\<close> and \<open>pg_serial\<close> the value that the id
    sequence of a table gives to the insert of this request;
  \<^item> \<open>pg_input\<close> is the value a column of the given type stores and returns for a
    parameter, \<open>None\<close> when the statement throws; it is asked only where \<open>pg_store\<close> below
    does not know the answer;
  \<^item> \<open>pg_text_param\<close> is the text that \<open>column = $1\<close> compares a text column with:
    \<open>Some None\<close> when nothing matches, \<open>None\<close> when the query throws;
  \<^item> \<open>pg_update\<close>, \<open>pg_delete\<close> and \<open>pg_upsert\<close> are the statements
    \<open>UPDATE t SET ... WHERE id = $1 RETURNING *\<close>, \<open>DELETE FROM t WHERE id = $1\<close> and
    \<open>INSERT INTO project_users ... ON CONFLICT DO UPDATE\<close> on one database: they give the
    database after the statement (and the row returned, if any), \<open>None\<close> when the
    statement throws.
\<close>

record env =
  DATABASE_URL :: string
  Date_now :: int
  verifyToken :: "string \<Rightarrow> claims option"
  generateToken :: "claims \<Rightarrow> string"
  hashPassword :: "string \<Rightarrow> string"
  comparePasswords :: "string \<Rightarrow> string \<Rightarrow> bool"
  generateEmployeeId :: string
  generateCustomerId :: string
  customers_create :: "customer_params \<Rightarrow> string + string"
  subscriptions_create :: "subscription_params \<Rightarrow> string + stripe_subscription"
  subscriptions_cancel :: "string \<Rightarrow> string + unit"
  parseInt :: "jsval \<Rightarrow> int option"
  new_Date :: "jsval \<Rightarrow> int option"
  zod_column_limits :: bool
  pg_now :: int
  pg_serial :: "string \<Rightarrow> int"
  pg_input :: "coltype \<Rightarrow> jsval \<Rightarrow> jsval option"
  pg_text_param :: "jsval option \<Rightarrow> string option option"
  pg_update :: "string \<Rightarrow> int option \<Rightarrow> row \<Rightarrow> int \<Rightarrow> tenant_db \<Rightarrow> (row option \<times> tenant_db) option"
  pg_delete :: "string \<Rightarrow> int option \<Rightarrow> tenant_db \<Rightarrow> tenant_db option"
  pg_upsert :: "row \<Rightarrow> int \<Rightarrow> tenant_db \<Rightarrow> tenant_db option"

text \<open>
  The mutable state: the platform database's \<open>tenants\<close> table, the databases that
  connection strings lead to (an address with no entry cannot be reached, and a query
  on it throws), and the connection registry of \<open>db.ts\<close>. A table is the list of its
  rows in the order a scan returns them.
\<close>

record world =
  tenants :: "tenant list"
  dbs :: "(string \<times> tenant_db) list"
  registry :: registry

section \<open>What the database stores\<close>

text \<open>
  \<open>pg_store\<close> is the value that a column stores and returns for a parameter that is not
  \<open>null\<close>. It is fixed where PostgreSQL and the driver leave no choice: an integer within
  the range of \<open>int4\<close> and a boolean are stored as they are, an integer outside the range
  is refused, a text of printable ASCII characters is stored as it is when it fits the
  column. Everything else (a number sent to a text column, a text with other
  characters, every numeric and timestamp value) is \<open>pg_input\<close>'s answer, which counts
  when it is a value of the column's type.
\<close>

definition plain :: "string \<Rightarrow> bool" where
  "plain s = list_all (\<lambda>c. (32::nat) \<le> of_char c \<and> of_char c < (127::nat)) s"

fun of_coltype :: "coltype \<Rightarrow> jsval \<Rightarrow> bool" where
  "of_coltype CInteger (JNum n) = in_int4 n"
| "of_coltype CText (JStr s) = True"
| "of_coltype (CVarchar m) (JStr s) = True"
| "of_coltype (CNumeric p s) (JStr x) = True"
| "of_coltype CBoolean (JBool b) = True"
| "of_coltype CTimestamp (JDate d) = True"
| "of_coltype ct v = False"

definition pg_asked :: "env \<Rightarrow> coltype \<Rightarrow> jsval \<Rightarrow> jsval option" where
  "pg_asked env ct v =
     (case pg_input env ct v of
        None \<Rightarrow> None
      | Some x \<Rightarrow> if of_coltype ct x then Some x else None)"

fun pg_store :: "env \<Rightarrow> coltype \<Rightarrow> jsval \<Rightarrow> jsval option" where
  "pg_store env CInteger (JNum n) = (if in_int4 n then Some (JNum n) else None)"
| "pg_store env CBoolean (JBool b) = Some (JBool b)"
| "pg_store env CText (JStr s) = (if plain s then Some (JStr s) else pg_asked env CText (JStr s))"
| "pg_store env (CVarchar m) (JStr s) =
     (if plain s \<and> length s \<le> m then Some (JStr s) else pg_asked env (CVarchar m) (JStr s))"
| "pg_store env ct v = pg_asked env ct v"

text \<open>
  An insert gives every column of the table a value: the parameter as the column stores
  it, the column's default when the key is absent (\<open>undefined\<close>), NULL when the value
  is \<open>null\<close> or when the key is absent and there is no default. The statement throws
  (\<open>None\<close>) when a column refuses its parameter, when a NOT NULL column would be NULL,
  and when a unique column would repeat a value of the table.
\<close>

definition null_value :: "column \<Rightarrow> jsval option" where
  "null_value c = (if col_notnull c then None else Some JNull)"

definition col_value :: "env \<Rightarrow> column \<Rightarrow> jsval option \<Rightarrow> jsval option" where
  "col_value env c v =
     (case v of
        None \<Rightarrow> (case col_default c of None \<Rightarrow> null_value c | Some d \<Rightarrow> pg_store env (col_type c) d)
      | Some JNull \<Rightarrow> null_value c
      | Some x \<Rightarrow> pg_store env (col_type c) x)"

fun build_row :: "env \<Rightarrow> column list \<Rightarrow> row \<Rightarrow> row option" where
  "build_row env [] obj = Some []"
| "build_row env (c # cs) obj =
     (case col_value env c (map_of obj (col_name c)) of
        None \<Rightarrow> None
      | Some x \<Rightarrow>
          (case build_row env cs obj of
             None \<Rightarrow> None
           | Some r \<Rightarrow> Some ((col_name c, x) # r)))"

definition unique_violation :: "column list \<Rightarrow> row \<Rightarrow> row list \<Rightarrow> bool" where
  "unique_violation cols r rows =
     list_ex (\<lambda>c. col_unique c \<and> map_of r (col_name c) \<noteq> Some JNull \<and>
                list_ex (\<lambda>r'. map_of r' (col_name c) = map_of r (col_name c)) rows) cols"

definition insert_row :: "env \<Rightarrow> string \<Rightarrow> column list \<Rightarrow> row \<Rightarrow> row list \<Rightarrow> row option" where
  "insert_row env table cols obj rows =
     (case build_row env cols obj of
        None \<Rightarrow> None
      | Some r \<Rightarrow>
          if unique_violation cols r rows then None
          else Some ((''id'', JNum (pg_serial env table)) # r @
                     [(''createdAt'', JDate (pg_now env)), (''updatedAt'', JDate (pg_now env))]))"

text \<open>The fields of a stored row, for the tables that are records.\<close>

definition text_of :: "jsval option \<Rightarrow> string" where
  "text_of x = (case x of Some (JStr s) \<Rightarrow> s | _ \<Rightarrow> [])"

definition int_of_val :: "jsval option \<Rightarrow> int" where
  "int_of_val x = (case x of Some (JNum n) \<Rightarrow> n | _ \<Rightarrow> 0)"

definition bool_of :: "jsval option \<Rightarrow> bool" where
  "bool_of x = (case x of Some (JBool b) \<Rightarrow> b | _ \<Rightarrow> False)"

definition tenant_of_row :: "int \<Rightarrow> int \<Rightarrow> row \<Rightarrow> tenant" where
  "tenant_of_row i now r =
     \<lparr>tenant_id = i,
      tenant_name = text_of (map_of r ''name''),
      subdomain = text_of (map_of r ''subdomain''),
      dbConnectionString = as_string (map_of r ''dbConnectionString''),
      tenant_status = text_of (map_of r ''status''),
      subscriptionPlan = text_of (map_of r ''subscriptionPlan''),
      subscriptionStatus = text_of (map_of r ''subscriptionStatus''),
      subscriptionEndsAt = as_date (map_of r ''subscriptionEndsAt''),
      stripeCustomerId = as_string (map_of r ''stripeCustomerId''),
      stripeSubscriptionId = as_string (map_of r ''stripeSubscriptionId''),
      maxUsers = int_of_val (map_of r ''maxUsers''),
      tenant_createdAt = now,
      tenant_updatedAt = now\<rparr>"

definition user_of_row :: "int \<Rightarrow> int \<Rightarrow> row \<Rightarrow> user" where
  "user_of_row i now r =
     \<lparr>user_id = i,
      user_email = text_of (map_of r ''email''),
      password = text_of (map_of r ''password''),
      firstName = as_string (map_of r ''firstName''),
      lastName = as_string (map_of r ''lastName''),
      employeeId = as_string (map_of r ''employeeId''),
      department = as_string (map_of r ''department''),
      designation = as_string (map_of r ''designation''),
      role = text_of (map_of r ''role''),
      isActive = bool_of (map_of r ''isActive''),
      user_tenantId = int_of_val (map_of r ''tenantId''),
      user_createdAt = now,
      user_updatedAt = now\<rparr>"

text \<open>
  A query that compares a column with a parameter: a text of printable ASCII characters
  is compared as it is, an integer must be a number within the range of the column.
\<close>

definition text_param :: "env \<Rightarrow> jsval option \<Rightarrow> string option option" where
  "text_param env x =
     (case x of
        Some (JStr s) \<Rightarrow> if plain s then Some (Some s) else pg_text_param env x
      | _ \<Rightarrow> pg_text_param env x)"

definition int_param :: "int option \<Rightarrow> int option" where
  "int_param n = (case n of None \<Rightarrow> None | Some i \<Rightarrow> if in_int4 i then Some i else None)"

definition where_eq :: "string \<Rightarrow> int \<Rightarrow> row list \<Rightarrow> row list" where
  "where_eq k n rows = filter (\<lambda>r. map_of r k = Some (JNum n)) rows"

section \<open>server/storage.ts\<close>

definition getTenant :: "tenant list \<Rightarrow> int \<Rightarrow> tenant option" where
  "getTenant ts i = find (\<lambda>t. tenant_id t = i) ts"

definition getTenantBySubdomain :: "tenant list \<Rightarrow> string \<Rightarrow> tenant option" where
  "getTenantBySubdomain ts s = find (\<lambda>t. subdomain t = s) ts"

text \<open>
  The argument of \<open>updateTenantSubscription\<close> has three optional keys: \<open>None\<close> is a key
  that is absent (the column is left alone), \<open>Some None\<close> is \<open>null\<close>.
\<close>

record subscription_update =
  su_subscriptionPlan :: string
  su_subscriptionStatus :: string
  su_stripeCustomerId :: "string option option"
  su_stripeSubscriptionId :: "string option option"
  su_subscriptionEndsAt :: "int option option"

definition set_subscription :: "subscription_update \<Rightarrow> int \<Rightarrow> tenant \<Rightarrow> tenant" where
  "set_subscription s now t =
     t\<lparr>subscriptionPlan := su_subscriptionPlan s,
       subscriptionStatus := su_subscriptionStatus s,
       stripeCustomerId :=
         (case su_stripeCustomerId s of None \<Rightarrow> stripeCustomerId t | Some v \<Rightarrow> v),
       stripeSubscriptionId :=
         (case su_stripeSubscriptionId s of None \<Rightarrow> stripeSubscriptionId t | Some v \<Rightarrow> v),
       subscriptionEndsAt :=
         (case su_subscriptionEndsAt s of None \<Rightarrow> subscriptionEndsAt t | Some v \<Rightarrow> v),
       tenant_updatedAt := now\<rparr>"

definition updateTenantSubscription ::
  "tenant list \<Rightarrow> int \<Rightarrow> subscription_update \<Rightarrow> int \<Rightarrow> tenant list" where
  "updateTenantSubscription ts i s now =
     map (\<lambda>t. if tenant_id t = i then set_subscription s now t else t) ts"

text \<open>
  \<open>createTenantStorage\<close> asks the registry for the handle of the connection string and
  wraps it; the storage object is the handle. A query through it reaches the database
  at the handle's connection string.
\<close>

definition createTenantStorage :: "string \<Rightarrow> world \<Rightarrow> pool option \<times> world" where
  "createTenantStorage cs w =
     (let (tenantDb, reg) = getTenantDb cs (registry w)
      in (tenantDb, w\<lparr>registry := reg\<rparr>))"

definition storage_db :: "world \<Rightarrow> pool option \<Rightarrow> tenant_db option" where
  "storage_db w tenantStorage =
     (case tenantStorage of
        None \<Rightarrow> None
      | Some p \<Rightarrow> map_get (dbs w) (connectionString p))"

definition getUser :: "tenant_db \<Rightarrow> int \<Rightarrow> user option" where
  "getUser db i = find (\<lambda>u. user_id u = i) (users db)"

definition getUserByEmail :: "tenant_db \<Rightarrow> string \<Rightarrow> user option" where
  "getUserByEmail db e = find (\<lambda>u. user_email u = e) (users db)"

definition getUsersByTenant :: "tenant_db \<Rightarrow> int \<Rightarrow> user list" where
  "getUsersByTenant db tenantId = filter (\<lambda>u. user_tenantId u = tenantId) (users db)"

definition getCustomersByTenant :: "tenant_db \<Rightarrow> int \<Rightarrow> row list" where
  "getCustomersByTenant db tenantId = where_eq ''tenantId'' tenantId (customers db)"

definition getProjectsByTenant :: "tenant_db \<Rightarrow> int \<Rightarrow> row list" where
  "getProjectsByTenant db tenantId = where_eq ''tenantId'' tenantId (projects db)"

definition getTimesheetsByUser :: "tenant_db \<Rightarrow> int \<Rightarrow> row list" where
  "getTimesheetsByUser db userId = where_eq ''userId'' userId (timesheets db)"

definition getTasksByProject :: "tenant_db \<Rightarrow> int \<Rightarrow> row list" where
  "getTasksByProject db projectId = where_eq ''projectId'' projectId (tasks db)"

definition getTasksByTenant :: "tenant_db \<Rightarrow> int \<Rightarrow> row list" where
  "getTasksByTenant db tenantId = where_eq ''tenantId'' tenantId (tasks db)"

definition getExpensesByUser :: "tenant_db \<Rightarrow> int \<Rightarrow> row list" where
  "getExpensesByUser db userId = where_eq ''userId'' userId (expenses db)"

text \<open>
  \<open>getAssignedProjects\<close> joins the assignments of the user with the projects and drops
  the assignments whose project is missing.
\<close>

definition getAssignedProjects :: "tenant_db \<Rightarrow> int \<Rightarrow> row list" where
  "getAssignedProjects db userId =
     concat (map (\<lambda>ap. case find (\<lambda>p. map_of p ''id'' = map_of ap ''projectId'') (projects db) of
                          None \<Rightarrow> []
                        | Some project \<Rightarrow> [project])
               (where_eq ''userId'' userId (projectUsers db)))"

text \<open>
  The inserts. \<open>createUser\<close> and \<open>createCustomer\<close> first fill in a generated id when the
  object has none (\<open>a || b\<close>: also when it is \<open>null\<close>, empty, \<open>0\<close> or \<open>false\<close>). \<open>None\<close> is
  a statement that throws.
\<close>

definition createTenant :: "env \<Rightarrow> row \<Rightarrow> tenant list \<Rightarrow> (tenant \<times> tenant list) option" where
  "createTenant env tenantData ts =
     (case build_row env tenants_columns tenantData of
        None \<Rightarrow> None
      | Some r \<Rightarrow>
          if text_of (map_of r ''subdomain'') \<in> set (map subdomain ts) then None
          else
            (let tenant = tenant_of_row (pg_serial env ''tenants'') (pg_now env) r
             in Some (tenant, ts @ [tenant])))"

definition createUser :: "env \<Rightarrow> row \<Rightarrow> tenant_db \<Rightarrow> (user \<times> tenant_db) option" where
  "createUser env userData db =
     (let userWithId =
            (if js_truthy (map_of userData ''employeeId'') then userData
             else map_set userData ''employeeId'' (JStr (generateEmployeeId env)))
      in case build_row env users_columns userWithId of
           None \<Rightarrow> None
         | Some r \<Rightarrow>
             if text_of (map_of r ''email'') \<in> set (map user_email (users db)) \<or>
                (as_string (map_of r ''employeeId'') \<noteq> None \<and>
                 as_string (map_of r ''employeeId'') \<in> set (map employeeId (users db)))
             then None
             else
               (let user = user_of_row (pg_serial env ''users'') (pg_now env) r
                in Some (user, db\<lparr>users := users db @ [user]\<rparr>)))"

definition createCustomer :: "env \<Rightarrow> row \<Rightarrow> tenant_db \<Rightarrow> (row \<times> tenant_db) option" where
  "createCustomer env customerData db =
     (let customerWithId =
            (if js_truthy (map_of customerData ''customerId'') then customerData
             else map_set customerData ''customerId'' (JStr (generateCustomerId env)))
      in case insert_row env ''customers'' customers_columns customerWithId (customers db) of
           None \<Rightarrow> None
         | Some customer \<Rightarrow> Some (customer, db\<lparr>customers := customers db @ [customer]\<rparr>))"

definition createProject :: "env \<Rightarrow> row \<Rightarrow> tenant_db \<Rightarrow> (row \<times> tenant_db) option" where
  "createProject env projectData db =
     (case insert_row env ''projects'' projects_columns projectData (projects db) of
        None \<Rightarrow> None
      | Some project \<Rightarrow> Some (project, db\<lparr>projects := projects db @ [project]\<rparr>))"

definition createTimesheet :: "env \<Rightarrow> row \<Rightarrow> tenant_db \<Rightarrow> (row \<times> tenant_db) option" where
  "createTimesheet env timesheetData db =
     (case insert_row env ''timesheets'' timesheets_columns timesheetData (timesheets db) of
        None \<Rightarrow> None
      | Some timesheet \<Rightarrow> Some (timesheet, db\<lparr>timesheets := timesheets db @ [timesheet]\<rparr>))"

definition createTask :: "env \<Rightarrow> row \<Rightarrow> tenant_db \<Rightarrow> (row \<times> tenant_db) option" where
  "createTask env taskData db =
     (case insert_row env ''tasks'' tasks_columns taskData (tasks db) of
        None \<Rightarrow> None
      | Some task \<Rightarrow> Some (task, db\<lparr>tasks := tasks db @ [task]\<rparr>))"

definition createExpense :: "env \<Rightarrow> row \<Rightarrow> tenant_db \<Rightarrow> (row \<times> tenant_db) option" where
  "createExpense env expenseData db =
     (case insert_row env ''expenses'' expenses_columns expenseData (expenses db) of
        None \<Rightarrow> None
      | Some expense \<Rightarrow> Some (expense, db\<lparr>expenses := expenses db @ [expense]\<rparr>))"

text \<open>
  The updates set the keys of the object and \<open>updatedAt: new Date()\<close> on the row with the
  id and return that row, \<open>undefined\<close> when there is none; the deletes remove it.
\<close>

definition updateUser ::
  "env \<Rightarrow> tenant_db \<Rightarrow> int option \<Rightarrow> row \<Rightarrow> (row option \<times> tenant_db) option" where
  "updateUser env db i userData = pg_update env ''users'' i userData (Date_now env) db"

definition updateCustomer ::
  "env \<Rightarrow> tenant_db \<Rightarrow> int option \<Rightarrow> row \<Rightarrow> (row option \<times> tenant_db) option" where
  "updateCustomer env db i customerData = pg_update env ''customers'' i customerData (Date_now env) db"

definition updateProject ::
  "env \<Rightarrow> tenant_db \<Rightarrow> int option \<Rightarrow> row \<Rightarrow> (row option \<times> tenant_db) option" where
  "updateProject env db i projectData = pg_update env ''projects'' i projectData (Date_now env) db"

definition updateTimesheet ::
  "env \<Rightarrow> tenant_db \<Rightarrow> int option \<Rightarrow> row \<Rightarrow> (row option \<times> tenant_db) option" where
  "updateTimesheet env db i timesheetData =
     pg_update env ''timesheets'' i timesheetData (Date_now env) db"

definition updateTask ::
  "env \<Rightarrow> tenant_db \<Rightarrow> int option \<Rightarrow> row \<Rightarrow> (row option \<times> tenant_db) option" where
  "updateTask env db i taskData = pg_update env ''tasks'' i taskData (Date_now env) db"

definition updateExpense ::
  "env \<Rightarrow> tenant_db \<Rightarrow> int option \<Rightarrow> row \<Rightarrow> (row option \<times> tenant_db) option" where
  "updateExpense env db i expenseData = pg_update env ''expenses'' i expenseData (Date_now env) db"

definition deleteUser :: "env \<Rightarrow> tenant_db \<Rightarrow> int option \<Rightarrow> tenant_db option" where
  "deleteUser env db i = pg_delete env ''users'' i db"

definition deleteCustomer :: "env \<Rightarrow> tenant_db \<Rightarrow> int option \<Rightarrow> tenant_db option" where
  "deleteCustomer env db i = pg_delete env ''customers'' i db"

definition deleteProject :: "env \<Rightarrow> tenant_db \<Rightarrow> int option \<Rightarrow> tenant_db option" where
  "deleteProject env db i = pg_delete env ''projects'' i db"

definition deleteTimesheet :: "env \<Rightarrow> tenant_db \<Rightarrow> int option \<Rightarrow> tenant_db option" where
  "deleteTimesheet env db i = pg_delete env ''timesheets'' i db"

definition deleteTask :: "env \<Rightarrow> tenant_db \<Rightarrow> int option \<Rightarrow> tenant_db option" where
  "deleteTask env db i = pg_delete env ''tasks'' i db"

definition deleteExpense :: "env \<Rightarrow> tenant_db \<Rightarrow> int option \<Rightarrow> tenant_db option" where
  "deleteExpense env db i = pg_delete env ''expenses'' i db"

text \<open>
  \<open>assignUserToProject\<close> selects the project, throws when there is none, and inserts the
  assignment with the project's \<open>tenantId\<close>, or updates the one that exists.
\<close>

definition object :: "(string \<times> jsval option) list \<Rightarrow> row" where
  "object kvs = concat (map (\<lambda>kv. case snd kv of None \<Rightarrow> [] | Some v \<Rightarrow> [(fst kv, v)]) kvs)"

definition assignUserToProject ::
  "env \<Rightarrow> tenant_db \<Rightarrow> int option \<Rightarrow> jsval option \<Rightarrow> jsval \<Rightarrow> tenant_db option" where
  "assignUserToProject env db projectId userId role' =
     (case int_param projectId of
        None \<Rightarrow> None
      | Some i \<Rightarrow>
          (case find (\<lambda>p. map_of p ''id'' = Some (JNum i)) (projects db) of
             None \<Rightarrow> None
           | Some project \<Rightarrow>
               pg_upsert env
                 (object [(''projectId'', Some (JNum i)), (''userId'', userId),
                          (''role'', Some role'), (''tenantId'', map_of project ''tenantId'')])
                 (Date_now env) db))"

definition storage_put :: "world \<Rightarrow> pool option \<Rightarrow> tenant_db \<Rightarrow> world" where
  "storage_put w tenantStorage db =
     (case tenantStorage of
        None \<Rightarrow> w
      | Some p \<Rightarrow> w\<lparr>dbs := map_set (dbs w) (connectionString p) db\<rparr>)"

section \<open>server/auth.ts\<close>

datatype payload =
  Message string
  | TypeErrorMessage
  | SuccessMessage string
  | LoginJson user tenant string
  | TenantJson tenant
  | UserJson user
  | UsersJson "user list"
  | RowJson row
  | RowsJson "row list"
  | Undefined
  | DashboardJson nat nat nat "tenant list"
  | SubscriptionJson string "string option" string

datatype reply = Reply nat payload

record tenant_ctx =
  ctx_id :: int
  ctx_subdomain :: string
  ctx_connectionString :: string

record request =
  authorization :: "string option"
  cookie_tenantToken :: "string option"
  params_subdomain :: string
  params_id :: string
  params_projectId :: string
  query_projectId :: "jsval option"
  body :: row
  req_user :: "user option"
  req_tenant :: "tenant_ctx option"

text \<open>A middleware either answers the request or calls \<open>next()\<close> with the request.\<close>

datatype outcome = Responded reply | Next request

definition bearer_token :: "request \<Rightarrow> string option" where
  "bearer_token req =
     (case authorization req of
        None \<Rightarrow> cookie_tenantToken req
      | Some authHeader \<Rightarrow>
          if authHeader \<noteq> [] \<and> take 7 authHeader = ''Bearer ''
          then Some (drop 7 authHeader)
          else cookie_tenantToken req)"

definition authenticateTenantUser :: "env \<Rightarrow> request \<Rightarrow> world \<Rightarrow> outcome \<times> world" where
  "authenticateTenantUser env req w =
     (case bearer_token req of
        None \<Rightarrow> (Responded (Reply 401 (Message ''Access token required'')), w)
      | Some token \<Rightarrow>
          if token = [] then (Responded (Reply 401 (Message ''Access token required'')), w)
          else
            (case verifyToken env token of
               None \<Rightarrow> (Responded (Reply 401 (Message ''Invalid token'')), w)
             | Some decoded \<Rightarrow>
                 (case getTenant (tenants w) (claim_tenantId decoded) of
                    None \<Rightarrow> (Responded (Reply 401 (Message ''Invalid or inactive tenant'')), w)
                  | Some tenant \<Rightarrow>
                      if tenant_status tenant \<noteq> ''active''
                      then (Responded (Reply 401 (Message ''Invalid or inactive tenant'')), w)
                      else
                        (let (tenantStorage, w1) =
                               createTenantStorage
                                 (js_or (dbConnectionString tenant) (DATABASE_URL env)) w
                         in case storage_db w1 tenantStorage of
                              None \<Rightarrow> (Responded (Reply 401 (Message ''Invalid token'')), w1)
                            | Some db \<Rightarrow>
                                (case getUser db (claim_userId decoded) of
                                   None \<Rightarrow>
                                     (Responded (Reply 401 (Message ''Invalid or inactive user'')), w1)
                                 | Some user \<Rightarrow>
                                     if \<not> isActive user \<or> user_tenantId user \<noteq> tenant_id tenant
                                     then (Responded (Reply 401 (Message ''Invalid or inactive user'')), w1)
                                     else
                                       (Next (req\<lparr>req_user := Some user,
                                                  req_tenant := Some
                                                    \<lparr>ctx_id = tenant_id tenant,
                                                     ctx_subdomain = subdomain tenant,
                                                     ctx_connectionString =
                                                       js_or (dbConnectionString tenant)
                                                         (DATABASE_URL env)\<rparr>\<rparr>),
                                        w1))))))"

definition requireTenantRole :: "string list \<Rightarrow> request \<Rightarrow> outcome" where
  "requireTenantRole roles req =
     (case req_user req of
        None \<Rightarrow> Responded (Reply 403 (Message ''Insufficient permissions''))
      | Some u \<Rightarrow>
          if role u \<notin> set roles
          then Responded (Reply 403 (Message ''Insufficient permissions''))
          else Next req)"

definition requireTenantAdmin :: "request \<Rightarrow> outcome" where
  "requireTenantAdmin = requireTenantRole [''admin'']"

definition requireTenantManager :: "request \<Rightarrow> outcome" where
  "requireTenantManager = requireTenantRole [''admin'', ''manager'']"

definition requireTenantUser :: "request \<Rightarrow> outcome" where
  "requireTenantUser = requireTenantRole [''admin'', ''manager'', ''user'']"

section \<open>shared/schema.ts: the insert schemas\<close>

text \<open>
  The insert schemas come from \<open>createInsertSchema(table).omit({id, createdAt,
  updatedAt})\<close>, so they follow the columns: a column that is NOT NULL without a default
  is required, one that is NOT NULL with a default may be absent, a nullable one may be
  absent or \<open>null\<close>; an integer column validates as a number, a varchar, text or numeric
  column as a string, a boolean column as a boolean, a timestamp column as a valid \<open>Date\<close>
  object. \<open>parse\<close> throws (\<open>None\<close>) when a field fails, and otherwise returns the object
  with the keys of the schema only.
\<close>

datatype presence = Required | Defaulted | Nullable

definition presence_of :: "column \<Rightarrow> presence" where
  "presence_of c =
     (if \<not> col_notnull c then Nullable
      else if col_default c \<noteq> None then Defaulted
      else Required)"

fun has_kind :: "env \<Rightarrow> coltype \<Rightarrow> jsval \<Rightarrow> bool" where
  "has_kind env CInteger (JNum n) = (in_int4 n \<or> \<not> zod_column_limits env)"
| "has_kind env CText (JStr s) = True"
| "has_kind env (CVarchar m) (JStr s) = (length s \<le> m \<or> \<not> zod_column_limits env)"
| "has_kind env (CNumeric p s) (JStr x) = True"
| "has_kind env CBoolean (JBool b) = True"
| "has_kind env CTimestamp (JDate d) = True"
| "has_kind env ct v = False"

definition field_ok :: "env \<Rightarrow> row \<Rightarrow> column \<Rightarrow> bool" where
  "field_ok env obj c =
     (case map_of obj (col_name c) of
        None \<Rightarrow> presence_of c \<noteq> Required
      | Some JNull \<Rightarrow> presence_of c = Nullable
      | Some v \<Rightarrow> has_kind env (col_type c) v)"

definition parse :: "env \<Rightarrow> column list \<Rightarrow> row \<Rightarrow> row option" where
  "parse env schema obj =
     (if list_all (field_ok env obj) schema
      then Some (filter (\<lambda>kv. fst kv \<in> set (map col_name schema)) obj)
      else None)"

definition insertTenantSchema :: "column list" where
  "insertTenantSchema = tenants_columns"

definition insertCustomerSchema :: "column list" where
  "insertCustomerSchema = customers_columns"

definition insertProjectSchema :: "column list" where
  "insertProjectSchema = projects_columns"

definition insertTaskSchema :: "column list" where
  "insertTaskSchema = tasks_columns"

definition insertTimesheetSchema :: "column list" where
  "insertTimesheetSchema = timesheets_columns"

definition insertExpenseSchema :: "column list" where
  "insertExpenseSchema = expenses_columns"

section \<open>server/routes.ts: the handlers\<close>

text \<open>
  A handler runs after the middleware of its route, on the request the middleware
  passed on. It returns the reply and the new state. An exception inside its \<open>try\<close>
  block is caught and answered with status 500.
\<close>

definition internal_error :: reply where
  "internal_error = Reply 500 (Message ''Internal server error'')"

definition js_or_val :: "jsval option \<Rightarrow> jsval \<Rightarrow> jsval" where
  "js_or_val x d = (case x of None \<Rightarrow> d | Some v \<Rightarrow> if js_truthy x then v else d)"

definition or_undefined :: "jsval option \<Rightarrow> jsval option" where
  "or_undefined x = (if js_truthy x then x else None)"

subsection \<open>GET /api/platform/dashboard\<close>

text \<open>
  The loop over the tenants opens the storage of each and counts its users; a tenant
  whose database throws counts for none. The reply's \<open>monthlyRevenue\<close> and \<open>growthRate\<close>,
  which are computed from the tenants table alone, are not part of \<open>DashboardJson\<close>: it
  holds \<open>totalTenants\<close>, \<open>totalUsers\<close>, \<open>activeTenants\<close> and \<open>recentTenants\<close>.
\<close>

fun count_users :: "env \<Rightarrow> tenant list \<Rightarrow> world \<Rightarrow> nat \<times> world" where
  "count_users env [] w = (0, w)"
| "count_users env (tenant # rest) w =
     (let (tenantStorage, w1) =
            createTenantStorage (js_or (dbConnectionString tenant) (DATABASE_URL env)) w;
          n = (case storage_db w1 tenantStorage of
                 None \<Rightarrow> 0
               | Some db \<Rightarrow> length (getUsersByTenant db (tenant_id tenant)));
          (totalUsers, w2) = count_users env rest w1
      in (n + totalUsers, w2))"

definition dashboard :: "env \<Rightarrow> request \<Rightarrow> world \<Rightarrow> reply \<times> world" where
  "dashboard env req w =
     (let (totalUsers, w1) = count_users env (tenants w) w
      in (Reply 200
            (DashboardJson (length (tenants w)) totalUsers
               (length (filter (\<lambda>t. tenant_status t = ''active'') (tenants w)))
               (rev (drop (length (tenants w) - 5) (tenants w)))),
          w1))"

subsection \<open>POST /api/tenant/:subdomain/auth/login\<close>

text \<open>
  The route has no middleware. \<open>email\<close> and \<open>password\<close> are read from the body as they
  are: the email is the parameter of the query, and a password that is not a string
  makes \<open>bcrypt.compare\<close> throw.
\<close>

definition tenant_login :: "env \<Rightarrow> request \<Rightarrow> world \<Rightarrow> reply \<times> world" where
  "tenant_login env req w =
     (let email_v = map_of (body req) ''email'';
          password_v = map_of (body req) ''password''
      in if \<not> js_truthy email_v \<or> \<not> js_truthy password_v
         then (Reply 400 (Message ''Email and password required''), w)
         else
           (case getTenantBySubdomain (tenants w) (params_subdomain req) of
              None \<Rightarrow> (Reply 404 (Message ''Tenant not found or inactive''), w)
            | Some tenant \<Rightarrow>
                if tenant_status tenant \<noteq> ''active''
                then (Reply 404 (Message ''Tenant not found or inactive''), w)
                else
                  (let (tenantStorage, w1) =
                         createTenantStorage
                           (js_or (dbConnectionString tenant) (DATABASE_URL env)) w
                   in case storage_db w1 tenantStorage of
                        None \<Rightarrow> (internal_error, w1)
                      | Some db \<Rightarrow>
                          (case text_param env email_v of
                             None \<Rightarrow> (internal_error, w1)
                           | Some email \<Rightarrow>
                               (case (case email of
                                        None \<Rightarrow> None
                                      | Some e \<Rightarrow> getUserByEmail db e) of
                                  None \<Rightarrow> (Reply 401 (Message ''Invalid credentials''), w1)
                                | Some user \<Rightarrow>
                                    if user_tenantId user \<noteq> tenant_id tenant
                                    then (Reply 401 (Message ''Invalid credentials''), w1)
                                    else
                                      (case as_string password_v of
                                         None \<Rightarrow> (internal_error, w1)
                                       | Some pw \<Rightarrow>
                                           if \<not> comparePasswords env pw (password user)
                                           then (Reply 401 (Message ''Invalid credentials''), w1)
                                           else if \<not> isActive user
                                           then (Reply 401 (Message ''Account is disabled''), w1)
                                           else
                                             (Reply 200
                                                (LoginJson user tenant
                                                   (generateToken env
                                                      \<lparr>claim_userId = user_id user,
                                                       claim_tenantId = tenant_id tenant,
                                                       claim_role = role user,
                                                       claim_type = ''tenant''\<rparr>)),
                                              w1)))))))"

subsection \<open>POST /api/platform/tenants\<close>

definition create_tenant :: "env \<Rightarrow> request \<Rightarrow> world \<Rightarrow> reply \<times> world" where
  "create_tenant env req w =
     (case parse env insertTenantSchema (body req) of
        None \<Rightarrow> (internal_error, w)
      | Some validatedData \<Rightarrow>
          (case text_param env (map_of validatedData ''subdomain'') of
             None \<Rightarrow> (internal_error, w)
           | Some sd \<Rightarrow>
               if (case sd of
                     None \<Rightarrow> False
                   | Some s \<Rightarrow> getTenantBySubdomain (tenants w) s \<noteq> None)
               then (Reply 400 (Message ''Subdomain already exists''), w)
               else
                 (case createTenant env
                         (map_set validatedData ''dbConnectionString''
                            (js_or_val (map_of validatedData ''dbConnectionString'')
                               (JStr (DATABASE_URL env))))
                         (tenants w) of
                    None \<Rightarrow> (internal_error, w)
                  | Some (tenant, ts) \<Rightarrow> (Reply 201 (TenantJson tenant), w\<lparr>tenants := ts\<rparr>))))"

subsection \<open>The handlers of the tenant routes\<close>

text \<open>
  Every handler of a tenant route opens its storage with
  \<open>createTenantStorage(req.tenant!.connectionString)\<close> and sends its queries through it.
  \<open>with_tenant_storage\<close> is that part of a handler: it opens the storage and runs the
  queries on the database behind it. The queries give the reply and the database they
  leave; \<open>None\<close> is a throw, answered with status 500. A request without \<open>req.tenant\<close>
  throws before the storage is opened.
\<close>

definition with_tenant_storage ::
  "request \<Rightarrow> world \<Rightarrow> (tenant_ctx \<Rightarrow> tenant_db \<Rightarrow> (reply \<times> tenant_db) option) \<Rightarrow> reply \<times> world" where
  "with_tenant_storage req w queries =
     (case req_tenant req of
        None \<Rightarrow> (internal_error, w)
      | Some tenant \<Rightarrow>
          (let (tenantStorage, w1) = createTenantStorage (ctx_connectionString tenant) w
           in case storage_db w1 tenantStorage of
                None \<Rightarrow> (internal_error, w1)
              | Some db \<Rightarrow>
                  (case queries tenant db of
                     None \<Rightarrow> (internal_error, w1)
                   | Some (r, db') \<Rightarrow> (r, storage_put w1 tenantStorage db'))))"

definition pick :: "string list \<Rightarrow> row \<Rightarrow> row" where
  "pick keys r = object (map (\<lambda>k. (k, map_of r k)) keys)"

text \<open>Users: POST, GET, PUT and DELETE under \<open>/api/tenant/:subdomain/users\<close>.\<close>

definition create_user :: "env \<Rightarrow> request \<Rightarrow> world \<Rightarrow> reply \<times> world" where
  "create_user env req w =
     with_tenant_storage req w (\<lambda>tenant db.
       case text_param env (map_of (body req) ''email'') of
         None \<Rightarrow> None
       | Some email \<Rightarrow>
           if (case email of None \<Rightarrow> False | Some e \<Rightarrow> getUserByEmail db e \<noteq> None)
           then Some (Reply 400 (Message ''User already exists''), db)
           else
             (case as_string (map_of (body req) ''password'') of
                None \<Rightarrow> None
              | Some pw \<Rightarrow>
                  (case createUser env
                          (object
                             [(''email'', map_of (body req) ''email''),
                              (''password'', Some (JStr (hashPassword env pw))),
                              (''firstName'', map_of (body req) ''firstName''),
                              (''lastName'', map_of (body req) ''lastName''),
                              (''employeeId'', or_undefined (map_of (body req) ''employeeId'')),
                              (''department'', or_undefined (map_of (body req) ''department'')),
                              (''designation'', or_undefined (map_of (body req) ''designation'')),
                              (''role'', Some (js_or_val (map_of (body req) ''role'') (JStr ''user''))),
                              (''isActive'', Some (JBool True)),
                              (''tenantId'', Some (JNum (ctx_id tenant)))])
                          db of
                     None \<Rightarrow> None
                   | Some (user, db') \<Rightarrow> Some (Reply 201 (UserJson user), db'))))"

definition get_users :: "env \<Rightarrow> request \<Rightarrow> world \<Rightarrow> reply \<times> world" where
  "get_users env req w =
     with_tenant_storage req w (\<lambda>tenant db.
       Some (Reply 200 (UsersJson (getUsersByTenant db (ctx_id tenant))), db))"

definition update_user :: "env \<Rightarrow> request \<Rightarrow> world \<Rightarrow> reply \<times> world" where
  "update_user env req w =
     (let userId = parseInt env (JStr (params_id req));
          updateData = body req
      in with_tenant_storage req w (\<lambda>tenant db.
           case updateUser env db userId updateData of
             None \<Rightarrow> None
           | Some (user, db') \<Rightarrow>
               (case user of
                  None \<Rightarrow> Some (internal_error, db')
                | Some u \<Rightarrow>
                    Some (Reply 200
                            (RowJson (pick [''id'', ''email'', ''firstName'', ''lastName'',
                                            ''employeeId'', ''department'', ''designation'',
                                            ''role'', ''isActive'', ''updatedAt''] u)),
                          db'))))"

definition delete_user :: "env \<Rightarrow> request \<Rightarrow> world \<Rightarrow> reply \<times> world" where
  "delete_user env req w =
     (let userId = parseInt env (JStr (params_id req))
      in with_tenant_storage req w (\<lambda>tenant db.
           case deleteUser env db userId of
             None \<Rightarrow> None
           | Some db' \<Rightarrow> Some (Reply 200 (Message ''User deleted successfully''), db')))"

text \<open>Customers.\<close>

definition get_customers :: "env \<Rightarrow> request \<Rightarrow> world \<Rightarrow> reply \<times> world" where
  "get_customers env req w =
     with_tenant_storage req w (\<lambda>tenant db.
       Some (Reply 200 (RowsJson (getCustomersByTenant db (ctx_id tenant))), db))"

definition create_customer :: "env \<Rightarrow> request \<Rightarrow> world \<Rightarrow> reply \<times> world" where
  "create_customer env req w =
     (case parse env insertCustomerSchema (body req) of
        None \<Rightarrow> (internal_error, w)
      | Some validatedData \<Rightarrow>
          with_tenant_storage req w (\<lambda>tenant db.
            case req_user req of
              None \<Rightarrow> None
            | Some u \<Rightarrow>
                (case createCustomer env
                        (map_set (map_set validatedData ''tenantId'' (JNum (ctx_id tenant)))
                           ''createdById'' (JNum (user_id u)))
                        db of
                   None \<Rightarrow> None
                 | Some (customer, db') \<Rightarrow> Some (Reply 201 (RowJson customer), db'))))"

definition update_customer :: "env \<Rightarrow> request \<Rightarrow> world \<Rightarrow> reply \<times> world" where
  "update_customer env req w =
     (let customerId = parseInt env (JStr (params_id req));
          updateData = body req
      in with_tenant_storage req w (\<lambda>tenant db.
           case updateCustomer env db customerId updateData of
             None \<Rightarrow> None
           | Some (customer, db') \<Rightarrow>
               Some (Reply 200 (case customer of None \<Rightarrow> Undefined | Some c \<Rightarrow> RowJson c), db')))"

definition delete_customer :: "env \<Rightarrow> request \<Rightarrow> world \<Rightarrow> reply \<times> world" where
  "delete_customer env req w =
     (let customerId = parseInt env (JStr (params_id req))
      in with_tenant_storage req w (\<lambda>tenant db.
           case deleteCustomer env db customerId of
             None \<Rightarrow> None
           | Some db' \<Rightarrow> Some (Reply 200 (Message ''Customer deleted successfully''), db')))"

text \<open>
  Projects. The create handler turns \<open>startDate\<close> and \<open>endDate\<close> into \<open>Date\<close> objects and
  sets \<open>tenantId\<close> and \<open>createdById\<close> before it validates; an invalid date fails the
  validation.
\<close>

definition get_projects :: "env \<Rightarrow> request \<Rightarrow> world \<Rightarrow> reply \<times> world" where
  "get_projects env req w =
     with_tenant_storage req w (\<lambda>tenant db.
       Some (Reply 200 (RowsJson (getProjectsByTenant db (ctx_id tenant))), db))"

definition to_Date :: "env \<Rightarrow> jsval option \<Rightarrow> jsval option" where
  "to_Date env x =
     (case x of
        None \<Rightarrow> None
      | Some v \<Rightarrow>
          if js_truthy x
          then Some (case new_Date env v of None \<Rightarrow> JOther | Some d \<Rightarrow> JDate d)
          else None)"

definition create_project :: "env \<Rightarrow> request \<Rightarrow> world \<Rightarrow> reply \<times> world" where
  "create_project env req w =
     (case (req_tenant req, req_user req) of
        (Some tenant, Some u) \<Rightarrow>
          (let requestData =
                 filter (\<lambda>kv. fst kv \<notin> {''startDate'', ''endDate'', ''tenantId'', ''createdById''})
                   (body req) @
                 object
                   [(''startDate'', to_Date env (map_of (body req) ''startDate'')),
                    (''endDate'', to_Date env (map_of (body req) ''endDate'')),
                    (''tenantId'', Some (JNum (ctx_id tenant))),
                    (''createdById'', Some (JNum (user_id u)))]
           in case parse env insertProjectSchema requestData of
                None \<Rightarrow> (internal_error, w)
              | Some validatedData \<Rightarrow>
                  with_tenant_storage req w (\<lambda>tenant db.
                    case createProject env validatedData db of
                      None \<Rightarrow> None
                    | Some (project, db') \<Rightarrow> Some (Reply 201 (RowJson project), db')))
      | _ \<Rightarrow> (internal_error, w))"

definition update_project :: "env \<Rightarrow> request \<Rightarrow> world \<Rightarrow> reply \<times> world" where
  "update_project env req w =
     (let projectId = parseInt env (JStr (params_id req));
          updateData = body req
      in with_tenant_storage req w (\<lambda>tenant db.
           case updateProject env db projectId updateData of
             None \<Rightarrow> None
           | Some (project, db') \<Rightarrow>
               Some (Reply 200 (case project of None \<Rightarrow> Undefined | Some p \<Rightarrow> RowJson p), db')))"

definition delete_project :: "env \<Rightarrow> request \<Rightarrow> world \<Rightarrow> reply \<times> world" where
  "delete_project env req w =
     (let projectId = parseInt env (JStr (params_id req))
      in with_tenant_storage req w (\<lambda>tenant db.
           case deleteProject env db projectId of
             None \<Rightarrow> None
           | Some db' \<Rightarrow> Some (Reply 200 (Message ''Project deleted successfully''), db')))"

text \<open>Timesheets.\<close>

definition get_timesheets :: "env \<Rightarrow> request \<Rightarrow> world \<Rightarrow> reply \<times> world" where
  "get_timesheets env req w =
     with_tenant_storage req w (\<lambda>tenant db.
       case req_user req of
         None \<Rightarrow> None
       | Some u \<Rightarrow> Some (Reply 200 (RowsJson (getTimesheetsByUser db (user_id u))), db))"

definition create_timesheet :: "env \<Rightarrow> request \<Rightarrow> world \<Rightarrow> reply \<times> world" where
  "create_timesheet env req w =
     (case parse env insertTimesheetSchema (body req) of
        None \<Rightarrow> (internal_error, w)
      | Some validatedData \<Rightarrow>
          with_tenant_storage req w (\<lambda>tenant db.
            case req_user req of
              None \<Rightarrow> None
            | Some u \<Rightarrow>
                (case createTimesheet env
                        (map_set (map_set validatedData ''userId'' (JNum (user_id u)))
                           ''tenantId'' (JNum (ctx_id tenant)))
                        db of
                   None \<Rightarrow> None
                 | Some (timesheet, db') \<Rightarrow> Some (Reply 201 (RowJson timesheet), db'))))"

definition update_timesheet :: "env \<Rightarrow> request \<Rightarrow> world \<Rightarrow> reply \<times> world" where
  "update_timesheet env req w =
     (let timesheetId = parseInt env (JStr (params_id req));
          updateData = body req
      in with_tenant_storage req w (\<lambda>tenant db.
           case updateTimesheet env db timesheetId updateData of
             None \<Rightarrow> None
           | Some (timesheet, db') \<Rightarrow>
               Some (Reply 200 (case timesheet of None \<Rightarrow> Undefined | Some t \<Rightarrow> RowJson t), db')))"

definition delete_timesheet :: "env \<Rightarrow> request \<Rightarrow> world \<Rightarrow> reply \<times> world" where
  "delete_timesheet env req w =
     (let timesheetId = parseInt env (JStr (params_id req))
      in with_tenant_storage req w (\<lambda>tenant db.
           case deleteTimesheet env db timesheetId of
             None \<Rightarrow> None
           | Some db' \<Rightarrow> Some (Reply 200 (Message ''Timesheet deleted successfully''), db')))"

text \<open>Tasks. The list is by project when the query string names one.\<close>

definition get_tasks :: "env \<Rightarrow> request \<Rightarrow> world \<Rightarrow> reply \<times> world" where
  "get_tasks env req w =
     with_tenant_storage req w (\<lambda>tenant db.
       case query_projectId req of
         None \<Rightarrow> Some (Reply 200 (RowsJson (getTasksByTenant db (ctx_id tenant))), db)
       | Some projectId \<Rightarrow>
           if js_truthy (Some projectId)
           then (case int_param (parseInt env projectId) of
                   None \<Rightarrow> None
                 | Some i \<Rightarrow> Some (Reply 200 (RowsJson (getTasksByProject db i)), db))
           else Some (Reply 200 (RowsJson (getTasksByTenant db (ctx_id tenant))), db))"

definition create_task :: "env \<Rightarrow> request \<Rightarrow> world \<Rightarrow> reply \<times> world" where
  "create_task env req w =
     (case parse env insertTaskSchema (body req) of
        None \<Rightarrow> (internal_error, w)
      | Some validatedData \<Rightarrow>
          with_tenant_storage req w (\<lambda>tenant db.
            case req_user req of
              None \<Rightarrow> None
            | Some u \<Rightarrow>
                (case createTask env
                        (map_set (map_set validatedData ''tenantId'' (JNum (ctx_id tenant)))
                           ''createdById'' (JNum (user_id u)))
                        db of
                   None \<Rightarrow> None
                 | Some (task, db') \<Rightarrow> Some (Reply 201 (RowJson task), db'))))"

definition update_task :: "env \<Rightarrow> request \<Rightarrow> world \<Rightarrow> reply \<times> world" where
  "update_task env req w =
     (let taskId = parseInt env (JStr (params_id req));
          updateData = body req
      in with_tenant_storage req w (\<lambda>tenant db.
           case updateTask env db taskId updateData of
             None \<Rightarrow> None
           | Some (task, db') \<Rightarrow>
               Some (Reply 200 (case task of None \<Rightarrow> Undefined | Some t \<Rightarrow> RowJson t), db')))"

definition delete_task :: "env \<Rightarrow> request \<Rightarrow> world \<Rightarrow> reply \<times> world" where
  "delete_task env req w =
     (let taskId = parseInt env (JStr (params_id req))
      in with_tenant_storage req w (\<lambda>tenant db.
           case deleteTask env db taskId of
             None \<Rightarrow> None
           | Some db' \<Rightarrow> Some (Reply 200 (Message ''Task deleted successfully''), db')))"

text \<open>Project assignments.\<close>

definition get_assigned_projects :: "env \<Rightarrow> request \<Rightarrow> world \<Rightarrow> reply \<times> world" where
  "get_assigned_projects env req w =
     with_tenant_storage req w (\<lambda>tenant db.
       case req_user req of
         None \<Rightarrow> None
       | Some u \<Rightarrow> Some (Reply 200 (RowsJson (getAssignedProjects db (user_id u))), db))"

definition assign_user_to_project :: "env \<Rightarrow> request \<Rightarrow> world \<Rightarrow> reply \<times> world" where
  "assign_user_to_project env req w =
     (let projectId = parseInt env (JStr (params_projectId req));
          userId = map_of (body req) ''userId'';
          role' = map_of (body req) ''role''
      in with_tenant_storage req w (\<lambda>tenant db.
           case assignUserToProject env db projectId userId (js_or_val role' (JStr ''member'')) of
             None \<Rightarrow> None
           | Some db' \<Rightarrow>
               Some (Reply 200 (Message ''User assigned to project successfully''), db')))"

text \<open>Expenses.\<close>

definition get_expenses :: "env \<Rightarrow> request \<Rightarrow> world \<Rightarrow> reply \<times> world" where
  "get_expenses env req w =
     with_tenant_storage req w (\<lambda>tenant db.
       case req_user req of
         None \<Rightarrow> None
       | Some u \<Rightarrow> Some (Reply 200 (RowsJson (getExpensesByUser db (user_id u))), db))"

definition create_expense :: "env \<Rightarrow> request \<Rightarrow> world \<Rightarrow> reply \<times> world" where
  "create_expense env req w =
     (case parse env insertExpenseSchema (body req) of
        None \<Rightarrow> (internal_error, w)
      | Some validatedData \<Rightarrow>
          with_tenant_storage req w (\<lambda>tenant db.
            case req_user req of
              None \<Rightarrow> None
            | Some u \<Rightarrow>
                (case createExpense env
                        (map_set (map_set validatedData ''userId'' (JNum (user_id u)))
                           ''tenantId'' (JNum (ctx_id tenant)))
                        db of
                   None \<Rightarrow> None
                 | Some (expense, db') \<Rightarrow> Some (Reply 201 (RowJson expense), db'))))"

definition update_expense :: "env \<Rightarrow> request \<Rightarrow> world \<Rightarrow> reply \<times> world" where
  "update_expense env req w =
     (let expenseId = parseInt env (JStr (params_id req));
          updateData = body req
      in with_tenant_storage req w (\<lambda>tenant db.
           case updateExpense env db expenseId updateData of
             None \<Rightarrow> None
           | Some (expense, db') \<Rightarrow>
               Some (Reply 200 (case expense of None \<Rightarrow> Undefined | Some e \<Rightarrow> RowJson e), db')))"

definition delete_expense :: "env \<Rightarrow> request \<Rightarrow> world \<Rightarrow> reply \<times> world" where
  "delete_expense env req w =
     (let expenseId = parseInt env (JStr (params_id req))
      in with_tenant_storage req w (\<lambda>tenant db.
           case deleteExpense env db expenseId of
             None \<Rightarrow> None
           | Some db' \<Rightarrow> Some (Reply 200 (Message ''Expense deleted successfully''), db')))"

text \<open>
  The routes that open the tenant storage, as \<open>registerRoutes\<close> declares them: method,
  path, the role gate that follows \<open>authenticateTenantUser\<close>, and the handler.
\<close>

definition tenant_routes ::
  "env \<Rightarrow> (string \<times> string \<times> (request \<Rightarrow> outcome) \<times> (request \<Rightarrow> world \<Rightarrow> reply \<times> world)) list" where
  "tenant_routes env =
     [(''POST'', ''/api/tenant/:subdomain/users'', requireTenantManager, create_user env),
      (''GET'', ''/api/tenant/:subdomain/users'', requireTenantManager, get_users env),
      (''PUT'', ''/api/tenant/:subdomain/users/:id'', requireTenantManager, update_user env),
      (''DELETE'', ''/api/tenant/:subdomain/users/:id'', requireTenantManager, delete_user env),
      (''GET'', ''/api/tenant/:subdomain/customers'', requireTenantUser, get_customers env),
      (''POST'', ''/api/tenant/:subdomain/customers'', requireTenantUser, create_customer env),
      (''PUT'', ''/api/tenant/:subdomain/customers/:id'', requireTenantUser, update_customer env),
      (''DELETE'', ''/api/tenant/:subdomain/customers/:id'', requireTenantManager, delete_customer env),
      (''GET'', ''/api/tenant/:subdomain/projects'', requireTenantUser, get_projects env),
      (''POST'', ''/api/tenant/:subdomain/projects'', requireTenantManager, create_project env),
      (''PUT'', ''/api/tenant/:subdomain/projects/:id'', requireTenantManager, update_project env),
      (''DELETE'', ''/api/tenant/:subdomain/projects/:id'', requireTenantManager, delete_project env),
      (''GET'', ''/api/tenant/:subdomain/timesheets'', requireTenantUser, get_timesheets env),
      (''POST'', ''/api/tenant/:subdomain/timesheets'', requireTenantUser, create_timesheet env),
      (''PUT'', ''/api/tenant/:subdomain/timesheets/:id'', requireTenantUser, update_timesheet env),
      (''DELETE'', ''/api/tenant/:subdomain/timesheets/:id'', requireTenantUser, delete_timesheet env),
      (''GET'', ''/api/tenant/:subdomain/tasks'', requireTenantUser, get_tasks env),
      (''POST'', ''/api/tenant/:subdomain/tasks'', requireTenantUser, create_task env),
      (''PUT'', ''/api/tenant/:subdomain/tasks/:id'', requireTenantUser, update_task env),
      (''DELETE'', ''/api/tenant/:subdomain/tasks/:id'', requireTenantUser, delete_task env),
      (''GET'', ''/api/tenant/:subdomain/projects/assigned'', requireTenantUser,
       get_assigned_projects env),
      (''POST'', ''/api/tenant/:subdomain/projects/:projectId/assign'', requireTenantManager,
       assign_user_to_project env),
      (''GET'', ''/api/tenant/:subdomain/expenses'', requireTenantUser, get_expenses env),
      (''POST'', ''/api/tenant/:subdomain/expenses'', requireTenantUser, create_expense env),
      (''PUT'', ''/api/tenant/:subdomain/expenses/:id'', requireTenantUser, update_expense env),
      (''DELETE'', ''/api/tenant/:subdomain/expenses/:id'', requireTenantUser, delete_expense env)]"

subsection \<open>POST /api/tenant/:subdomain/subscription/upgrade and cancel\<close>

text \<open>
  Both handlers answer a caught error with status 500 and \<open>error.message\<close>, or a fixed
  text when the message is empty. Besides the reply and the state they return the calls
  they made to Stripe, in order.
\<close>

datatype failure = StripeError string | DbError string | TypeError

definition failure_reply :: "string \<Rightarrow> failure \<Rightarrow> reply" where
  "failure_reply dflt f =
     (case f of
        StripeError m \<Rightarrow> Reply 500 (Message (if m = [] then dflt else m))
      | DbError m \<Rightarrow> Reply 500 (Message (if m = [] then dflt else m))
      | TypeError \<Rightarrow> Reply 500 TypeErrorMessage)"

definition cancel_existing :: "env \<Rightarrow> tenant \<Rightarrow> (string + unit) \<times> stripe_call list" where
  "cancel_existing env tenant =
     (case stripeSubscriptionId tenant of
        None \<Rightarrow> (Inr (), [])
      | Some sid \<Rightarrow>
          if sid = [] then (Inr (), [])
          else (subscriptions_cancel env sid, [SubscriptionsCancel sid]))"

definition new_customer_params :: "request \<Rightarrow> tenant \<Rightarrow> customer_params" where
  "new_customer_params req tenant =
     \<lparr>cp_email = (case req_user req of None \<Rightarrow> [] | Some u \<Rightarrow> user_email u),
      cp_name =
        (case req_user req of None \<Rightarrow> [] | Some u \<Rightarrow> js_or (firstName u) []) @ '' '' @
        (case req_user req of None \<Rightarrow> [] | Some u \<Rightarrow> js_or (lastName u) []),
      cp_tenantId = tenant_id tenant,
      cp_subdomain = params_subdomain req\<rparr>"

definition ensure_customer ::
  "env \<Rightarrow> request \<Rightarrow> tenant \<Rightarrow> (string + string) \<times> stripe_call list" where
  "ensure_customer env req tenant =
     (if truthy (stripeCustomerId tenant)
      then (Inr (js_or (stripeCustomerId tenant) []), [])
      else (customers_create env (new_customer_params req tenant),
            [CustomersCreate (new_customer_params req tenant)]))"

definition toUpperCase :: "char \<Rightarrow> char" where
  "toUpperCase c =
     (if (97::nat) \<le> of_char c \<and> of_char c \<le> (122::nat)
      then char_of (of_char c - (32::nat))
      else c)"

definition capitalize :: "string \<Rightarrow> string" where
  "capitalize p = (case p of [] \<Rightarrow> [] | c # cs \<Rightarrow> toUpperCase c # cs)"

definition upgrade_failed :: string where
  "upgrade_failed = ''Failed to upgrade subscription''"

definition subscription_upgrade ::
  "env \<Rightarrow> request \<Rightarrow> world \<Rightarrow> reply \<times> stripe_call list \<times> world" where
  "subscription_upgrade env req w =
     (let plan = map_of (body req) ''plan''
      in case getTenantBySubdomain (tenants w) (params_subdomain req) of
           None \<Rightarrow> (Reply 404 (Message ''Tenant not found''), [], w)
         | Some tenant \<Rightarrow>
             if plan = Some (JStr ''free'') then
               (case cancel_existing env tenant of
                  (Inl m, calls) \<Rightarrow> (failure_reply upgrade_failed (StripeError m), calls, w)
                | (Inr u, calls) \<Rightarrow>
                    (Reply 200 (SuccessMessage ''Downgraded to free plan''), calls,
                     w\<lparr>tenants :=
                         updateTenantSubscription (tenants w) (tenant_id tenant)
                           \<lparr>su_subscriptionPlan = ''free'',
                            su_subscriptionStatus = ''active'',
                            su_stripeCustomerId = None,
                            su_stripeSubscriptionId = Some None,
                            su_subscriptionEndsAt = Some None\<rparr>
                           (Date_now env)\<rparr>))
             else
               (case ensure_customer env req tenant of
                  (Inl m, calls) \<Rightarrow> (failure_reply upgrade_failed (StripeError m), calls, w)
                | (Inr customerId', calls) \<Rightarrow>
                    (case as_string plan of
                       None \<Rightarrow> (failure_reply upgrade_failed TypeError, calls, w)
                     | Some p \<Rightarrow>
                         (let params =
                                \<lparr>sp_customer = customerId',
                                 sp_product_name = capitalize p @ '' Plan'',
                                 sp_unit_amount = (if p = ''enterprise'' then 500 else 1500)\<rparr>
                          in case subscriptions_create env params of
                               Inl m \<Rightarrow>
                                 (failure_reply upgrade_failed (StripeError m),
                                  calls @ [SubscriptionsCreate params], w)
                             | Inr subscription \<Rightarrow>
                                 if length p > 50 then
                                   (failure_reply upgrade_failed
                                      (DbError ''value too long for type character varying(50)''),
                                    calls @ [SubscriptionsCreate params], w)
                                 else
                                   (Reply 200
                                      (SubscriptionJson (sub_id subscription)
                                         (sub_client_secret subscription)
                                         (sub_status subscription)),
                                    calls @ [SubscriptionsCreate params],
                                    w\<lparr>tenants :=
                                        updateTenantSubscription (tenants w) (tenant_id tenant)
                                          \<lparr>su_subscriptionPlan = p,
                                           su_subscriptionStatus = ''active'',
                                           su_stripeCustomerId = Some (Some customerId'),
                                           su_stripeSubscriptionId = Some (Some (sub_id subscription)),
                                           su_subscriptionEndsAt =
                                             Some (Some (Date_now env + 30 * 24 * 60 * 60 * 1000))\<rparr>
                                          (Date_now env)\<rparr>)))))"

definition cancel_failed :: string where
  "cancel_failed = ''Failed to cancel subscription''"

definition subscription_cancel ::
  "env \<Rightarrow> request \<Rightarrow> world \<Rightarrow> reply \<times> stripe_call list \<times> world" where
  "subscription_cancel env req w =
     (case getTenantBySubdomain (tenants w) (params_subdomain req) of
        None \<Rightarrow> (Reply 404 (Message ''Tenant not found''), [], w)
      | Some tenant \<Rightarrow>
          (case cancel_existing env tenant of
             (Inl m, calls) \<Rightarrow> (failure_reply cancel_failed (StripeError m), calls, w)
           | (Inr u, calls) \<Rightarrow>
               (Reply 200 (SuccessMessage ''Subscription cancelled successfully''), calls,
                w\<lparr>tenants :=
                    updateTenantSubscription (tenants w) (tenant_id tenant)
                      \<lparr>su_subscriptionPlan = ''free'',
                       su_subscriptionStatus = ''cancelled'',
                       su_stripeCustomerId = None,
                       su_stripeSubscriptionId = Some None,
                       su_subscriptionEndsAt = Some None\<rparr>
                      (Date_now env)\<rparr>)))"

text \<open>
  The cancel route as Express runs it: \<open>authenticateTenantUser\<close>, then the handler on
  the request that the middleware passed on.
\<close>

definition post_subscription_cancel ::
  "env \<Rightarrow> request \<Rightarrow> world \<Rightarrow> reply \<times> stripe_call list \<times> world" where
  "post_subscription_cancel env req w =
     (case authenticateTenantUser env req w of
        (Responded r, w1) \<Rightarrow> (r, [], w1)
      | (Next req', w1) \<Rightarrow> subscription_cancel env req' w1)"

text \<open>
  The tenant-domain roles in increasing privilege, as the claim about the role gates
  orders them: user, manager, admin. Any other string has no rank.
\<close>

definition tenant_role_rank :: "string \<Rightarrow> nat option" where
  "tenant_role_rank r =
     (if r = ''user'' then Some 1
      else if r = ''manager'' then Some 2
      else if r = ''admin'' then Some 3
      else None)"

definition passes :: "(request \<Rightarrow> outcome) \<Rightarrow> request \<Rightarrow> bool" where
  "passes gate req = (case gate req of Next r \<Rightarrow> True | Responded r \<Rightarrow> False)"

text \<open>
  For the claims about billing: whether a logged Stripe call failed, and the part of a
  tenant row that the subscription routes call the subscription state (plan, status,
  Stripe subscription id, end of the paid period).
\<close>

definition stripe_failed :: "env \<Rightarrow> stripe_call \<Rightarrow> bool" where
  "stripe_failed env c =
     (case c of
        CustomersCreate p \<Rightarrow> isl (customers_create env p)
      | SubscriptionsCreate p \<Rightarrow> isl (subscriptions_create env p)
      | SubscriptionsCancel sid \<Rightarrow> isl (subscriptions_cancel env sid))"

definition subscription_state :: "tenant \<Rightarrow> string \<times> string \<times> string option \<times> int option" where
  "subscription_state t =
     (subscriptionPlan t, subscriptionStatus t, stripeSubscriptionId t, subscriptionEndsAt t)"

text \<open>
  For the claims about tenant stores: the databases of \<open>w'\<close> are those of \<open>w\<close>, but
  for the one at address \<open>a\<close>, which may have been rewritten.
\<close>

definition writes_only :: "string \<Rightarrow> world \<Rightarrow> world \<Rightarrow> bool" where
  "writes_only a w w' =
     (dbs w' = dbs w \<or>
      (\<exists>db db'. map_get (dbs w) a = Some db \<and> dbs w' = map_set (dbs w) a db'))"

text \<open>
  A run of a handler is confined to the database at address \<open>a\<close> when, from every state
  whose registry \<open>getTenantDb\<close> built, it leaves the tenants table alone, opens no
  connection but the one for \<open>a\<close>, writes to no database but the one at \<open>a\<close>, and
  answers and writes the same in every state that has the same database at \<open>a\<close>.
\<close>

definition confined :: "string \<Rightarrow> (world \<Rightarrow> reply \<times> world) \<Rightarrow> bool" where
  "confined a run =
     (\<forall>w. registry_inv (registry w) \<longrightarrow>
        tenants (snd (run w)) = tenants w \<and>
        (registry (snd (run w)) = registry w \<or>
         registry (snd (run w)) = snd (getTenantDb a (registry w))) \<and>
        writes_only a w (snd (run w)) \<and>
        (\<forall>w2. registry_inv (registry w2) \<and> map_get (dbs w2) a = map_get (dbs w) a \<longrightarrow>
           fst (run w2) = fst (run w) \<and>
           map_get (dbs (snd (run w2))) a = map_get (dbs (snd (run w))) a))"

section \<open>Example data\<close>

text \<open>
  The state used to run the model on concrete inputs: tenant \<open>acme\<close> (id 5, no store
  address of its own, plan free) and tenant \<open>beta\<close> (id 7, its own store, plan
  standard), one user of \<open>acme\<close> in the platform database, and a request to the
  subdomain \<open>beta\<close> that carries a token issued for \<open>acme\<close>.
\<close>

definition example_env :: env where
  "example_env =
     \<lparr>DATABASE_URL = ''postgres://platform'',
      Date_now = 1000,
      verifyToken = (\<lambda>t. if t = ''token5''
                          then Some \<lparr>claim_userId = 1, claim_tenantId = 5,
                                     claim_role = ''admin'', claim_type = ''tenant''\<rparr>
                          else None),
      generateToken = (\<lambda>c. ''token5''),
      hashPassword = (\<lambda>p. ''hash:'' @ p),
      comparePasswords = (\<lambda>p h. h = ''hash:'' @ p),
      generateEmployeeId = ''EMP001'',
      generateCustomerId = ''CUS001'',
      customers_create = (\<lambda>p. Inr ''cus_1''),
      subscriptions_create =
        (\<lambda>p. Inr \<lparr>sub_id = ''sub_1'', sub_status = ''active'', sub_client_secret = None\<rparr>),
      subscriptions_cancel = (\<lambda>s. Inr ()),
      parseInt = (\<lambda>v. case v of
                          JNum n \<Rightarrow> Some n
                        | JStr s \<Rightarrow> if s = ''3'' then Some 3 else if s = ''1'' then Some 1 else None
                        | _ \<Rightarrow> None),
      new_Date = (\<lambda>v. case v of JNum n \<Rightarrow> Some n | _ \<Rightarrow> None),
      zod_column_limits = True,
      pg_now = 2000,
      pg_serial = (\<lambda>table. 2),
      pg_input = (\<lambda>ct v. case v of
                           JDate d \<Rightarrow> if ct = CTimestamp then Some (JDate d) else None
                         | JNum n \<Rightarrow> if ct = CVarchar 255 \<and> n = 5 then Some (JStr ''5'') else None
                         | JStr s \<Rightarrow>
                             if ct = CNumeric 4 2 \<and> s = ''0'' then Some (JStr ''0.00'')
                             else if ct = CNumeric 10 2 \<and> s = ''12.5'' then Some (JStr ''12.50'')
                             else None
                         | _ \<Rightarrow> None),
      pg_text_param = (\<lambda>x. if x = Some (JNum 5) then Some (Some ''5'') else Some None),
      pg_update = (\<lambda>table i data now db.
                     case i of
                       None \<Rightarrow> None
                     | Some n \<Rightarrow>
                         Some (Some ((''id'', JNum n) # data @ [(''updatedAt'', JDate now)]), db)),
      pg_delete = (\<lambda>table i db.
                     case i of
                       None \<Rightarrow> None
                     | Some n \<Rightarrow>
                         Some (db\<lparr>customers :=
                                 filter (\<lambda>r. map_of r ''id'' \<noteq> Some (JNum n)) (customers db)\<rparr>)),
      pg_upsert = (\<lambda>v now db. Some (db\<lparr>projectUsers := projectUsers db @ [v]\<rparr>))\<rparr>"

definition acme :: tenant where
  "acme =
     \<lparr>tenant_id = 5, tenant_name = ''Acme'', subdomain = ''acme'',
      dbConnectionString = None, tenant_status = ''active'',
      subscriptionPlan = ''free'', subscriptionStatus = ''active'',
      subscriptionEndsAt = None, stripeCustomerId = None, stripeSubscriptionId = None,
      maxUsers = 10, tenant_createdAt = 0, tenant_updatedAt = 0\<rparr>"

definition beta :: tenant where
  "beta =
     \<lparr>tenant_id = 7, tenant_name = ''Beta'', subdomain = ''beta'',
      dbConnectionString = Some ''postgres://beta'', tenant_status = ''active'',
      subscriptionPlan = ''standard'', subscriptionStatus = ''active'',
      subscriptionEndsAt = Some 5000, stripeCustomerId = Some ''cus_7'',
      stripeSubscriptionId = Some ''sub_7'',
      maxUsers = 10, tenant_createdAt = 0, tenant_updatedAt = 0\<rparr>"

definition alice :: user where
  "alice =
     \<lparr>user_id = 1, user_email = ''alice@acme.test'', password = ''hash:secret'',
      firstName = Some ''Alice'', lastName = None, employeeId = None, department = None,
      designation = None, role = ''admin'', isActive = True, user_tenantId = 5,
      user_createdAt = 0, user_updatedAt = 0\<rparr>"

definition example_world :: world where
  "example_world =
     \<lparr>tenants = [acme, beta],
      dbs = [(''postgres://platform'',
              \<lparr>users = [alice], customers = [], projects = [], tasks = [], timesheets = [],
               expenses = [], projectUsers = []\<rparr>),
             (''postgres://beta'',
              \<lparr>users = [], customers = [], projects = [], tasks = [], timesheets = [],
               expenses = [], projectUsers = []\<rparr>)],
      registry = init_registry\<rparr>"

definition example_request :: request where
  "example_request =
     \<lparr>authorization = Some ''Bearer token5'', cookie_tenantToken = None,
      params_subdomain = ''beta'', params_id = [], params_projectId = [],
      query_projectId = None, body = [], req_user = None, req_tenant = None\<rparr>"

definition example_claims :: claims where
  "example_claims =
     \<lparr>claim_userId = 1, claim_tenantId = 5, claim_role = ''admin'', claim_type = ''tenant''\<rparr>"

definition platform_pool :: pool where
  "platform_pool = \<lparr>pool_id = 0, connectionString = ''postgres://platform'', pool_max = 5\<rparr>"

definition opened_registry :: registry where
  "opened_registry =
     \<lparr>tenantConnections = [(''postgres://platform'', platform_pool)],
      constructed = [platform_pool]\<rparr>"

definition upgrade_request :: request where
  "upgrade_request =
     \<lparr>authorization = Some ''Bearer token5'', cookie_tenantToken = None,
      params_subdomain = ''acme'', params_id = [], params_projectId = [],
      query_projectId = None, body = [(''plan'', JStr ''standard'')],
      req_user = Some alice,
      req_tenant = Some \<lparr>ctx_id = 5, ctx_subdomain = ''acme'',
                          ctx_connectionString = ''postgres://platform''\<rparr>\<rparr>"

definition declining_env :: env where
  "declining_env = example_env\<lparr>subscriptions_create := (\<lambda>p. Inl ''card declined'')\<rparr>"

text \<open>
  A platform database with a row in every table, all of tenant 5, and the request that
  the middleware passes on for a token of \<open>alice\<close>. The bodies below are JSON: they
  hold no \<open>Date\<close>. Each names a tenant and a user that are not the caller's.
\<close>

definition stocked_db :: tenant_db where
  "stocked_db =
     \<lparr>users = [alice],
      customers = [[(''id'', JNum 1), (''customerId'', JStr ''CUS000''), (''tenantId'', JNum 5)]],
      projects = [[(''id'', JNum 3), (''name'', JStr ''Site''), (''tenantId'', JNum 5)]],
      tasks = [[(''id'', JNum 1), (''projectId'', JNum 3), (''tenantId'', JNum 5)]],
      timesheets = [[(''id'', JNum 1), (''userId'', JNum 1), (''tenantId'', JNum 5)]],
      expenses = [[(''id'', JNum 1), (''userId'', JNum 1), (''tenantId'', JNum 5)]],
      projectUsers = [[(''id'', JNum 1), (''projectId'', JNum 3), (''userId'', JNum 1),
                       (''tenantId'', JNum 5)]]\<rparr>"

definition stocked_world :: world where
  "stocked_world =
     \<lparr>tenants = [acme, beta],
      dbs = [(''postgres://platform'', stocked_db),
             (''postgres://beta'',
              \<lparr>users = [], customers = [], projects = [], tasks = [], timesheets = [],
               expenses = [], projectUsers = []\<rparr>)],
      registry = opened_registry\<rparr>"

definition passed_request :: request where
  "passed_request =
     \<lparr>authorization = Some ''Bearer token5'', cookie_tenantToken = None,
      params_subdomain = ''acme'', params_id = ''1'', params_projectId = ''3'',
      query_projectId = None, body = [],
      req_user = Some alice,
      req_tenant = Some \<lparr>ctx_id = 5, ctx_subdomain = ''acme'',
                          ctx_connectionString = ''postgres://platform''\<rparr>\<rparr>"

definition user_body :: row where
  "user_body =
     [(''email'', JStr ''bob@acme.test''), (''password'', JStr ''pw''),
      (''tenantId'', JNum 7), (''userId'', JNum 99)]"

definition numeric_email_body :: row where
  "numeric_email_body = [(''email'', JNum 5), (''password'', JStr ''pw''), (''tenantId'', JNum 7)]"

definition customer_body :: row where
  "customer_body =
     [(''customerId'', JStr []), (''name'', JStr ''Carol''), (''email'', JStr ''carol@c.test''),
      (''tenantId'', JNum 7), (''createdById'', JNum 99)]"

definition timesheet_body :: row where
  "timesheet_body =
     [(''userId'', JNum 99), (''projectId'', JNum 3), (''customerId'', JNum 1),
      (''date'', JStr ''2024-01-01T00:00:00.000Z''), (''tenantId'', JNum 7)]"

definition expense_body :: row where
  "expense_body =
     [(''userId'', JNum 99), (''amount'', JStr ''12.5''),
      (''date'', JStr ''2024-01-01T00:00:00.000Z''), (''tenantId'', JNum 7)]"

definition tenant_body :: row where
  "tenant_body = [(''name'', JStr ''Gamma''), (''subdomain'', JStr ''gamma'')]"

text \<open>
  Bodies for the other handlers, and the request as it arrives, before the middleware.
  \<open>timesheet_with_Date\<close> and \<open>expense_with_Date\<close> hold a \<open>Date\<close> object: they are not JSON, and
  stand for what the two create handlers would store if such a body could arrive.
\<close>

definition arriving_request :: request where
  "arriving_request = passed_request\<lparr>req_user := None, req_tenant := None\<rparr>"

definition fresh_world :: world where
  "fresh_world = stocked_world\<lparr>registry := init_registry\<rparr>"

definition login_body :: row where
  "login_body = [(''email'', JStr ''alice@acme.test''), (''password'', JStr ''secret'')]"

definition project_body :: row where
  "project_body = [(''name'', JStr ''Road''), (''startDate'', JNum 86400000), (''tenantId'', JNum 7)]"

definition task_body :: row where
  "task_body =
     [(''projectId'', JNum 3), (''name'', JStr ''Dig''), (''tenantId'', JNum 7),
      (''createdById'', JNum 99)]"

definition rename_body :: row where
  "rename_body = [(''name'', JStr ''Renamed'')]"

definition assign_body :: row where
  "assign_body = [(''userId'', JNum 1)]"

definition timesheet_with_Date :: row where
  "timesheet_with_Date =
     [(''userId'', JNum 99), (''projectId'', JNum 3), (''customerId'', JNum 1),
      (''date'', JDate 500), (''tenantId'', JNum 7)]"

definition expense_with_Date :: row where
  "expense_with_Date =
     [(''userId'', JNum 99), (''amount'', JStr ''12.5''), (''date'', JDate 500),
      (''tenantId'', JNum 7)]"

section \<open>Properties of the connection registry\<close>

lemma map_set_fresh: "\<not> map_has m k \<Longrightarrow> map_set m k v = m @ [(k, v)]"
  by (induction m) (auto simp: map_has_def)

lemma map_has_keys: "map_has m k = (k \<in> set (map fst m))"
  by (induction m) (auto simp: map_has_def)

lemma getTenantDb_known:
  "map_has (tenantConnections reg) cs \<Longrightarrow>
   getTenantDb cs reg = (map_of (tenantConnections reg) cs, reg)"
  by (simp add: getTenantDb_def map_get_def)

lemma getTenantDb_fresh:
  "\<not> map_has (tenantConnections reg) cs \<Longrightarrow>
   getTenantDb cs reg =
     (Some \<lparr>pool_id = length (constructed reg), connectionString = cs, pool_max = 5\<rparr>,
      \<lparr>tenantConnections = tenantConnections reg @
         [(cs, \<lparr>pool_id = length (constructed reg), connectionString = cs, pool_max = 5\<rparr>)],
       constructed = constructed reg @
         [\<lparr>pool_id = length (constructed reg), connectionString = cs, pool_max = 5\<rparr>]\<rparr>)"
  by (simp add: getTenantDb_def new_Pool_def map_get_def map_set_fresh Let_def map_has_def
      map_add_def)

lemma registry_inv_has:
  assumes "registry_inv reg"
  shows "map_has (tenantConnections reg) cs = (cs \<in> connectionString ` set (constructed reg))"
proof -
  have "map fst (tenantConnections reg) = map connectionString (constructed reg)"
    using assms by (simp add: registry_inv_def)
  then have "set (map fst (tenantConnections reg)) = set (map connectionString (constructed reg))"
    by (rule arg_cong)
  then show ?thesis by (simp add: map_has_keys)
qed

lemma getTenantDb_inv:
  assumes "registry_inv reg" and "getTenantDb cs reg = (h, reg')"
  shows "registry_inv reg'"
proof (cases "map_has (tenantConnections reg) cs")
  case True
  with assms show ?thesis by (simp add: getTenantDb_known)
next
  case False
  then have "cs \<notin> connectionString ` set (constructed reg)"
    using registry_inv_has[OF assms(1)] by simp
  with assms False show ?thesis
    by (auto simp: getTenantDb_fresh registry_inv_def)
qed

lemma getTenantDb_returns:
  assumes "getTenantDb cs reg = (h, reg')"
  shows "\<exists>p. h = Some p \<and> map_of (tenantConnections reg') cs = Some p"
proof (cases "map_has (tenantConnections reg) cs")
  case True
  with assms show ?thesis by (auto simp: getTenantDb_known map_has_def)
next
  case False
  with assms show ?thesis by (auto simp: getTenantDb_fresh map_has_def map_add_def)
qed

lemma getTenantDb_keeps:
  assumes "getTenantDb cs reg = (h, reg')" and "map_of (tenantConnections reg) a = Some p"
  shows "map_of (tenantConnections reg') a = Some p"
proof (cases "map_has (tenantConnections reg) cs")
  case True
  with assms show ?thesis by (simp add: getTenantDb_known)
next
  case False
  with assms show ?thesis by (auto simp: getTenantDb_fresh)
qed

lemma getTenantDb_addresses:
  assumes "registry_inv reg" and "getTenantDb cs reg = (h, reg')"
  shows "set (map connectionString (constructed reg')) =
         insert cs (set (map connectionString (constructed reg)))"
proof (cases "map_has (tenantConnections reg) cs")
  case True
  then have "cs \<in> connectionString ` set (constructed reg)"
    using registry_inv_has[OF assms(1)] by simp
  with assms True show ?thesis by (auto simp: getTenantDb_known)
next
  case False
  with assms show ?thesis by (auto simp: getTenantDb_fresh)
qed

lemma run_calls_inv:
  "registry_inv reg \<Longrightarrow> run_calls css reg = (hs, reg') \<Longrightarrow> registry_inv reg'"
proof (induction css arbitrary: reg hs)
  case Nil
  then show ?case by simp
next
  case (Cons cs css)
  then show ?case
    by (auto split: prod.splits dest: getTenantDb_inv)
qed

lemma run_calls_keeps:
  "run_calls css reg = (hs, reg') \<Longrightarrow> map_of (tenantConnections reg) a = Some p \<Longrightarrow>
   map_of (tenantConnections reg') a = Some p"
proof (induction css arbitrary: reg hs)
  case Nil
  then show ?case by simp
next
  case (Cons cs css)
  then show ?case
    by (auto split: prod.splits dest: getTenantDb_keeps)
qed

lemma run_calls_addresses:
  "registry_inv reg \<Longrightarrow> run_calls css reg = (hs, reg') \<Longrightarrow>
   set (map connectionString (constructed reg')) =
     set css \<union> set (map connectionString (constructed reg))"
proof (induction css arbitrary: reg hs)
  case Nil
  then show ?case by simp
next
  case (Cons cs css)
  obtain h reg1 where g: "getTenantDb cs reg = (h, reg1)" by (cases "getTenantDb cs reg")
  obtain hs1 where r: "run_calls css reg1 = (hs1, reg')"
    using Cons.prems(2) g by (auto split: prod.splits)
  have "registry_inv reg1" using Cons.prems(1) g by (rule getTenantDb_inv)
  from Cons.IH[OF this r] getTenantDb_addresses[OF Cons.prems(1) g]
  show ?case by auto
qed

lemma run_calls_results:
  "run_calls css reg = (hs, reg') \<Longrightarrow>
   length hs = length css \<and>
   (\<forall>i<length css. \<exists>p. hs ! i = Some p \<and> map_of (tenantConnections reg') (css ! i) = Some p)"
proof (induction css arbitrary: reg hs)
  case Nil
  then show ?case by auto
next
  case (Cons cs css)
  obtain h reg1 where g: "getTenantDb cs reg = (h, reg1)" by (cases "getTenantDb cs reg")
  obtain hs1 where r: "run_calls css reg1 = (hs1, reg')" and hs: "hs = h # hs1"
    using Cons.prems g by (auto split: prod.splits)
  from getTenantDb_returns[OF g] obtain p where
    h: "h = Some p" and p: "map_of (tenantConnections reg1) cs = Some p" by auto
  have keep: "map_of (tenantConnections reg') cs = Some p"
    using run_calls_keeps[OF r p] .
  have ih: "length hs1 = length css \<and>
    (\<forall>i<length css. \<exists>p. hs1 ! i = Some p \<and> map_of (tenantConnections reg') (css ! i) = Some p)"
    using Cons.IH[OF r] .
  show ?case
  proof (intro conjI allI impI)
    show "length hs = length (cs # css)" using ih hs by simp
  next
    fix i assume "i < length (cs # css)"
    then show "\<exists>p. hs ! i = Some p \<and>
                 map_of (tenantConnections reg') ((cs # css) ! i) = Some p"
      using ih hs h keep by (cases i) auto
  qed
qed

lemma distinct_filter_one:
  "distinct (map f xs) \<Longrightarrow> length (filter (\<lambda>x. f x = a) xs) = (if a \<in> set (map f xs) then 1 else 0)"
  by (induction xs) auto

text \<open>
  C1. From the empty registry of a fresh process, after any interleaving \<open>css\<close> of calls to
  \<open>getTenantDb\<close>: the Map holds at most one entry per connection string; every call
  returns a handle, and two calls with the same connection string return the identical
  handle (same allocation); and for every address exactly one pool has been constructed
  if it was requested at all, none otherwise. So N callers that ask for an address no
  earlier call has seen, in whatever order they run, share one handle and cause one
  \<open>new Pool\<close>.
\<close>

theorem getTenantDb_single_pool_per_address:
  assumes "run_calls css init_registry = (hs, reg)"
  shows "distinct (map fst (tenantConnections reg)) \<and>
         length hs = length css \<and>
         (\<forall>i<length css. \<forall>j<length css.
            hs ! i \<noteq> None \<and> (css ! i = css ! j \<longrightarrow> hs ! i = hs ! j)) \<and>
         (\<forall>a. length (pools_for reg a) = (if a \<in> set css then 1 else 0))"
proof -
  have i0: "registry_inv init_registry"
    by (simp add: registry_inv_def init_registry_def)
  have inv: "registry_inv reg" using run_calls_inv[OF i0 assms] .
  have res: "length hs = length css \<and>
    (\<forall>i<length css. \<exists>p. hs ! i = Some p \<and> map_of (tenantConnections reg) (css ! i) = Some p)"
    using run_calls_results[OF assms] .
  have addr: "set (map connectionString (constructed reg)) = set css"
    using run_calls_addresses[OF i0 assms] by (simp add: init_registry_def)
  have d: "distinct (map connectionString (constructed reg))"
    using inv by (simp add: registry_inv_def)
  have one: "\<forall>a. length (pools_for reg a) = (if a \<in> set css then 1 else 0)"
    unfolding pools_for_def using distinct_filter_one[OF d] addr by simp
  have keys: "distinct (map fst (tenantConnections reg))"
    using inv by (simp add: registry_inv_def)
  have same: "\<forall>i<length css. \<forall>j<length css.
      hs ! i \<noteq> None \<and> (css ! i = css ! j \<longrightarrow> hs ! i = hs ! j)"
  proof (intro allI impI conjI)
    fix i j assume i: "i < length css" and j: "j < length css"
    from res i show "hs ! i \<noteq> None" by auto
    assume "css ! i = css ! j"
    with res i j show "hs ! i = hs ! j" by (metis option.inject)
  qed
  show ?thesis using keys res one same by blast
qed

theorem getTenantDb_single_pool_per_address_witness:
  "run_calls [''pg://beta'', ''pg://acme'', ''pg://beta'', ''pg://beta''] init_registry =
     ([Some \<lparr>pool_id = 0, connectionString = ''pg://beta'', pool_max = 5\<rparr>,
       Some \<lparr>pool_id = 1, connectionString = ''pg://acme'', pool_max = 5\<rparr>,
       Some \<lparr>pool_id = 0, connectionString = ''pg://beta'', pool_max = 5\<rparr>,
       Some \<lparr>pool_id = 0, connectionString = ''pg://beta'', pool_max = 5\<rparr>],
      \<lparr>tenantConnections =
         [(''pg://beta'', \<lparr>pool_id = 0, connectionString = ''pg://beta'', pool_max = 5\<rparr>),
          (''pg://acme'', \<lparr>pool_id = 1, connectionString = ''pg://acme'', pool_max = 5\<rparr>)],
       constructed =
         [\<lparr>pool_id = 0, connectionString = ''pg://beta'', pool_max = 5\<rparr>,
          \<lparr>pool_id = 1, connectionString = ''pg://acme'', pool_max = 5\<rparr>]\<rparr>) \<and>
   length (pools_for \<lparr>tenantConnections =
         [(''pg://beta'', \<lparr>pool_id = 0, connectionString = ''pg://beta'', pool_max = 5\<rparr>),
          (''pg://acme'', \<lparr>pool_id = 1, connectionString = ''pg://acme'', pool_max = 5\<rparr>)],
       constructed =
         [\<lparr>pool_id = 0, connectionString = ''pg://beta'', pool_max = 5\<rparr>,
          \<lparr>pool_id = 1, connectionString = ''pg://acme'', pool_max = 5\<rparr>]\<rparr> ''pg://beta'') = 1"
proof -
  have run: "run_calls [''pg://beta'', ''pg://acme'', ''pg://beta'', ''pg://beta''] init_registry =
     ([Some \<lparr>pool_id = 0, connectionString = ''pg://beta'', pool_max = 5\<rparr>,
       Some \<lparr>pool_id = 1, connectionString = ''pg://acme'', pool_max = 5\<rparr>,
       Some \<lparr>pool_id = 0, connectionString = ''pg://beta'', pool_max = 5\<rparr>,
       Some \<lparr>pool_id = 0, connectionString = ''pg://beta'', pool_max = 5\<rparr>],
      \<lparr>tenantConnections =
         [(''pg://beta'', \<lparr>pool_id = 0, connectionString = ''pg://beta'', pool_max = 5\<rparr>),
          (''pg://acme'', \<lparr>pool_id = 1, connectionString = ''pg://acme'', pool_max = 5\<rparr>)],
       constructed =
         [\<lparr>pool_id = 0, connectionString = ''pg://beta'', pool_max = 5\<rparr>,
          \<lparr>pool_id = 1, connectionString = ''pg://acme'', pool_max = 5\<rparr>]\<rparr>)"
    by (simp add: getTenantDb_def new_Pool_def map_has_def map_get_def init_registry_def Let_def)
  from getTenantDb_single_pool_per_address[OF run] show ?thesis
    using run by simp
qed

section \<open>Properties of the tenant middleware\<close>

lemmas example_defs = example_env_def acme_def beta_def alice_def example_world_def example_request_def
  example_claims_def platform_pool_def opened_registry_def

lemmas auth_defs = authenticateTenantUser_def getTenantBySubdomain_def getTenant_def
      bearer_token_def createTenantStorage_def getTenantDb_def new_Pool_def map_has_def map_get_def
      storage_db_def getUser_def getUserByEmail_def js_or_def init_registry_def Let_def

lemma registry_inv_entry:
  assumes "registry_inv reg" and "map_of (tenantConnections reg) cs = Some p"
  shows "connectionString p = cs"
proof -
  have "(cs, p) \<in> set (tenantConnections reg)" using assms(2) by (rule map_of_SomeD)
  moreover have "map fst (tenantConnections reg) =
      map (connectionString \<circ> snd) (tenantConnections reg)"
    using assms(1) unfolding registry_inv_def by (metis map_map)
  then have "\<forall>e \<in> set (tenantConnections reg). fst e = (connectionString \<circ> snd) e"
    by (simp only: map_eq_conv)
  ultimately show ?thesis by auto
qed

lemma getTenantDb_address:
  assumes "registry_inv reg" and "getTenantDb cs reg = (h, reg')"
  shows "\<exists>p. h = Some p \<and> connectionString p = cs"
proof -
  from getTenantDb_returns[OF assms(2)] obtain p where
    p: "h = Some p" "map_of (tenantConnections reg') cs = Some p" by auto
  have "registry_inv reg'" using assms by (rule getTenantDb_inv)
  then have "connectionString p = cs" using p(2) by (rule registry_inv_entry)
  with p show ?thesis by simp
qed

lemma createTenantStorage_at:
  assumes "registry_inv (registry w)" and "createTenantStorage cs w = (st, w1)"
  shows "storage_db w1 st = map_get (dbs w) cs \<and> dbs w1 = dbs w \<and> tenants w1 = tenants w \<and>
         (\<exists>p. st = Some p \<and> connectionString p = cs) \<and> registry_inv (registry w1)"
proof -
  obtain h reg' where g: "getTenantDb cs (registry w) = (h, reg')"
    by (cases "getTenantDb cs (registry w)")
  from getTenantDb_address[OF assms(1) g] obtain p where
    p: "h = Some p" "connectionString p = cs" by auto
  have "registry_inv reg'" using assms(1) g by (rule getTenantDb_inv)
  with assms(2) g p show ?thesis
    by (auto simp: createTenantStorage_def storage_db_def)
qed

lemma js_or_falsy: "\<not> truthy x \<Longrightarrow> js_or x d = d"
  by (auto simp: truthy_def js_or_def split: option.splits)

lemma getUser_in: "getUser db i = Some u \<Longrightarrow> u \<in> set (users db) \<and> user_id u = i"
  by (auto simp: getUser_def find_Some_iff)

lemma getUserByEmail_in: "getUserByEmail db e = Some u \<Longrightarrow> u \<in> set (users db) \<and> user_email u = e"
  by (auto simp: getUserByEmail_def find_Some_iff)

text \<open>
  C5. A tenant whose status is anything but \<open>active\<close> cannot authenticate. The
  middleware answers 401 "Invalid or inactive tenant" and the login route answers 404
  "Tenant not found or inactive" (400 when the credentials are missing), whatever the
  status string is: inactive and suspended get the same reply, and the state is left as
  it was.
\<close>

theorem inactive_tenant_rejected:
  assumes "tenant_status t \<noteq> ''active''"
  shows "(bearer_token req = Some token \<and> token \<noteq> [] \<and> verifyToken env token = Some decoded \<and>
          getTenant (tenants w) (claim_tenantId decoded) = Some t \<longrightarrow>
          authenticateTenantUser env req w =
            (Responded (Reply 401 (Message ''Invalid or inactive tenant'')), w)) \<and>
         (getTenantBySubdomain (tenants w) (params_subdomain req) = Some t \<longrightarrow>
          tenant_login env req w =
            (if \<not> js_truthy (map_of (body req) ''email'') \<or>
                \<not> js_truthy (map_of (body req) ''password'')
             then (Reply 400 (Message ''Email and password required''), w)
             else (Reply 404 (Message ''Tenant not found or inactive''), w)))"
  using assms by (simp add: authenticateTenantUser_def tenant_login_def Let_def)

theorem inactive_tenant_rejected_witness:
  "tenant_status (acme\<lparr>tenant_status := ''suspended''\<rparr>) \<noteq> ''active'' \<and>
   authenticateTenantUser example_env example_request
       (example_world\<lparr>tenants := [acme\<lparr>tenant_status := ''suspended''\<rparr>, beta]\<rparr>) =
     (Responded (Reply 401 (Message ''Invalid or inactive tenant'')),
      example_world\<lparr>tenants := [acme\<lparr>tenant_status := ''suspended''\<rparr>, beta]\<rparr>) \<and>
   tenant_login example_env
       (example_request\<lparr>params_subdomain := ''acme'',
          body := [(''email'', JStr ''alice@acme.test''), (''password'', JStr ''secret'')]\<rparr>)
       (example_world\<lparr>tenants := [acme\<lparr>tenant_status := ''suspended''\<rparr>, beta]\<rparr>) =
     (Reply 404 (Message ''Tenant not found or inactive''),
      example_world\<lparr>tenants := [acme\<lparr>tenant_status := ''suspended''\<rparr>, beta]\<rparr>)"
proof -
  have st: "tenant_status (acme\<lparr>tenant_status := ''suspended''\<rparr>) \<noteq> ''active''" by simp
  note a = inactive_tenant_rejected[OF st, of example_request "''token5''" example_env
      example_claims "example_world\<lparr>tenants := [acme\<lparr>tenant_status := ''suspended''\<rparr>, beta]\<rparr>"]
  note b = inactive_tenant_rejected[OF st,
      of "example_request\<lparr>params_subdomain := ''acme'',
          body := [(''email'', JStr ''alice@acme.test''), (''password'', JStr ''secret'')]\<rparr>"
      "''token5''" example_env example_claims
      "example_world\<lparr>tenants := [acme\<lparr>tenant_status := ''suspended''\<rparr>, beta]\<rparr>"]
  have pa: "bearer_token example_request = Some ''token5'' \<and> ''token5'' \<noteq> [] \<and>
      verifyToken example_env ''token5'' = Some example_claims \<and>
      getTenant (tenants (example_world\<lparr>tenants := [acme\<lparr>tenant_status := ''suspended''\<rparr>, beta]\<rparr>))
        (claim_tenantId example_claims) = Some (acme\<lparr>tenant_status := ''suspended''\<rparr>)"
    by (simp add: example_defs bearer_token_def getTenant_def)
  have pb: "getTenantBySubdomain
        (tenants (example_world\<lparr>tenants := [acme\<lparr>tenant_status := ''suspended''\<rparr>, beta]\<rparr>))
        (params_subdomain (example_request\<lparr>params_subdomain := ''acme'',
          body := [(''email'', JStr ''alice@acme.test''), (''password'', JStr ''secret'')]\<rparr>)) =
      Some (acme\<lparr>tenant_status := ''suspended''\<rparr>)"
    by (simp add: example_defs getTenantBySubdomain_def)
  have tr: "js_truthy (map_of (body (example_request\<lparr>params_subdomain := ''acme'',
          body := [(''email'', JStr ''alice@acme.test''), (''password'', JStr ''secret'')]\<rparr>)) ''email'') \<and>
      js_truthy (map_of (body (example_request\<lparr>params_subdomain := ''acme'',
          body := [(''email'', JStr ''alice@acme.test''), (''password'', JStr ''secret'')]\<rparr>)) ''password'')"
    by (simp add: js_truthy_def)
  from a pa have ra: "authenticateTenantUser example_env example_request
       (example_world\<lparr>tenants := [acme\<lparr>tenant_status := ''suspended''\<rparr>, beta]\<rparr>) =
     (Responded (Reply 401 (Message ''Invalid or inactive tenant'')),
      example_world\<lparr>tenants := [acme\<lparr>tenant_status := ''suspended''\<rparr>, beta]\<rparr>)" by blast
  from b pb tr have rb: "tenant_login example_env
       (example_request\<lparr>params_subdomain := ''acme'',
          body := [(''email'', JStr ''alice@acme.test''), (''password'', JStr ''secret'')]\<rparr>)
       (example_world\<lparr>tenants := [acme\<lparr>tenant_status := ''suspended''\<rparr>, beta]\<rparr>) =
     (Reply 404 (Message ''Tenant not found or inactive''),
      example_world\<lparr>tenants := [acme\<lparr>tenant_status := ''suspended''\<rparr>, beta]\<rparr>)"
    by (simp only: simp_thms if_False)
  show ?thesis using st ra rb by blast
qed

text \<open>
  C4. When the tenant is active and its store can be reached, a user row owned by another
  tenant is answered exactly as a missing or an inactive user is: 401 with the message
  "Invalid or inactive user". The three causes give one and the same reply.
\<close>

theorem tenant_mismatch_is_generic_401:
  assumes "bearer_token req = Some token" and "token \<noteq> []"
    and "verifyToken env token = Some decoded"
    and "getTenant (tenants w) (claim_tenantId decoded) = Some t"
    and "tenant_status t = ''active''"
    and "createTenantStorage (js_or (dbConnectionString t) (DATABASE_URL env)) w = (st, w1)"
    and "storage_db w1 st = Some db"
    and "getUser db (claim_userId decoded) = None \<or>
         (\<exists>u. getUser db (claim_userId decoded) = Some u \<and>
              (\<not> isActive u \<or> user_tenantId u \<noteq> tenant_id t))"
  shows "authenticateTenantUser env req w =
           (Responded (Reply 401 (Message ''Invalid or inactive user'')), w1)"
  using assms by (auto simp: authenticateTenantUser_def)

theorem tenant_mismatch_is_generic_401_witness:
  "getUser \<lparr>users = [alice\<lparr>user_tenantId := 7\<rparr>], customers = [], projects = [], tasks = [],
       timesheets = [], expenses = [], projectUsers = []\<rparr> 1 =
     Some (alice\<lparr>user_tenantId := 7\<rparr>) \<and>
   user_tenantId (alice\<lparr>user_tenantId := 7\<rparr>) \<noteq> tenant_id acme \<and>
   authenticateTenantUser example_env example_request
       (example_world\<lparr>dbs := [(''postgres://platform'',
          \<lparr>users = [alice\<lparr>user_tenantId := 7\<rparr>], customers = [], projects = [], tasks = [],
       timesheets = [], expenses = [], projectUsers = []\<rparr>)]\<rparr>) =
     (Responded (Reply 401 (Message ''Invalid or inactive user'')),
      example_world\<lparr>dbs := [(''postgres://platform'',
          \<lparr>users = [alice\<lparr>user_tenantId := 7\<rparr>], customers = [], projects = [], tasks = [],
       timesheets = [], expenses = [], projectUsers = []\<rparr>)],
        registry := opened_registry\<rparr>)"
proof -
  let ?db = "\<lparr>users = [alice\<lparr>user_tenantId := 7\<rparr>], customers = [], projects = [], tasks = [],
       timesheets = [], expenses = [], projectUsers = []\<rparr>"
  let ?w = "example_world\<lparr>dbs := [(''postgres://platform'', ?db)]\<rparr>"
  let ?w1 = "example_world\<lparr>dbs := [(''postgres://platform'', ?db)], registry := opened_registry\<rparr>"
  have 1: "bearer_token example_request = Some ''token5''"
    by (simp add: example_defs bearer_token_def)
  have 2: "''token5'' \<noteq> []" by simp
  have 3: "verifyToken example_env ''token5'' = Some example_claims"
    by (simp add: example_defs)
  have 4: "getTenant (tenants ?w) (claim_tenantId example_claims) = Some acme"
    by (simp add: example_defs getTenant_def)
  have 5: "tenant_status acme = ''active''" by (simp add: acme_def)
  have 6: "createTenantStorage (js_or (dbConnectionString acme) (DATABASE_URL example_env)) ?w =
      (Some platform_pool, ?w1)"
    by (simp add: example_defs createTenantStorage_def getTenantDb_def new_Pool_def map_has_def
        map_get_def js_or_def init_registry_def Let_def)
  have 7: "storage_db ?w1 (Some platform_pool) = Some ?db"
    by (simp add: storage_db_def map_get_def platform_pool_def)
  have g: "getUser ?db 1 = Some (alice\<lparr>user_tenantId := 7\<rparr>)"
    by (simp add: getUser_def alice_def)
  have m: "user_tenantId (alice\<lparr>user_tenantId := 7\<rparr>) \<noteq> tenant_id acme"
    by (simp add: acme_def)
  have 8: "getUser ?db (claim_userId example_claims) = None \<or>
      (\<exists>u. getUser ?db (claim_userId example_claims) = Some u \<and>
           (\<not> isActive u \<or> user_tenantId u \<noteq> tenant_id acme))"
    using g m by (simp add: example_claims_def)
  from tenant_mismatch_is_generic_401[OF 1 2 3 4 5 6 7 8] g m show ?thesis by blast
qed

text \<open>
  C2. The code does not do what the claim says. The middleware never reads the subdomain
  of the URL: for a request with a valid token, changing the subdomain changes nothing
  but that field of the request passed on, and a request that passes is authenticated
  against the tenant that the token names, whatever tenant the subdomain resolves to.
  A token of tenant 5 sent to the subdomain of tenant 7 is therefore treated as the same
  token sent to the subdomain of tenant 5: it is not answered 401.
\<close>

theorem authenticateTenantUser_ignores_subdomain:
  assumes "bearer_token req = Some token" and "token \<noteq> []"
    and "verifyToken env token = Some decoded"
  shows "authenticateTenantUser env (req\<lparr>params_subdomain := s\<rparr>) w =
           (case authenticateTenantUser env req w of
              (Responded rep, w') \<Rightarrow> (Responded rep, w')
            | (Next r, w') \<Rightarrow> (Next (r\<lparr>params_subdomain := s\<rparr>), w')) \<and>
         (\<forall>r w'. authenticateTenantUser env req w = (Next r, w') \<longrightarrow>
            (\<exists>c u. req_tenant r = Some c \<and> ctx_id c = claim_tenantId decoded \<and>
                   req_user r = Some u \<and> user_tenantId u = claim_tenantId decoded \<and>
                   isActive u))"
proof -
  have bt: "bearer_token (req\<lparr>params_subdomain := s\<rparr>) = bearer_token req"
    by (simp add: bearer_token_def split: option.splits)
  have tid: "\<And>t. getTenant (tenants w) (claim_tenantId decoded) = Some t \<Longrightarrow>
      tenant_id t = claim_tenantId decoded"
    by (auto simp: getTenant_def find_Some_iff)
  show ?thesis
    using assms tid
    by (auto simp: authenticateTenantUser_def bt split: option.splits prod.splits)
qed

text \<open>
  The request of the example names subdomain \<open>beta\<close>, which resolves to tenant 7, and
  carries a valid token for tenant 5. The middleware passes it on, authenticated as user
  1 of tenant 5, as it does with the same request to subdomain \<open>acme\<close>. The cancel route
  behind the middleware then acts on the tenant of the subdomain: it cancels the Stripe
  subscription \<open>sub_7\<close> of tenant 7 and sets that tenant's plan to free, on a token that
  tenant 7 never issued.
\<close>

theorem subdomain_mismatch_not_rejected:
  "getTenantBySubdomain (tenants example_world) (params_subdomain example_request) = Some beta \<and>
   tenant_id beta = 7 \<and>
   bearer_token example_request = Some ''token5'' \<and>
   verifyToken example_env ''token5'' = Some example_claims \<and>
   claim_tenantId example_claims = 5 \<and>
   authenticateTenantUser example_env (example_request\<lparr>params_subdomain := ''acme''\<rparr>)
       example_world =
     (Next (example_request\<lparr>params_subdomain := ''acme'', req_user := Some alice,
              req_tenant := Some \<lparr>ctx_id = 5, ctx_subdomain = ''acme'',
                                  ctx_connectionString = ''postgres://platform''\<rparr>\<rparr>),
      example_world\<lparr>registry := opened_registry\<rparr>) \<and>
   authenticateTenantUser example_env example_request example_world =
     (Next (example_request\<lparr>req_user := Some alice,
              req_tenant := Some \<lparr>ctx_id = 5, ctx_subdomain = ''acme'',
                                  ctx_connectionString = ''postgres://platform''\<rparr>\<rparr>),
      example_world\<lparr>registry := opened_registry\<rparr>) \<and>
   post_subscription_cancel example_env example_request example_world =
     (Reply 200 (SuccessMessage ''Subscription cancelled successfully''),
      [SubscriptionsCancel ''sub_7''],
      example_world
        \<lparr>tenants :=
           [acme,
            beta\<lparr>subscriptionPlan := ''free'', subscriptionStatus := ''cancelled'',
                  stripeSubscriptionId := None, subscriptionEndsAt := None,
                  tenant_updatedAt := 1000\<rparr>],
         registry := opened_registry\<rparr>)"
proof -
  have 1: "bearer_token (example_request\<lparr>params_subdomain := ''acme''\<rparr>) = Some ''token5''"
    by (simp add: example_defs bearer_token_def)
  have 2: "''token5'' \<noteq> []" by simp
  have 3: "verifyToken example_env ''token5'' = Some example_claims"
    by (simp add: example_defs)
  have home: "authenticateTenantUser example_env (example_request\<lparr>params_subdomain := ''acme''\<rparr>)
       example_world =
     (Next (example_request\<lparr>params_subdomain := ''acme'', req_user := Some alice,
              req_tenant := Some \<lparr>ctx_id = 5, ctx_subdomain = ''acme'',
                                  ctx_connectionString = ''postgres://platform''\<rparr>\<rparr>),
      example_world\<lparr>registry := opened_registry\<rparr>)"
    by (simp add: example_defs auth_defs)
  have undo: "example_request\<lparr>params_subdomain := ''acme'', params_subdomain := ''beta''\<rparr> =
      example_request"
    by (simp add: example_request_def)
  from authenticateTenantUser_ignores_subdomain[OF 1 2 3, of "''beta''" example_world] home undo
  have a: "authenticateTenantUser example_env example_request example_world =
     (Next (example_request\<lparr>req_user := Some alice,
              req_tenant := Some \<lparr>ctx_id = 5, ctx_subdomain = ''acme'',
                                  ctx_connectionString = ''postgres://platform''\<rparr>\<rparr>),
      example_world\<lparr>registry := opened_registry\<rparr>)"
    by (simp add: example_request_def)
  have c: "subscription_cancel example_env
       (example_request\<lparr>req_user := Some alice,
              req_tenant := Some \<lparr>ctx_id = 5, ctx_subdomain = ''acme'',
                                  ctx_connectionString = ''postgres://platform''\<rparr>\<rparr>)
       (example_world\<lparr>registry := opened_registry\<rparr>) =
     (Reply 200 (SuccessMessage ''Subscription cancelled successfully''),
      [SubscriptionsCancel ''sub_7''],
      example_world
        \<lparr>tenants :=
           [acme,
            beta\<lparr>subscriptionPlan := ''free'', subscriptionStatus := ''cancelled'',
                  stripeSubscriptionId := None, subscriptionEndsAt := None,
                  tenant_updatedAt := 1000\<rparr>],
         registry := opened_registry\<rparr>)"
    by (simp add: example_defs subscription_cancel_def cancel_existing_def
        getTenantBySubdomain_def updateTenantSubscription_def set_subscription_def)
  have p: "post_subscription_cancel example_env example_request example_world =
      subscription_cancel example_env
       (example_request\<lparr>req_user := Some alice,
              req_tenant := Some \<lparr>ctx_id = 5, ctx_subdomain = ''acme'',
                                  ctx_connectionString = ''postgres://platform''\<rparr>\<rparr>)
       (example_world\<lparr>registry := opened_registry\<rparr>)"
    unfolding post_subscription_cancel_def a by simp
  have r: "getTenantBySubdomain (tenants example_world) (params_subdomain example_request) = Some beta \<and>
   tenant_id beta = 7 \<and>
   bearer_token example_request = Some ''token5'' \<and>
   verifyToken example_env ''token5'' = Some example_claims \<and>
   claim_tenantId example_claims = 5"
    by (simp add: example_defs auth_defs)
  show ?thesis using r home a c p by simp
qed

text \<open>
  C8. The three role gates are nested: what the admin gate lets pass the manager gate
  lets pass, and what the manager gate lets pass the any-user gate lets pass. No gate
  lets a role pass and stops one of higher rank in user < manager < admin.
\<close>

theorem tenant_role_gates_monotone:
  "(passes requireTenantAdmin req \<longrightarrow> passes requireTenantManager req) \<and>
   (passes requireTenantManager req \<longrightarrow> passes requireTenantUser req) \<and>
   (\<forall>gate \<in> {requireTenantAdmin, requireTenantManager, requireTenantUser}. \<forall>u r n n'.
      req_user req = Some u \<and> passes gate req \<and>
      tenant_role_rank (role u) = Some n \<and> tenant_role_rank r = Some n' \<and> n < n' \<longrightarrow>
      passes gate (req\<lparr>req_user := Some (u\<lparr>role := r\<rparr>)\<rparr>))"
  by (auto simp: passes_def requireTenantAdmin_def requireTenantManager_def requireTenantUser_def
      requireTenantRole_def tenant_role_rank_def split: option.splits if_splits)

theorem tenant_role_gates_monotone_witness:
  "passes requireTenantManager (example_request\<lparr>req_user := Some (alice\<lparr>role := ''manager''\<rparr>)\<rparr>) \<and>
   passes requireTenantUser (example_request\<lparr>req_user := Some (alice\<lparr>role := ''manager''\<rparr>)\<rparr>) \<and>
   passes requireTenantManager (example_request\<lparr>req_user := Some (alice\<lparr>role := ''admin''\<rparr>)\<rparr>) \<and>
   \<not> passes requireTenantAdmin (example_request\<lparr>req_user := Some (alice\<lparr>role := ''manager''\<rparr>)\<rparr>)"
  using tenant_role_gates_monotone
    [of "example_request\<lparr>req_user := Some (alice\<lparr>role := ''manager''\<rparr>)\<rparr>"]
  by (simp add: passes_def requireTenantAdmin_def requireTenantManager_def requireTenantUser_def
      requireTenantRole_def example_defs)

section \<open>Properties of the subscription routes\<close>

lemmas subscription_defs = subscription_upgrade_def subscription_cancel_def cancel_existing_def
  ensure_customer_def new_customer_params_def failure_reply_def updateTenantSubscription_def
  set_subscription_def getTenantBySubdomain_def truthy_def js_or_def as_string_def

lemma cancel_existing_cases:
  assumes "cancel_existing env t = (r, calls)"
  shows "(calls = [] \<and> r = Inr () \<and> \<not> truthy (stripeSubscriptionId t)) \<or>
         (\<exists>sid. calls = [SubscriptionsCancel sid] \<and> subscriptions_cancel env sid = r \<and>
                stripeSubscriptionId t = Some sid \<and> sid \<noteq> [])"
  using assms by (auto simp: cancel_existing_def truthy_def split: option.splits if_splits)

lemma ensure_customer_cases:
  assumes "ensure_customer env req t = (r, calls)"
  shows "(calls = [] \<and> (\<exists>c. r = Inr c \<and> stripeCustomerId t = Some c)) \<or>
         (\<exists>p. calls = [CustomersCreate p] \<and> customers_create env p = r)"
  using assms
  by (auto simp: ensure_customer_def truthy_def js_or_def split: option.splits if_splits)

lemma capitalize_standard: "capitalize ''standard'' = ''Standard''"
  by code_simp

lemma set_subscription_keeps:
  "tenant_id (set_subscription s now t) = tenant_id t \<and>
   subdomain (set_subscription s now t) = subdomain t"
  by (simp add: set_subscription_def)

lemma find_map_same:
  "(\<And>x. P (f x) = P x) \<Longrightarrow> find P (map f xs) = map_option f (find P xs)"
  by (induction xs) simp_all

lemma getTenantBySubdomain_update:
  assumes "getTenantBySubdomain ts sd = Some t"
  shows "getTenantBySubdomain (updateTenantSubscription ts i s now) sd =
     Some (if tenant_id t = i then set_subscription s now t else t)"
proof -
  have "find (\<lambda>t. subdomain t = sd)
          (map (\<lambda>t. if tenant_id t = i then set_subscription s now t else t) ts) =
        map_option (\<lambda>t. if tenant_id t = i then set_subscription s now t else t)
          (find (\<lambda>t. subdomain t = sd) ts)"
    by (rule find_map_same) (simp add: set_subscription_keeps)
  with assms show ?thesis
    by (simp add: getTenantBySubdomain_def updateTenantSubscription_def)
qed

lemma cancel_update_twice:
  "set_subscription
     \<lparr>su_subscriptionPlan = p, su_subscriptionStatus = st, su_stripeCustomerId = None,
      su_stripeSubscriptionId = Some x, su_subscriptionEndsAt = Some y\<rparr> now2
     (set_subscription
        \<lparr>su_subscriptionPlan = p, su_subscriptionStatus = st, su_stripeCustomerId = None,
         su_stripeSubscriptionId = Some x, su_subscriptionEndsAt = Some y\<rparr> now1 t) =
   (set_subscription
        \<lparr>su_subscriptionPlan = p, su_subscriptionStatus = st, su_stripeCustomerId = None,
         su_stripeSubscriptionId = Some x, su_subscriptionEndsAt = Some y\<rparr> now1 t)
     \<lparr>tenant_updatedAt := now2\<rparr>"
  by (simp add: set_subscription_def)

lemma updateTenantSubscription_twice:
  "updateTenantSubscription
     (updateTenantSubscription ts i
        \<lparr>su_subscriptionPlan = p, su_subscriptionStatus = st, su_stripeCustomerId = None,
         su_stripeSubscriptionId = Some x, su_subscriptionEndsAt = Some y\<rparr> now1) i
     \<lparr>su_subscriptionPlan = p, su_subscriptionStatus = st, su_stripeCustomerId = None,
      su_stripeSubscriptionId = Some x, su_subscriptionEndsAt = Some y\<rparr> now2 =
   map (\<lambda>t. if tenant_id t = i then t\<lparr>tenant_updatedAt := now2\<rparr> else t)
     (updateTenantSubscription ts i
        \<lparr>su_subscriptionPlan = p, su_subscriptionStatus = st, su_stripeCustomerId = None,
         su_stripeSubscriptionId = Some x, su_subscriptionEndsAt = Some y\<rparr> now1)"
  by (induction ts)
     (simp_all add: updateTenantSubscription_def cancel_update_twice set_subscription_keeps)

text \<open>
  C3. Whatever the upgrade handler returns: if the Stripe call that creates the
  subscription failed, the state after is the state before and the reply is a 500 that
  carries the error's message; the same holds when any Stripe call of the request failed;
  and for a paid plan the state changes only when the last Stripe call made was a
  subscription creation that succeeded.
\<close>

theorem upgrade_billing_failure_keeps_state:
  assumes "subscription_upgrade env req w = (rep, calls, w')"
  shows "(\<forall>params m. SubscriptionsCreate params \<in> set calls \<and>
            subscriptions_create env params = Inl m \<longrightarrow>
            w' = w \<and> rep = Reply 500 (Message (if m = [] then upgrade_failed else m))) \<and>
         ((\<exists>c \<in> set calls. stripe_failed env c) \<longrightarrow> w' = w \<and> (\<exists>pl. rep = Reply 500 pl)) \<and>
         (w' \<noteq> w \<and> map_of (body req) ''plan'' \<noteq> Some (JStr ''free'') \<longrightarrow>
            (\<exists>params sub. calls \<noteq> [] \<and> last calls = SubscriptionsCreate params \<and>
               subscriptions_create env params = Inr sub))"
proof (cases "getTenantBySubdomain (tenants w) (params_subdomain req)")
  case None
  with assms show ?thesis by (simp add: subscription_upgrade_def)
next
  case (Some t)
  show ?thesis
  proof (cases "map_of (body req) ''plan'' = Some (JStr ''free'')")
    case True
    obtain r cs where c: "cancel_existing env t = (r, cs)" by (cases "cancel_existing env t")
    from cancel_existing_cases[OF c] assms Some True c show ?thesis
      by (auto simp: subscription_upgrade_def failure_reply_def stripe_failed_def
          split: sum.splits)
  next
    case False
    obtain r cs where c: "ensure_customer env req t = (r, cs)"
      by (cases "ensure_customer env req t")
    from ensure_customer_cases[OF c] assms Some False c show ?thesis
      by (auto simp: subscription_upgrade_def failure_reply_def stripe_failed_def Let_def
          split: sum.splits option.splits if_splits)
  qed
qed

theorem upgrade_billing_failure_keeps_state_witness:
  "subscriptions_create declining_env
     \<lparr>sp_customer = ''cus_1'', sp_product_name = ''Standard Plan'', sp_unit_amount = 1500\<rparr> =
     Inl ''card declined'' \<and>
   subscription_upgrade declining_env upgrade_request example_world =
     (Reply 500 (Message ''card declined''),
      [CustomersCreate \<lparr>cp_email = ''alice@acme.test'', cp_name = ''Alice '', cp_tenantId = 5,
                         cp_subdomain = ''acme''\<rparr>,
       SubscriptionsCreate
         \<lparr>sp_customer = ''cus_1'', sp_product_name = ''Standard Plan'', sp_unit_amount = 1500\<rparr>],
      example_world)"
proof -
  have run: "subscription_upgrade declining_env upgrade_request example_world =
     (Reply 500 (Message ''card declined''),
      [CustomersCreate \<lparr>cp_email = ''alice@acme.test'', cp_name = ''Alice '', cp_tenantId = 5,
                         cp_subdomain = ''acme''\<rparr>,
       SubscriptionsCreate
         \<lparr>sp_customer = ''cus_1'', sp_product_name = ''Standard Plan'', sp_unit_amount = 1500\<rparr>],
      example_world)"
    by (simp add: subscription_defs example_defs upgrade_request_def declining_env_def
        capitalize_standard upgrade_failed_def)
  have f: "subscriptions_create declining_env
     \<lparr>sp_customer = ''cus_1'', sp_product_name = ''Standard Plan'', sp_unit_amount = 1500\<rparr> =
     Inl ''card declined''"
    by (simp add: declining_env_def)
  from upgrade_billing_failure_keeps_state[OF run] f run show ?thesis by simp
qed

text \<open>
  C6. For a tenant found by the subdomain (in the scenario: plan free, status active),
  an upgrade to \<open>standard\<close> whose Stripe customer exists or is created and whose
  subscription creation returns \<open>sub\<close> answers 200 and leaves the tenant row with plan
  \<open>standard\<close>, subscription status \<open>active\<close>, the Stripe subscription id of \<open>sub\<close> and an
  end date 30 days (2592000000 ms) after the clock reading; the customer id and
  \<open>updatedAt\<close> are set as well, and every row with the tenant's id carries these values.
\<close>

theorem upgrade_to_standard_sets_subscription:
  assumes "getTenantBySubdomain (tenants w) (params_subdomain req) = Some t"
    and "map_of (body req) ''plan'' = Some (JStr ''standard'')"
    and "ensure_customer env req t = (Inr cus, calls)"
    and "subscriptions_create env
           \<lparr>sp_customer = cus, sp_product_name = ''Standard Plan'', sp_unit_amount = 1500\<rparr> =
         Inr sub"
    and "subscription_upgrade env req w = (rep, calls', w')"
  shows "rep = Reply 200 (SubscriptionJson (sub_id sub) (sub_client_secret sub) (sub_status sub)) \<and>
         getTenantBySubdomain (tenants w') (params_subdomain req) =
           Some (t\<lparr>subscriptionPlan := ''standard'',
                   subscriptionStatus := ''active'',
                   stripeCustomerId := Some cus,
                   stripeSubscriptionId := Some (sub_id sub),
                   subscriptionEndsAt := Some (Date_now env + 2592000000),
                   tenant_updatedAt := Date_now env\<rparr>) \<and>
         (\<forall>t' \<in> set (tenants w'). tenant_id t' = tenant_id t \<longrightarrow>
            subscriptionPlan t' = ''standard'' \<and> subscriptionStatus t' = ''active'' \<and>
            stripeSubscriptionId t' = Some (sub_id sub) \<and>
            subscriptionEndsAt t' = Some (Date_now env + 2592000000))"
proof -
  let ?s = "\<lparr>su_subscriptionPlan = ''standard'',
             su_subscriptionStatus = ''active'',
             su_stripeCustomerId = Some (Some cus),
             su_stripeSubscriptionId = Some (Some (sub_id sub)),
             su_subscriptionEndsAt = Some (Some (Date_now env + 30 * 24 * 60 * 60 * 1000))\<rparr>"
  have run: "subscription_upgrade env req w =
      (Reply 200 (SubscriptionJson (sub_id sub) (sub_client_secret sub) (sub_status sub)),
       calls @ [SubscriptionsCreate
                  \<lparr>sp_customer = cus, sp_product_name = ''Standard Plan'', sp_unit_amount = 1500\<rparr>],
       w\<lparr>tenants := updateTenantSubscription (tenants w) (tenant_id t) ?s (Date_now env)\<rparr>)"
    using assms(1-4)
    by (simp add: subscription_upgrade_def as_string_def capitalize_standard)
  then have rep: "rep = Reply 200 (SubscriptionJson (sub_id sub) (sub_client_secret sub) (sub_status sub))"
    and w': "tenants w' = updateTenantSubscription (tenants w) (tenant_id t) ?s (Date_now env)"
    using assms(5) by auto
  have a: "getTenantBySubdomain (tenants w') (params_subdomain req) =
      Some (set_subscription ?s (Date_now env) t)"
    using getTenantBySubdomain_update[OF assms(1), of "tenant_id t" ?s "Date_now env"] w' by simp
  have b: "\<forall>t' \<in> set (tenants w'). tenant_id t' = tenant_id t \<longrightarrow>
            subscriptionPlan t' = ''standard'' \<and> subscriptionStatus t' = ''active'' \<and>
            stripeSubscriptionId t' = Some (sub_id sub) \<and>
            subscriptionEndsAt t' = Some (Date_now env + 2592000000)"
    unfolding w' updateTenantSubscription_def
    by (auto simp: set_subscription_def)
  show ?thesis using rep a b by (simp add: set_subscription_def)
qed

theorem upgrade_to_standard_sets_subscription_witness:
  "subscriptionPlan acme = ''free'' \<and> subscriptionStatus acme = ''active'' \<and>
   sub_id \<lparr>sub_id = ''sub_1'', sub_status = ''active'', sub_client_secret = None\<rparr> = ''sub_1'' \<and>
   getTenantBySubdomain
     (tenants (snd (snd (subscription_upgrade example_env upgrade_request example_world))))
     ''acme'' =
     Some (acme\<lparr>subscriptionPlan := ''standard'', subscriptionStatus := ''active'',
                stripeCustomerId := Some ''cus_1'', stripeSubscriptionId := Some ''sub_1'',
                subscriptionEndsAt := Some 2592001000, tenant_updatedAt := 1000\<rparr>)"
proof -
  have 1: "getTenantBySubdomain (tenants example_world) (params_subdomain upgrade_request) = Some acme"
    by (simp add: example_defs upgrade_request_def getTenantBySubdomain_def)
  have 2: "map_of (body upgrade_request) ''plan'' = Some (JStr ''standard'')"
    by (simp add: upgrade_request_def)
  have 3: "ensure_customer example_env upgrade_request acme =
      (Inr ''cus_1'',
       [CustomersCreate \<lparr>cp_email = ''alice@acme.test'', cp_name = ''Alice '', cp_tenantId = 5,
                          cp_subdomain = ''acme''\<rparr>])"
    by (simp add: ensure_customer_def new_customer_params_def truthy_def js_or_def example_defs
        upgrade_request_def)
  have 4: "subscriptions_create example_env
      \<lparr>sp_customer = ''cus_1'', sp_product_name = ''Standard Plan'', sp_unit_amount = 1500\<rparr> =
      Inr \<lparr>sub_id = ''sub_1'', sub_status = ''active'', sub_client_secret = None\<rparr>"
    by (simp add: example_env_def)
  have 5: "subscription_upgrade example_env upgrade_request example_world =
      (fst (subscription_upgrade example_env upgrade_request example_world),
       fst (snd (subscription_upgrade example_env upgrade_request example_world)),
       snd (snd (subscription_upgrade example_env upgrade_request example_world)))"
    by simp
  from upgrade_to_standard_sets_subscription[OF 1 2 3 4 5]
  show ?thesis by (simp add: upgrade_request_def example_env_def acme_def)
qed

text \<open>
  C7. After a cancel that succeeded, a second cancel of the same tenant, at any later
  time and whatever Stripe would answer, makes no call to Stripe: the stored subscription
  id is null by then. It answers success again and leaves the subscription state of
  every tenant as it was; the one thing the repeated update changes in the row is
  \<open>updatedAt\<close>, set to the time of the second call.
\<close>

theorem cancel_twice_second_makes_no_call:
  assumes "subscription_cancel env1 req w = (Reply 200 p1, calls1, w1)"
  shows "\<exists>t. getTenantBySubdomain (tenants w) (params_subdomain req) = Some t \<and>
           subscription_cancel env2 req w1 =
             (Reply 200 (SuccessMessage ''Subscription cancelled successfully''), [],
              w1\<lparr>tenants :=
                   map (\<lambda>t'. if tenant_id t' = tenant_id t
                               then t'\<lparr>tenant_updatedAt := Date_now env2\<rparr> else t')
                     (tenants w1)\<rparr>) \<and>
           map subscription_state
             (map (\<lambda>t'. if tenant_id t' = tenant_id t
                         then t'\<lparr>tenant_updatedAt := Date_now env2\<rparr> else t')
                (tenants w1)) =
           map subscription_state (tenants w1) \<and>
           (\<forall>t' \<in> set (tenants w1). tenant_id t' = tenant_id t \<longrightarrow>
              subscriptionPlan t' = ''free'' \<and> subscriptionStatus t' = ''cancelled'' \<and>
              stripeSubscriptionId t' = None \<and> subscriptionEndsAt t' = None \<and>
              tenant_updatedAt t' = Date_now env1)"
proof -
  let ?s = "\<lparr>su_subscriptionPlan = ''free'', su_subscriptionStatus = ''cancelled'',
             su_stripeCustomerId = None, su_stripeSubscriptionId = Some None,
             su_subscriptionEndsAt = Some None\<rparr>"
  obtain t where t: "getTenantBySubdomain (tenants w) (params_subdomain req) = Some t"
    using assms by (cases "getTenantBySubdomain (tenants w) (params_subdomain req)")
      (auto simp: subscription_cancel_def)
  obtain r cs where c: "cancel_existing env1 t = (r, cs)" by (cases "cancel_existing env1 t")
  have w1: "w1 = w\<lparr>tenants := updateTenantSubscription (tenants w) (tenant_id t) ?s (Date_now env1)\<rparr>"
    using assms t c
    by (auto simp: subscription_cancel_def failure_reply_def split: sum.splits)
  have t1: "getTenantBySubdomain (tenants w1) (params_subdomain req) =
      Some (set_subscription ?s (Date_now env1) t)"
    using getTenantBySubdomain_update[OF t, of "tenant_id t" ?s "Date_now env1"] w1 by simp
  have nocall: "cancel_existing env2 (set_subscription ?s (Date_now env1) t) = (Inr (), [])"
    by (simp add: cancel_existing_def set_subscription_def)
  have run2: "subscription_cancel env2 req w1 =
      (Reply 200 (SuccessMessage ''Subscription cancelled successfully''), [],
       w1\<lparr>tenants := updateTenantSubscription (tenants w1) (tenant_id t) ?s (Date_now env2)\<rparr>)"
    using t1 nocall by (simp add: subscription_cancel_def set_subscription_keeps)
  have tw: "updateTenantSubscription (tenants w1) (tenant_id t) ?s (Date_now env2) =
      map (\<lambda>t'. if tenant_id t' = tenant_id t
                  then t'\<lparr>tenant_updatedAt := Date_now env2\<rparr> else t') (tenants w1)"
    unfolding w1 by (simp add: updateTenantSubscription_twice)
  have fields: "\<forall>t' \<in> set (tenants w1). tenant_id t' = tenant_id t \<longrightarrow>
              subscriptionPlan t' = ''free'' \<and> subscriptionStatus t' = ''cancelled'' \<and>
              stripeSubscriptionId t' = None \<and> subscriptionEndsAt t' = None \<and>
              tenant_updatedAt t' = Date_now env1"
    unfolding w1 by (auto simp: updateTenantSubscription_def set_subscription_def)
  have same: "map subscription_state
             (map (\<lambda>t'. if tenant_id t' = tenant_id t
                         then t'\<lparr>tenant_updatedAt := Date_now env2\<rparr> else t')
                (tenants w1)) =
           map subscription_state (tenants w1)"
    by (simp add: subscription_state_def)
  show ?thesis using t run2 tw fields same by auto
qed

theorem cancel_twice_second_makes_no_call_witness:
  "fst (subscription_cancel example_env example_request example_world) =
     Reply 200 (SuccessMessage ''Subscription cancelled successfully'') \<and>
   fst (snd (subscription_cancel example_env example_request example_world)) =
     [SubscriptionsCancel ''sub_7''] \<and>
   fst (snd (subscription_cancel (example_env\<lparr>Date_now := 2000\<rparr>) example_request
               (snd (snd (subscription_cancel example_env example_request example_world))))) = []"
proof -
  have run: "subscription_cancel example_env example_request example_world =
      (Reply 200 (SuccessMessage ''Subscription cancelled successfully''),
       [SubscriptionsCancel ''sub_7''],
       snd (snd (subscription_cancel example_env example_request example_world)))"
    by (simp add: subscription_defs example_defs)
  from cancel_twice_second_makes_no_call[OF run, of "example_env\<lparr>Date_now := 2000\<rparr>"]
  have "fst (snd (subscription_cancel (example_env\<lparr>Date_now := 2000\<rparr>) example_request
               (snd (snd (subscription_cancel example_env example_request example_world))))) = []"
    by auto
  with run show ?thesis by (metis fst_conv snd_conv)
qed

section \<open>Properties of the create routes\<close>

lemma map_of_map_set:
  "map_of (map_set m k v) k' = (if k' = k then Some v else map_of m k')"
  by (induction m) auto

lemma map_of_object_other:
  "k' \<noteq> k \<Longrightarrow> map_of (object ((k', v) # kvs)) k = map_of (object kvs) k"
  by (cases v) (simp_all add: object_def)

lemma map_of_object_hit: "map_of (object ((k, Some x) # kvs)) k = Some x"
  by (simp add: object_def)

lemma map_set_same: "map_of m k = Some v \<Longrightarrow> map_set m k v = m"
  by (induction m) (auto split: if_splits)

lemma with_tenant_storage_at:
  assumes inv: "registry_inv (registry w)" and rt: "req_tenant req = Some c"
  shows "with_tenant_storage req w queries =
           (case map_get (dbs w) (ctx_connectionString c) of
              None \<Rightarrow>
                (internal_error,
                 w\<lparr>registry := snd (getTenantDb (ctx_connectionString c) (registry w))\<rparr>)
            | Some db \<Rightarrow>
                (case queries c db of
                   None \<Rightarrow>
                     (internal_error,
                      w\<lparr>registry := snd (getTenantDb (ctx_connectionString c) (registry w))\<rparr>)
                 | Some (r, db') \<Rightarrow>
                     (r, w\<lparr>registry := snd (getTenantDb (ctx_connectionString c) (registry w)),
                           dbs := map_set (dbs w) (ctx_connectionString c) db'\<rparr>)))"
proof -
  obtain st w1 where cts: "createTenantStorage (ctx_connectionString c) w = (st, w1)"
    by (cases "createTenantStorage (ctx_connectionString c) w")
  from createTenantStorage_at[OF inv cts] obtain p where
    f: "storage_db w1 st = map_get (dbs w) (ctx_connectionString c)" and d: "dbs w1 = dbs w"
    and p: "st = Some p" "connectionString p = ctx_connectionString c" by auto
  have w1: "w1 = w\<lparr>registry := snd (getTenantDb (ctx_connectionString c) (registry w))\<rparr>"
    using cts by (auto simp: createTenantStorage_def split: prod.splits)
  show ?thesis
    using f p d w1 cts
    by (auto simp: with_tenant_storage_def rt storage_put_def split: option.splits)
qed

lemma build_row_lookup:
  assumes "build_row env cols obj = Some r" and "c \<in> set cols"
    and "distinct (map col_name cols)"
  shows "map_of r (col_name c) = col_value env c (map_of obj (col_name c))"
  using assms
proof (induction cols arbitrary: r)
  case Nil
  then show ?case by simp
next
  case (Cons a cols)
  from Cons.prems(1) obtain x r' where
    x: "col_value env a (map_of obj (col_name a)) = Some x"
    and r': "build_row env cols obj = Some r'" and r: "r = (col_name a, x) # r'"
    by (auto split: option.splits)
  show ?case
  proof (cases "c = a")
    case True
    with x r show ?thesis by simp
  next
    case False
    with Cons.prems have c: "c \<in> set cols" by simp
    have "col_name a \<notin> col_name ` set cols" using Cons.prems(3) by simp
    with c have ne: "col_name c \<noteq> col_name a" by (metis imageI)
    from Cons.IH[OF r' c] Cons.prems(3) have "map_of r' (col_name c) =
        col_value env c (map_of obj (col_name c))" by simp
    with r ne show ?thesis by simp
  qed
qed

lemma int_column_forced:
  assumes "build_row env cols obj = Some r" and "Column k CInteger nn d un \<in> set cols"
    and "distinct (map col_name cols)" and "map_of obj k = Some (JNum n)"
  shows "map_of r k = Some (JNum n)"
proof -
  from build_row_lookup[OF assms(1,2,3)] assms(4)
  have e: "map_of r k = (if in_int4 n then Some (JNum n) else None)"
    by (simp add: col_value_def)
  have "k \<in> fst ` set r" using assms(1,2)
  proof (induction cols arbitrary: r)
    case Nil then show ?case by simp
  next
    case (Cons a cols)
    then show ?case by (auto split: option.splits) 
  qed
  then have "map_of r k \<noteq> None" by (simp add: map_of_eq_None_iff)
  with e show ?thesis by (auto split: if_splits)
qed

lemma json_body_no_date: "json_body obj \<Longrightarrow> map_of obj k \<noteq> Some (JDate d)"
  by (induction obj) (auto simp: json_body_def is_date_def split: if_splits)

lemma parse_needs_date:
  assumes "json_body obj" and "Column k CTimestamp True None un \<in> set schema"
  shows "parse env schema obj = None"
proof -
  have "\<not> field_ok env obj (Column k CTimestamp True None un)"
    using json_body_no_date[OF assms(1), of k]
    by (cases "map_of obj k"; cases "the (map_of obj k)")
       (auto simp: field_ok_def presence_of_def)
  with assms(2) show ?thesis by (auto simp: parse_def list_all_iff)
qed

lemma insert_row_int:
  assumes "insert_row env t cols obj rows = Some r" and "Column k CInteger nn d un \<in> set cols"
    and "distinct (map col_name cols)" and "map_of obj k = Some (JNum n)" and "k \<noteq> ''id''"
  shows "map_of r k = Some (JNum n)"
proof -
  from assms(1) obtain r0 where r0: "build_row env cols obj = Some r0"
    and r: "r = (''id'', JNum (pg_serial env t)) # r0 @
              [(''createdAt'', JDate (pg_now env)), (''updatedAt'', JDate (pg_now env))]"
    by (auto simp: insert_row_def split: option.splits if_splits)
  from int_column_forced[OF r0 assms(2,3,4)] have "map_of r0 k = Some (JNum n)" .
  with r assms(5) show ?thesis by (simp add: map_add_def)
qed

lemma createUser_row:
  assumes "createUser env obj db = Some (usr, db')" and "map_of obj ''tenantId'' = Some (JNum n)"
  shows "user_tenantId usr = n \<and> db' = db\<lparr>users := users db @ [usr]\<rparr>"
proof -
  define obj' where "obj' = (if js_truthy (map_of obj ''employeeId'') then obj
             else map_set obj ''employeeId'' (JStr (generateEmployeeId env)))"
  have t: "map_of obj' ''tenantId'' = Some (JNum n)"
    using assms(2) by (simp add: obj'_def map_of_map_set)
  from assms(1) obtain r where r: "build_row env users_columns obj' = Some r"
    and u: "usr = user_of_row (pg_serial env ''users'') (pg_now env) r"
    and d: "db' = db\<lparr>users := users db @ [usr]\<rparr>"
    by (auto simp: createUser_def Let_def obj'_def split: option.splits if_splits)
  have "map_of r ''tenantId'' = Some (JNum n)"
    by (rule int_column_forced[OF r _ _ t, of True None False]) (simp_all add: users_columns_def)
  with u d show ?thesis by (simp add: user_of_row_def int_of_val_def)
qed

lemma createCustomer_row:
  assumes "createCustomer env obj db = Some (r, db')"
    and "map_of obj ''tenantId'' = Some (JNum n)" and "map_of obj ''createdById'' = Some (JNum m)"
  shows "map_of r ''tenantId'' = Some (JNum n) \<and> map_of r ''createdById'' = Some (JNum m) \<and>
         db' = db\<lparr>customers := customers db @ [r]\<rparr>"
proof -
  define obj' where "obj' = (if js_truthy (map_of obj ''customerId'') then obj
             else map_set obj ''customerId'' (JStr (generateCustomerId env)))"
  have t: "map_of obj' ''tenantId'' = Some (JNum n)" "map_of obj' ''createdById'' = Some (JNum m)"
    using assms(2,3) by (simp_all add: obj'_def map_of_map_set)
  from assms(1) have i: "insert_row env ''customers'' customers_columns obj' (customers db) = Some r"
    and d: "db' = db\<lparr>customers := customers db @ [r]\<rparr>"
    by (auto simp: createCustomer_def Let_def obj'_def split: option.splits)
  have "map_of r ''tenantId'' = Some (JNum n)"
    by (rule insert_row_int[OF i _ _ t(1), of True None False]) (simp_all add: customers_columns_def)
  moreover have "map_of r ''createdById'' = Some (JNum m)"
    by (rule insert_row_int[OF i _ _ t(2), of True None False]) (simp_all add: customers_columns_def)
  ultimately show ?thesis using d by simp
qed

lemma createTimesheet_row:
  assumes "createTimesheet env obj db = Some (r, db')"
    and "map_of obj ''tenantId'' = Some (JNum n)" and "map_of obj ''userId'' = Some (JNum m)"
  shows "map_of r ''tenantId'' = Some (JNum n) \<and> map_of r ''userId'' = Some (JNum m) \<and>
         db' = db\<lparr>timesheets := timesheets db @ [r]\<rparr>"
proof -
  from assms(1) have i: "insert_row env ''timesheets'' timesheets_columns obj (timesheets db) = Some r"
    and d: "db' = db\<lparr>timesheets := timesheets db @ [r]\<rparr>"
    by (auto simp: createTimesheet_def split: option.splits)
  have "map_of r ''tenantId'' = Some (JNum n)"
    by (rule insert_row_int[OF i _ _ assms(2), of True None False])
       (simp_all add: timesheets_columns_def)
  moreover have "map_of r ''userId'' = Some (JNum m)"
    by (rule insert_row_int[OF i _ _ assms(3), of True None False])
       (simp_all add: timesheets_columns_def)
  ultimately show ?thesis using d by simp
qed

lemma createExpense_row:
  assumes "createExpense env obj db = Some (r, db')"
    and "map_of obj ''tenantId'' = Some (JNum n)" and "map_of obj ''userId'' = Some (JNum m)"
  shows "map_of r ''tenantId'' = Some (JNum n) \<and> map_of r ''userId'' = Some (JNum m) \<and>
         db' = db\<lparr>expenses := expenses db @ [r]\<rparr>"
proof -
  from assms(1) have i: "insert_row env ''expenses'' expenses_columns obj (expenses db) = Some r"
    and d: "db' = db\<lparr>expenses := expenses db @ [r]\<rparr>"
    by (auto simp: createExpense_def split: option.splits)
  have "map_of r ''tenantId'' = Some (JNum n)"
    by (rule insert_row_int[OF i _ _ assms(2), of True None False])
       (simp_all add: expenses_columns_def)
  moreover have "map_of r ''userId'' = Some (JNum m)"
    by (rule insert_row_int[OF i _ _ assms(3), of True None False])
       (simp_all add: expenses_columns_def)
  ultimately show ?thesis using d by simp
qed

lemma create_user_result:
  assumes inv: "registry_inv (registry w)" and rt: "req_tenant req = Some c"
    and run: "create_user env req w = (rep, w')"
  shows "dbs w' = dbs w \<or>
         (\<exists>db usr. map_get (dbs w) (ctx_connectionString c) = Some db \<and>
            rep = Reply 201 (UserJson usr) \<and> user_tenantId usr = ctx_id c \<and>
            dbs w' = map_set (dbs w) (ctx_connectionString c) (db\<lparr>users := users db @ [usr]\<rparr>))"
proof (cases "map_get (dbs w) (ctx_connectionString c)")
  case None
  with run show ?thesis
    unfolding create_user_def with_tenant_storage_at[OF inv rt] by auto
next
  case (Some db)
  have same: "map_set (dbs w) (ctx_connectionString c) db = dbs w"
    using Some by (simp add: map_set_same map_get_def)
  show ?thesis
    using run Some same
    unfolding create_user_def with_tenant_storage_at[OF inv rt]
    by (auto split: option.splits if_splits
        dest!: createUser_row[where n = "ctx_id c"]
        simp: map_of_object_other map_of_object_hit)
qed

lemma create_user_created:
  assumes inv: "registry_inv (registry w)" and rt: "req_tenant req = Some c"
    and db: "map_get (dbs w) (ctx_connectionString c) = Some db"
    and e: "map_of (body req) ''email'' = Some (JStr e)" "plain e" "length e \<le> 255"
      "e \<notin> set (map user_email (users db))"
    and pw: "map_of (body req) ''password'' = Some (JStr pw)" "plain (hashPassword env pw)"
    and opt: "\<forall>k \<in> {''firstName'', ''lastName'', ''employeeId'', ''department'', ''designation'',
                  ''role''}. map_of (body req) k = None"
    and gen: "plain (generateEmployeeId env)" "length (generateEmployeeId env) \<le> 50"
      "Some (generateEmployeeId env) \<notin> set (map employeeId (users db))"
    and tid: "in_int4 (ctx_id c)"
  shows "create_user env req w =
           (Reply 201 (UserJson
              \<lparr>user_id = pg_serial env ''users'', user_email = e,
               password = hashPassword env pw, firstName = None, lastName = None,
               employeeId = Some (generateEmployeeId env), department = None,
               designation = None, role = ''user'', isActive = True,
               user_tenantId = ctx_id c, user_createdAt = pg_now env,
               user_updatedAt = pg_now env\<rparr>),
            w\<lparr>registry := snd (getTenantDb (ctx_connectionString c) (registry w)),
              dbs := map_set (dbs w) (ctx_connectionString c)
                (db\<lparr>users := users db @
                   [\<lparr>user_id = pg_serial env ''users'', user_email = e,
                     password = hashPassword env pw, firstName = None, lastName = None,
                     employeeId = Some (generateEmployeeId env), department = None,
                     designation = None, role = ''user'', isActive = True,
                     user_tenantId = ctx_id c, user_createdAt = pg_now env,
                     user_updatedAt = pg_now env\<rparr>]\<rparr>)\<rparr>)"
proof -
  have pl: "plain ''user''" by (simp add: plain_def)
  have none: "getUserByEmail db e = None"
    using e(4) by (auto simp: getUserByEmail_def find_None_iff)
  have cu: "createUser env
      (object
         [(''email'', map_of (body req) ''email''),
          (''password'', Some (JStr (hashPassword env pw))),
          (''firstName'', map_of (body req) ''firstName''),
          (''lastName'', map_of (body req) ''lastName''),
          (''employeeId'', or_undefined (map_of (body req) ''employeeId'')),
          (''department'', or_undefined (map_of (body req) ''department'')),
          (''designation'', or_undefined (map_of (body req) ''designation'')),
          (''role'', Some (js_or_val (map_of (body req) ''role'') (JStr ''user''))),
          (''isActive'', Some (JBool True)),
          (''tenantId'', Some (JNum (ctx_id c)))]) db =
     Some (\<lparr>user_id = pg_serial env ''users'', user_email = e,
               password = hashPassword env pw, firstName = None, lastName = None,
               employeeId = Some (generateEmployeeId env), department = None,
               designation = None, role = ''user'', isActive = True,
               user_tenantId = ctx_id c, user_createdAt = pg_now env,
               user_updatedAt = pg_now env\<rparr>,
           db\<lparr>users := users db @
                   [\<lparr>user_id = pg_serial env ''users'', user_email = e,
                     password = hashPassword env pw, firstName = None, lastName = None,
                     employeeId = Some (generateEmployeeId env), department = None,
                     designation = None, role = ''user'', isActive = True,
                     user_tenantId = ctx_id c, user_createdAt = pg_now env,
                     user_updatedAt = pg_now env\<rparr>]\<rparr>)"
    using e pw opt gen tid pl
    by (simp add: createUser_def object_def or_undefined_def js_or_val_def js_truthy_def
        users_columns_def col_value_def null_value_def user_of_row_def text_of_def
        as_string_def bool_of_def int_of_val_def Let_def)
  show ?thesis
    unfolding create_user_def with_tenant_storage_at[OF inv rt]
    using db e pw none cu by (simp add: text_param_def as_string_def)
qed

lemma map_of_filter_keys:
  "k \<in> S \<Longrightarrow> map_of (filter (\<lambda>kv. fst kv \<in> S) obj) k = map_of obj k"
  by (induction obj) auto

lemma parse_map_of:
  assumes "parse env schema obj = Some v" and "k \<in> set (map col_name schema)"
  shows "map_of v k = map_of obj k"
proof -
  from assms(1) have "v = filter (\<lambda>kv. fst kv \<in> set (map col_name schema)) obj"
    unfolding parse_def by (simp split: if_splits)
  then show ?thesis using map_of_filter_keys[OF assms(2), of obj] by simp
qed

lemma create_customer_result:
  assumes inv: "registry_inv (registry w)" and rt: "req_tenant req = Some c"
    and ru: "req_user req = Some u"
    and run: "create_customer env req w = (rep, w')"
  shows "dbs w' = dbs w \<or>
         (\<exists>db r. map_get (dbs w) (ctx_connectionString c) = Some db \<and>
            rep = Reply 201 (RowJson r) \<and>
            map_of r ''tenantId'' = Some (JNum (ctx_id c)) \<and>
            map_of r ''createdById'' = Some (JNum (user_id u)) \<and>
            dbs w' = map_set (dbs w) (ctx_connectionString c)
                       (db\<lparr>customers := customers db @ [r]\<rparr>))"
proof (cases "parse env insertCustomerSchema (body req)")
  case None
  with run show ?thesis by (simp add: create_customer_def)
next
  case (Some v)
  show ?thesis
    using run Some ru
    unfolding create_customer_def with_tenant_storage_at[OF inv rt]
    by (auto split: option.splits
        dest!: createCustomer_row[where n = "ctx_id c" and m = "user_id u"]
        simp: map_of_map_set)
qed

lemma create_timesheet_result:
  assumes inv: "registry_inv (registry w)" and rt: "req_tenant req = Some c"
    and ru: "req_user req = Some u"
    and run: "create_timesheet env req w = (rep, w')"
  shows "dbs w' = dbs w \<or>
         (\<exists>db r. map_get (dbs w) (ctx_connectionString c) = Some db \<and>
            rep = Reply 201 (RowJson r) \<and>
            map_of r ''tenantId'' = Some (JNum (ctx_id c)) \<and>
            map_of r ''userId'' = Some (JNum (user_id u)) \<and>
            dbs w' = map_set (dbs w) (ctx_connectionString c)
                       (db\<lparr>timesheets := timesheets db @ [r]\<rparr>))"
proof (cases "parse env insertTimesheetSchema (body req)")
  case None
  with run show ?thesis by (simp add: create_timesheet_def)
next
  case (Some v)
  show ?thesis
    using run Some ru
    unfolding create_timesheet_def with_tenant_storage_at[OF inv rt]
    by (auto split: option.splits
        dest!: createTimesheet_row[where n = "ctx_id c" and m = "user_id u"]
        simp: map_of_map_set)
qed

lemma create_expense_result:
  assumes inv: "registry_inv (registry w)" and rt: "req_tenant req = Some c"
    and ru: "req_user req = Some u"
    and run: "create_expense env req w = (rep, w')"
  shows "dbs w' = dbs w \<or>
         (\<exists>db r. map_get (dbs w) (ctx_connectionString c) = Some db \<and>
            rep = Reply 201 (RowJson r) \<and>
            map_of r ''tenantId'' = Some (JNum (ctx_id c)) \<and>
            map_of r ''userId'' = Some (JNum (user_id u)) \<and>
            dbs w' = map_set (dbs w) (ctx_connectionString c)
                       (db\<lparr>expenses := expenses db @ [r]\<rparr>))"
proof (cases "parse env insertExpenseSchema (body req)")
  case None
  with run show ?thesis by (simp add: create_expense_def)
next
  case (Some v)
  show ?thesis
    using run Some ru
    unfolding create_expense_def with_tenant_storage_at[OF inv rt]
    by (auto split: option.splits
        dest!: createExpense_row[where n = "ctx_id c" and m = "user_id u"]
        simp: map_of_map_set)
qed

lemma json_body_not_created:
  assumes "json_body (body req)"
  shows "create_timesheet env req w = (internal_error, w) \<and>
         create_expense env req w = (internal_error, w)"
proof -
  have "parse env insertTimesheetSchema (body req) = None"
    by (rule parse_needs_date[OF assms, of "''date''" False])
       (simp add: insertTimesheetSchema_def timesheets_columns_def)
  moreover have "parse env insertExpenseSchema (body req) = None"
    by (rule parse_needs_date[OF assms, of "''date''" False])
       (simp add: insertExpenseSchema_def expenses_columns_def)
  ultimately show ?thesis by (simp add: create_timesheet_def create_expense_def)
qed

lemma create_customer_created:
  assumes inv: "registry_inv (registry w)" and rt: "req_tenant req = Some c"
    and ru: "req_user req = Some u"
    and db: "map_get (dbs w) (ctx_connectionString c) = Some db"
    and cid: "map_of (body req) ''customerId'' = Some (JStr cid)" "length cid \<le> 50"
      "sid = (if cid = [] then generateCustomerId env else cid)" "plain sid" "length sid \<le> 50"
      "\<forall>r' \<in> set (customers db). map_of r' ''customerId'' \<noteq> Some (JStr sid)"
    and n: "map_of (body req) ''name'' = Some (JStr n)" "plain n" "length n \<le> 255"
    and e: "map_of (body req) ''email'' = Some (JStr e)" "plain e" "length e \<le> 255"
    and ids: "map_of (body req) ''tenantId'' = Some (JNum t0)" "in_int4 t0"
      "map_of (body req) ''createdById'' = Some (JNum u0)" "in_int4 u0"
    and opt: "\<forall>k \<in> {''status'', ''address'', ''city'', ''state'', ''pincode''}.
                map_of (body req) k = None"
    and forced: "in_int4 (ctx_id c)" "in_int4 (user_id u)"
    and row: "r = [(''id'', JNum (pg_serial env ''customers'')), (''customerId'', JStr sid),
                   (''name'', JStr n), (''email'', JStr e), (''status'', JStr ''active''),
                   (''address'', JNull), (''city'', JNull), (''state'', JNull),
                   (''pincode'', JNull), (''tenantId'', JNum (ctx_id c)),
                   (''createdById'', JNum (user_id u)), (''createdAt'', JDate (pg_now env)),
                   (''updatedAt'', JDate (pg_now env))]"
  shows "create_customer env req w =
           (Reply 201 (RowJson r),
            w\<lparr>registry := snd (getTenantDb (ctx_connectionString c) (registry w)),
              dbs := map_set (dbs w) (ctx_connectionString c)
                       (db\<lparr>customers := customers db @ [r]\<rparr>)\<rparr>)"
proof -
  have pl: "plain ''active''" by (simp add: plain_def)
  obtain v where v: "parse env insertCustomerSchema (body req) = Some v"
    using cid(1,2) n e ids opt
    by (simp add: parse_def insertCustomerSchema_def customers_columns_def field_ok_def
        presence_of_def)
  have m: "\<And>k. k \<in> set (map col_name customers_columns) \<Longrightarrow> map_of v k = map_of (body req) k"
    using parse_map_of[OF v] by (simp add: insertCustomerSchema_def)
  have look: "map_of v ''customerId'' = Some (JStr cid)" "map_of v ''name'' = Some (JStr n)"
    "map_of v ''email'' = Some (JStr e)" "map_of v ''status'' = None" "map_of v ''address'' = None"
    "map_of v ''city'' = None" "map_of v ''state'' = None" "map_of v ''pincode'' = None"
    using cid(1) n(1) e(1) opt by (simp_all add: m customers_columns_def)
  have cc: "createCustomer env
      (map_set (map_set v ''tenantId'' (JNum (ctx_id c))) ''createdById'' (JNum (user_id u))) db =
      Some (r, db\<lparr>customers := customers db @ [r]\<rparr>)"
  proof (cases "cid = []")
    case True
    with cid have "sid = generateCustomerId env" by simp
    with True look cid n e forced pl row show ?thesis
      by (simp add: createCustomer_def insert_row_def customers_columns_def col_value_def
          null_value_def map_of_map_set js_truthy_def unique_violation_def list_ex_iff Let_def)
  next
    case False
    with cid have "sid = cid" by simp
    with False look cid n e forced pl row show ?thesis
      by (simp add: createCustomer_def insert_row_def customers_columns_def col_value_def
          null_value_def map_of_map_set js_truthy_def unique_violation_def list_ex_iff Let_def)
  qed
  show ?thesis
    unfolding create_customer_def v with_tenant_storage_at[OF inv rt]
    using db ru cc by simp
qed

text \<open>
  C10. On a request that the middleware passed on, with \<open>req.tenant\<close> and \<open>req.user\<close>
  set, each of the four create handlers either stores nothing or answers 201 and adds
  one row to the database of the request's tenant: a row whose \<open>tenantId\<close> is
  \<open>req.tenant.id\<close> and, for a customer, whose \<open>createdById\<close>, for a timesheet or an
  expense, whose \<open>userId\<close> is \<open>req.user.id\<close>. The body is arbitrary: a \<open>tenantId\<close> or
  \<open>userId\<close> in it changes nothing. Rows are in fact created: a body with a new email and
  a password makes a user of the request's tenant, and a body that the customer schema
  accepts makes a customer of the request's tenant and user. The timesheet and the
  expense schemas require \<open>date\<close> to be a \<open>Date\<close> object, which no JSON body holds: on
  such a body both handlers answer 500 and store nothing, so over HTTP no timesheet
  and no expense is created at all.
\<close>

theorem created_records_carry_request_tenant:
  assumes inv: "registry_inv (registry w)" and rt: "req_tenant req = Some c"
    and ru: "req_user req = Some u"
  shows "(\<forall>rep w'. create_user env req w = (rep, w') \<longrightarrow>
            dbs w' = dbs w \<or>
            (\<exists>db usr. map_get (dbs w) (ctx_connectionString c) = Some db \<and>
               rep = Reply 201 (UserJson usr) \<and> user_tenantId usr = ctx_id c \<and>
               dbs w' = map_set (dbs w) (ctx_connectionString c)
                          (db\<lparr>users := users db @ [usr]\<rparr>))) \<and>
         (\<forall>rep w'. create_customer env req w = (rep, w') \<longrightarrow>
            dbs w' = dbs w \<or>
            (\<exists>db r. map_get (dbs w) (ctx_connectionString c) = Some db \<and>
               rep = Reply 201 (RowJson r) \<and>
               map_of r ''tenantId'' = Some (JNum (ctx_id c)) \<and>
               map_of r ''createdById'' = Some (JNum (user_id u)) \<and>
               dbs w' = map_set (dbs w) (ctx_connectionString c)
                          (db\<lparr>customers := customers db @ [r]\<rparr>))) \<and>
         (\<forall>rep w'. create_timesheet env req w = (rep, w') \<longrightarrow>
            dbs w' = dbs w \<or>
            (\<exists>db r. map_get (dbs w) (ctx_connectionString c) = Some db \<and>
               rep = Reply 201 (RowJson r) \<and>
               map_of r ''tenantId'' = Some (JNum (ctx_id c)) \<and>
               map_of r ''userId'' = Some (JNum (user_id u)) \<and>
               dbs w' = map_set (dbs w) (ctx_connectionString c)
                          (db\<lparr>timesheets := timesheets db @ [r]\<rparr>))) \<and>
         (\<forall>rep w'. create_expense env req w = (rep, w') \<longrightarrow>
            dbs w' = dbs w \<or>
            (\<exists>db r. map_get (dbs w) (ctx_connectionString c) = Some db \<and>
               rep = Reply 201 (RowJson r) \<and>
               map_of r ''tenantId'' = Some (JNum (ctx_id c)) \<and>
               map_of r ''userId'' = Some (JNum (user_id u)) \<and>
               dbs w' = map_set (dbs w) (ctx_connectionString c)
                          (db\<lparr>expenses := expenses db @ [r]\<rparr>))) \<and>
         (json_body (body req) \<longrightarrow>
            create_timesheet env req w = (internal_error, w) \<and>
            create_expense env req w = (internal_error, w)) \<and>
         (\<forall>db e pw usr.
            map_get (dbs w) (ctx_connectionString c) = Some db \<and>
            map_of (body req) ''email'' = Some (JStr e) \<and> plain e \<and> length e \<le> 255 \<and>
            e \<notin> set (map user_email (users db)) \<and>
            map_of (body req) ''password'' = Some (JStr pw) \<and> plain (hashPassword env pw) \<and>
            (\<forall>k \<in> {''firstName'', ''lastName'', ''employeeId'', ''department'', ''designation'',
                     ''role''}. map_of (body req) k = None) \<and>
            plain (generateEmployeeId env) \<and> length (generateEmployeeId env) \<le> 50 \<and>
            Some (generateEmployeeId env) \<notin> set (map employeeId (users db)) \<and>
            in_int4 (ctx_id c) \<and>
            usr = \<lparr>user_id = pg_serial env ''users'', user_email = e,
                    password = hashPassword env pw, firstName = None, lastName = None,
                    employeeId = Some (generateEmployeeId env), department = None,
                    designation = None, role = ''user'', isActive = True,
                    user_tenantId = ctx_id c, user_createdAt = pg_now env,
                    user_updatedAt = pg_now env\<rparr> \<longrightarrow>
            create_user env req w =
              (Reply 201 (UserJson usr),
               w\<lparr>registry := snd (getTenantDb (ctx_connectionString c) (registry w)),
                 dbs := map_set (dbs w) (ctx_connectionString c)
                          (db\<lparr>users := users db @ [usr]\<rparr>)\<rparr>)) \<and>
         (\<forall>db cid sid n e t0 u0 r.
            map_get (dbs w) (ctx_connectionString c) = Some db \<and>
            map_of (body req) ''customerId'' = Some (JStr cid) \<and> length cid \<le> 50 \<and>
            sid = (if cid = [] then generateCustomerId env else cid) \<and>
            plain sid \<and> length sid \<le> 50 \<and>
            (\<forall>r' \<in> set (customers db). map_of r' ''customerId'' \<noteq> Some (JStr sid)) \<and>
            map_of (body req) ''name'' = Some (JStr n) \<and> plain n \<and> length n \<le> 255 \<and>
            map_of (body req) ''email'' = Some (JStr e) \<and> plain e \<and> length e \<le> 255 \<and>
            map_of (body req) ''tenantId'' = Some (JNum t0) \<and> in_int4 t0 \<and>
            map_of (body req) ''createdById'' = Some (JNum u0) \<and> in_int4 u0 \<and>
            (\<forall>k \<in> {''status'', ''address'', ''city'', ''state'', ''pincode''}.
               map_of (body req) k = None) \<and>
            in_int4 (ctx_id c) \<and> in_int4 (user_id u) \<and>
            r = [(''id'', JNum (pg_serial env ''customers'')), (''customerId'', JStr sid),
                 (''name'', JStr n), (''email'', JStr e), (''status'', JStr ''active''),
                 (''address'', JNull), (''city'', JNull), (''state'', JNull),
                 (''pincode'', JNull), (''tenantId'', JNum (ctx_id c)),
                 (''createdById'', JNum (user_id u)), (''createdAt'', JDate (pg_now env)),
                 (''updatedAt'', JDate (pg_now env))] \<longrightarrow>
            create_customer env req w =
              (Reply 201 (RowJson r),
               w\<lparr>registry := snd (getTenantDb (ctx_connectionString c) (registry w)),
                 dbs := map_set (dbs w) (ctx_connectionString c)
                          (db\<lparr>customers := customers db @ [r]\<rparr>)\<rparr>))"
proof (intro conjI allI impI)
  fix rep w' assume "create_user env req w = (rep, w')"
  from create_user_result[OF inv rt this]
  show "dbs w' = dbs w \<or>
            (\<exists>db usr. map_get (dbs w) (ctx_connectionString c) = Some db \<and>
               rep = Reply 201 (UserJson usr) \<and> user_tenantId usr = ctx_id c \<and>
               dbs w' = map_set (dbs w) (ctx_connectionString c)
                          (db\<lparr>users := users db @ [usr]\<rparr>))" .
next
  fix rep w' assume "create_customer env req w = (rep, w')"
  from create_customer_result[OF inv rt ru this]
  show "dbs w' = dbs w \<or>
            (\<exists>db r. map_get (dbs w) (ctx_connectionString c) = Some db \<and>
               rep = Reply 201 (RowJson r) \<and>
               map_of r ''tenantId'' = Some (JNum (ctx_id c)) \<and>
               map_of r ''createdById'' = Some (JNum (user_id u)) \<and>
               dbs w' = map_set (dbs w) (ctx_connectionString c)
                          (db\<lparr>customers := customers db @ [r]\<rparr>))" .
next
  fix rep w' assume "create_timesheet env req w = (rep, w')"
  from create_timesheet_result[OF inv rt ru this]
  show "dbs w' = dbs w \<or>
            (\<exists>db r. map_get (dbs w) (ctx_connectionString c) = Some db \<and>
               rep = Reply 201 (RowJson r) \<and>
               map_of r ''tenantId'' = Some (JNum (ctx_id c)) \<and>
               map_of r ''userId'' = Some (JNum (user_id u)) \<and>
               dbs w' = map_set (dbs w) (ctx_connectionString c)
                          (db\<lparr>timesheets := timesheets db @ [r]\<rparr>))" .
next
  fix rep w' assume "create_expense env req w = (rep, w')"
  from create_expense_result[OF inv rt ru this]
  show "dbs w' = dbs w \<or>
            (\<exists>db r. map_get (dbs w) (ctx_connectionString c) = Some db \<and>
               rep = Reply 201 (RowJson r) \<and>
               map_of r ''tenantId'' = Some (JNum (ctx_id c)) \<and>
               map_of r ''userId'' = Some (JNum (user_id u)) \<and>
               dbs w' = map_set (dbs w) (ctx_connectionString c)
                          (db\<lparr>expenses := expenses db @ [r]\<rparr>))" .
next
  assume "json_body (body req)"
  then show "create_timesheet env req w = (internal_error, w)"
    using json_body_not_created by blast
next
  assume "json_body (body req)"
  then show "create_expense env req w = (internal_error, w)"
    using json_body_not_created by blast
next
  fix db e pw usr
  assume a: "map_get (dbs w) (ctx_connectionString c) = Some db \<and>
            map_of (body req) ''email'' = Some (JStr e) \<and> plain e \<and> length e \<le> 255 \<and>
            e \<notin> set (map user_email (users db)) \<and>
            map_of (body req) ''password'' = Some (JStr pw) \<and> plain (hashPassword env pw) \<and>
            (\<forall>k \<in> {''firstName'', ''lastName'', ''employeeId'', ''department'', ''designation'',
                     ''role''}. map_of (body req) k = None) \<and>
            plain (generateEmployeeId env) \<and> length (generateEmployeeId env) \<le> 50 \<and>
            Some (generateEmployeeId env) \<notin> set (map employeeId (users db)) \<and>
            in_int4 (ctx_id c) \<and>
            usr = \<lparr>user_id = pg_serial env ''users'', user_email = e,
                    password = hashPassword env pw, firstName = None, lastName = None,
                    employeeId = Some (generateEmployeeId env), department = None,
                    designation = None, role = ''user'', isActive = True,
                    user_tenantId = ctx_id c, user_createdAt = pg_now env,
                    user_updatedAt = pg_now env\<rparr>"
  then have u: "usr = \<lparr>user_id = pg_serial env ''users'', user_email = e,
                    password = hashPassword env pw, firstName = None, lastName = None,
                    employeeId = Some (generateEmployeeId env), department = None,
                    designation = None, role = ''user'', isActive = True,
                    user_tenantId = ctx_id c, user_createdAt = pg_now env,
                    user_updatedAt = pg_now env\<rparr>" by blast
  show "create_user env req w =
              (Reply 201 (UserJson usr),
               w\<lparr>registry := snd (getTenantDb (ctx_connectionString c) (registry w)),
                 dbs := map_set (dbs w) (ctx_connectionString c)
                          (db\<lparr>users := users db @ [usr]\<rparr>)\<rparr>)"
    unfolding u
    by (rule create_user_created[OF inv rt]) (use a in simp_all)
next
  fix db cid sid n e t0 u0 r
  assume a: "map_get (dbs w) (ctx_connectionString c) = Some db \<and>
            map_of (body req) ''customerId'' = Some (JStr cid) \<and> length cid \<le> 50 \<and>
            sid = (if cid = [] then generateCustomerId env else cid) \<and>
            plain sid \<and> length sid \<le> 50 \<and>
            (\<forall>r' \<in> set (customers db). map_of r' ''customerId'' \<noteq> Some (JStr sid)) \<and>
            map_of (body req) ''name'' = Some (JStr n) \<and> plain n \<and> length n \<le> 255 \<and>
            map_of (body req) ''email'' = Some (JStr e) \<and> plain e \<and> length e \<le> 255 \<and>
            map_of (body req) ''tenantId'' = Some (JNum t0) \<and> in_int4 t0 \<and>
            map_of (body req) ''createdById'' = Some (JNum u0) \<and> in_int4 u0 \<and>
            (\<forall>k \<in> {''status'', ''address'', ''city'', ''state'', ''pincode''}.
               map_of (body req) k = None) \<and>
            in_int4 (ctx_id c) \<and> in_int4 (user_id u) \<and>
            r = [(''id'', JNum (pg_serial env ''customers'')), (''customerId'', JStr sid),
                 (''name'', JStr n), (''email'', JStr e), (''status'', JStr ''active''),
                 (''address'', JNull), (''city'', JNull), (''state'', JNull),
                 (''pincode'', JNull), (''tenantId'', JNum (ctx_id c)),
                 (''createdById'', JNum (user_id u)), (''createdAt'', JDate (pg_now env)),
                 (''updatedAt'', JDate (pg_now env))]"
  show "create_customer env req w =
              (Reply 201 (RowJson r),
               w\<lparr>registry := snd (getTenantDb (ctx_connectionString c) (registry w)),
                 dbs := map_set (dbs w) (ctx_connectionString c)
                          (db\<lparr>customers := customers db @ [r]\<rparr>)\<rparr>)"
    by (rule create_customer_created[OF inv rt ru, where cid = cid and sid = sid and n = n
          and e = e and ?t0.0 = t0 and ?u0.0 = u0]) (use a in \<open>auto split: if_splits\<close>)
qed

theorem created_records_carry_request_tenant_witness:
  "json_body user_body \<and> json_body numeric_email_body \<and> json_body customer_body \<and>
   json_body timesheet_body \<and> json_body expense_body \<and>
   map_of user_body ''tenantId'' = Some (JNum 7) \<and>
   map_of customer_body ''tenantId'' = Some (JNum 7) \<and>
   map_of customer_body ''createdById'' = Some (JNum 99) \<and>
   create_user example_env (passed_request\<lparr>body := user_body\<rparr>) stocked_world =
     (Reply 201 (UserJson
        \<lparr>user_id = 2, user_email = ''bob@acme.test'', password = ''hash:pw'', firstName = None,
         lastName = None, employeeId = Some ''EMP001'', department = None, designation = None,
         role = ''user'', isActive = True, user_tenantId = 5, user_createdAt = 2000,
         user_updatedAt = 2000\<rparr>),
      stocked_world
        \<lparr>dbs := map_set (dbs stocked_world) ''postgres://platform''
           (stocked_db\<lparr>users := [alice,
              \<lparr>user_id = 2, user_email = ''bob@acme.test'', password = ''hash:pw'',
               firstName = None, lastName = None, employeeId = Some ''EMP001'',
               department = None, designation = None, role = ''user'', isActive = True,
               user_tenantId = 5, user_createdAt = 2000, user_updatedAt = 2000\<rparr>]\<rparr>)\<rparr>) \<and>
   fst (create_user example_env (passed_request\<lparr>body := numeric_email_body\<rparr>) stocked_world) =
     Reply 201 (UserJson
        \<lparr>user_id = 2, user_email = ''5'', password = ''hash:pw'', firstName = None,
         lastName = None, employeeId = Some ''EMP001'', department = None, designation = None,
         role = ''user'', isActive = True, user_tenantId = 5, user_createdAt = 2000,
         user_updatedAt = 2000\<rparr>) \<and>
   create_customer example_env (passed_request\<lparr>body := customer_body\<rparr>) stocked_world =
     (Reply 201 (RowJson
        [(''id'', JNum 2), (''customerId'', JStr ''CUS001''), (''name'', JStr ''Carol''),
         (''email'', JStr ''carol@c.test''), (''status'', JStr ''active''), (''address'', JNull),
         (''city'', JNull), (''state'', JNull), (''pincode'', JNull), (''tenantId'', JNum 5),
         (''createdById'', JNum 1), (''createdAt'', JDate 2000), (''updatedAt'', JDate 2000)]),
      stocked_world
        \<lparr>dbs := map_set (dbs stocked_world) ''postgres://platform''
           (stocked_db\<lparr>customers := customers stocked_db @
              [[(''id'', JNum 2), (''customerId'', JStr ''CUS001''), (''name'', JStr ''Carol''),
                (''email'', JStr ''carol@c.test''), (''status'', JStr ''active''),
                (''address'', JNull), (''city'', JNull), (''state'', JNull),
                (''pincode'', JNull), (''tenantId'', JNum 5), (''createdById'', JNum 1),
                (''createdAt'', JDate 2000), (''updatedAt'', JDate 2000)]]\<rparr>)\<rparr>) \<and>
   create_timesheet example_env (passed_request\<lparr>body := timesheet_body\<rparr>) stocked_world =
     (internal_error, stocked_world) \<and>
   create_expense example_env (passed_request\<lparr>body := expense_body\<rparr>) stocked_world =
     (internal_error, stocked_world)"
proof -
  have inv: "registry_inv (registry stocked_world)"
    by (simp add: stocked_world_def opened_registry_def platform_pool_def registry_inv_def)
  have rt: "\<And>b. req_tenant (passed_request\<lparr>body := b\<rparr>) =
      Some \<lparr>ctx_id = 5, ctx_subdomain = ''acme'', ctx_connectionString = ''postgres://platform''\<rparr>"
    by (simp add: passed_request_def)
  have ru: "\<And>b. req_user (passed_request\<lparr>body := b\<rparr>) = Some alice"
    by (simp add: passed_request_def)
  have j: "json_body user_body" "json_body numeric_email_body" "json_body customer_body"
    "json_body timesheet_body" "json_body expense_body"
    by (simp_all add: json_body_def is_date_def user_body_def numeric_email_body_def
        customer_body_def timesheet_body_def expense_body_def)
  have k: "map_of user_body ''tenantId'' = Some (JNum 7)"
    "map_of customer_body ''tenantId'' = Some (JNum 7)"
    "map_of customer_body ''createdById'' = Some (JNum 99)"
    by (simp_all add: user_body_def customer_body_def)
  have reg: "snd (getTenantDb ''postgres://platform'' (registry stocked_world)) =
      registry stocked_world"
    by (simp add: stocked_world_def opened_registry_def getTenantDb_def map_has_def)
  have same: "\<And>d. stocked_world\<lparr>registry := registry stocked_world, dbs := d\<rparr> =
      stocked_world\<lparr>dbs := d\<rparr>" by simp
  note T = created_records_carry_request_tenant[OF inv rt ru, where env = example_env]
  have pu: "map_get (dbs stocked_world) ''postgres://platform'' = Some stocked_db \<and>
      map_of user_body ''email'' = Some (JStr ''bob@acme.test'') \<and> plain ''bob@acme.test'' \<and>
      length ''bob@acme.test'' \<le> 255 \<and>
      ''bob@acme.test'' \<notin> set (map user_email (users stocked_db)) \<and>
      map_of user_body ''password'' = Some (JStr ''pw'') \<and>
      plain (hashPassword example_env ''pw'') \<and>
      (\<forall>k \<in> {''firstName'', ''lastName'', ''employeeId'', ''department'', ''designation'',
               ''role''}. map_of user_body k = None) \<and>
      plain (generateEmployeeId example_env) \<and> length (generateEmployeeId example_env) \<le> 50 \<and>
      Some (generateEmployeeId example_env) \<notin> set (map employeeId (users stocked_db)) \<and>
      in_int4 5"
    by (simp add: stocked_world_def stocked_db_def map_get_def user_body_def plain_def
        alice_def example_env_def in_int4_def)
  have cu: "create_user example_env (passed_request\<lparr>body := user_body\<rparr>) stocked_world =
     (Reply 201 (UserJson
        \<lparr>user_id = 2, user_email = ''bob@acme.test'', password = ''hash:pw'', firstName = None,
         lastName = None, employeeId = Some ''EMP001'', department = None, designation = None,
         role = ''user'', isActive = True, user_tenantId = 5, user_createdAt = 2000,
         user_updatedAt = 2000\<rparr>),
      stocked_world
        \<lparr>dbs := map_set (dbs stocked_world) ''postgres://platform''
           (stocked_db\<lparr>users := [alice,
              \<lparr>user_id = 2, user_email = ''bob@acme.test'', password = ''hash:pw'',
               firstName = None, lastName = None, employeeId = Some ''EMP001'',
               department = None, designation = None, role = ''user'', isActive = True,
               user_tenantId = 5, user_createdAt = 2000, user_updatedAt = 2000\<rparr>]\<rparr>)\<rparr>)"
    using T[of user_body, THEN conjunct2, THEN conjunct2, THEN conjunct2, THEN conjunct2,
        THEN conjunct2, THEN conjunct1, rule_format, of stocked_db "''bob@acme.test''" "''pw''"
        "\<lparr>user_id = 2, user_email = ''bob@acme.test'', password = ''hash:pw'', firstName = None,
         lastName = None, employeeId = Some ''EMP001'', department = None, designation = None,
         role = ''user'', isActive = True, user_tenantId = 5, user_createdAt = 2000,
         user_updatedAt = 2000\<rparr>"] pu reg
    by (simp add: passed_request_def example_env_def stocked_db_def)
  have cn: "fst (create_user example_env (passed_request\<lparr>body := numeric_email_body\<rparr>)
        stocked_world) =
     Reply 201 (UserJson
        \<lparr>user_id = 2, user_email = ''5'', password = ''hash:pw'', firstName = None,
         lastName = None, employeeId = Some ''EMP001'', department = None, designation = None,
         role = ''user'', isActive = True, user_tenantId = 5, user_createdAt = 2000,
         user_updatedAt = 2000\<rparr>)"
    by code_simp
  have cc: "create_customer example_env (passed_request\<lparr>body := customer_body\<rparr>) stocked_world =
     (Reply 201 (RowJson
        [(''id'', JNum 2), (''customerId'', JStr ''CUS001''), (''name'', JStr ''Carol''),
         (''email'', JStr ''carol@c.test''), (''status'', JStr ''active''), (''address'', JNull),
         (''city'', JNull), (''state'', JNull), (''pincode'', JNull), (''tenantId'', JNum 5),
         (''createdById'', JNum 1), (''createdAt'', JDate 2000), (''updatedAt'', JDate 2000)]),
      stocked_world
        \<lparr>dbs := map_set (dbs stocked_world) ''postgres://platform''
           (stocked_db\<lparr>customers := customers stocked_db @
              [[(''id'', JNum 2), (''customerId'', JStr ''CUS001''), (''name'', JStr ''Carol''),
                (''email'', JStr ''carol@c.test''), (''status'', JStr ''active''),
                (''address'', JNull), (''city'', JNull), (''state'', JNull),
                (''pincode'', JNull), (''tenantId'', JNum 5), (''createdById'', JNum 1),
                (''createdAt'', JDate 2000), (''updatedAt'', JDate 2000)]]\<rparr>)\<rparr>)"
    by code_simp
  have ct: "create_timesheet example_env (passed_request\<lparr>body := timesheet_body\<rparr>) stocked_world =
      (internal_error, stocked_world) \<and>
    create_expense example_env (passed_request\<lparr>body := expense_body\<rparr>) stocked_world =
      (internal_error, stocked_world)"
    using T[of timesheet_body] T[of expense_body] j by simp
  show ?thesis using j k cu cn cc ct by simp
qed

section \<open>Properties of tenants without a store address\<close>

lemma confined_const: "confined a (\<lambda>w. (r, w))"
  by (simp add: confined_def writes_only_def)

lemma map_get_map_set: "map_get (map_set m k v) k = Some v"
  by (simp add: map_get_def map_of_map_set)

lemma confined_with_tenant_storage:
  assumes rt: "req_tenant req = Some c"
  shows "confined (ctx_connectionString c) (\<lambda>w. with_tenant_storage req w queries)"
  unfolding confined_def
proof (intro allI impI)
  fix w :: world assume inv: "registry_inv (registry w)"
  let ?a = "ctx_connectionString c"
  let ?run = "\<lambda>w. with_tenant_storage req w queries"
  have 1: "tenants (snd (?run w)) = tenants w \<and>
        (registry (snd (?run w)) = registry w \<or>
         registry (snd (?run w)) = snd (getTenantDb ?a (registry w))) \<and>
        writes_only ?a w (snd (?run w))"
    unfolding with_tenant_storage_at[OF inv rt]
    by (auto simp: writes_only_def split: option.splits)
  have 2: "\<forall>w2. registry_inv (registry w2) \<and> map_get (dbs w2) ?a = map_get (dbs w) ?a \<longrightarrow>
           fst (?run w2) = fst (?run w) \<and>
           map_get (dbs (snd (?run w2))) ?a = map_get (dbs (snd (?run w))) ?a"
  proof (intro allI impI, elim conjE)
    fix w2 :: world assume inv2: "registry_inv (registry w2)"
      and same: "map_get (dbs w2) ?a = map_get (dbs w) ?a"
    show "fst (?run w2) = fst (?run w) \<and>
           map_get (dbs (snd (?run w2))) ?a = map_get (dbs (snd (?run w))) ?a"
      unfolding with_tenant_storage_at[OF inv rt] with_tenant_storage_at[OF inv2 rt] same
      by (auto simp: map_get_map_set same split: option.splits)
  qed
  from 1 2 show "tenants (snd (?run w)) = tenants w \<and>
        (registry (snd (?run w)) = registry w \<or>
         registry (snd (?run w)) = snd (getTenantDb ?a (registry w))) \<and>
        writes_only ?a w (snd (?run w)) \<and>
        (\<forall>w2. registry_inv (registry w2) \<and> map_get (dbs w2) ?a = map_get (dbs w) ?a \<longrightarrow>
           fst (?run w2) = fst (?run w) \<and>
           map_get (dbs (snd (?run w2))) ?a = map_get (dbs (snd (?run w))) ?a)"
    by blast
qed

lemma confined_case_option:
  assumes "x = None \<Longrightarrow> confined a f" and "\<And>y. x = Some y \<Longrightarrow> confined a (g y)"
  shows "confined a (\<lambda>w. case x of None \<Rightarrow> f w | Some y \<Rightarrow> g y w)"
  using assms by (cases x) simp_all

lemma confined_create_user:
  assumes "req_tenant req = Some c"
  shows "confined (ctx_connectionString c) (create_user env req)"
  unfolding create_user_def[abs_def] by (rule confined_with_tenant_storage[OF assms])

lemma confined_get_users:
  assumes "req_tenant req = Some c"
  shows "confined (ctx_connectionString c) (get_users env req)"
  unfolding get_users_def[abs_def] by (rule confined_with_tenant_storage[OF assms])

lemma confined_update_user:
  assumes "req_tenant req = Some c"
  shows "confined (ctx_connectionString c) (update_user env req)"
  unfolding update_user_def[abs_def] Let_def by (rule confined_with_tenant_storage[OF assms])

lemma confined_delete_user:
  assumes "req_tenant req = Some c"
  shows "confined (ctx_connectionString c) (delete_user env req)"
  unfolding delete_user_def[abs_def] Let_def by (rule confined_with_tenant_storage[OF assms])

lemma confined_get_customers:
  assumes "req_tenant req = Some c"
  shows "confined (ctx_connectionString c) (get_customers env req)"
  unfolding get_customers_def[abs_def] by (rule confined_with_tenant_storage[OF assms])

lemma confined_create_customer:
  assumes "req_tenant req = Some c"
  shows "confined (ctx_connectionString c) (create_customer env req)"
  unfolding create_customer_def[abs_def]
  by (intro confined_case_option confined_const confined_with_tenant_storage[OF assms])

lemma confined_update_customer:
  assumes "req_tenant req = Some c"
  shows "confined (ctx_connectionString c) (update_customer env req)"
  unfolding update_customer_def[abs_def] Let_def by (rule confined_with_tenant_storage[OF assms])

lemma confined_delete_customer:
  assumes "req_tenant req = Some c"
  shows "confined (ctx_connectionString c) (delete_customer env req)"
  unfolding delete_customer_def[abs_def] Let_def by (rule confined_with_tenant_storage[OF assms])

lemma confined_get_projects:
  assumes "req_tenant req = Some c"
  shows "confined (ctx_connectionString c) (get_projects env req)"
  unfolding get_projects_def[abs_def] by (rule confined_with_tenant_storage[OF assms])

lemma confined_create_project:
  assumes "req_tenant req = Some c"
  shows "confined (ctx_connectionString c) (create_project env req)"
proof (cases "req_user req")
  case None
  then show ?thesis
    unfolding create_project_def[abs_def] by (simp add: assms confined_const)
next
  case (Some u)
  then show ?thesis
    unfolding create_project_def[abs_def] Let_def
    by (simp add: assms)
       (intro confined_case_option confined_const confined_with_tenant_storage[OF assms])
qed

lemma confined_update_project:
  assumes "req_tenant req = Some c"
  shows "confined (ctx_connectionString c) (update_project env req)"
  unfolding update_project_def[abs_def] Let_def by (rule confined_with_tenant_storage[OF assms])

lemma confined_delete_project:
  assumes "req_tenant req = Some c"
  shows "confined (ctx_connectionString c) (delete_project env req)"
  unfolding delete_project_def[abs_def] Let_def by (rule confined_with_tenant_storage[OF assms])

lemma confined_get_timesheets:
  assumes "req_tenant req = Some c"
  shows "confined (ctx_connectionString c) (get_timesheets env req)"
  unfolding get_timesheets_def[abs_def] by (rule confined_with_tenant_storage[OF assms])

lemma confined_create_timesheet:
  assumes "req_tenant req = Some c"
  shows "confined (ctx_connectionString c) (create_timesheet env req)"
  unfolding create_timesheet_def[abs_def]
  by (intro confined_case_option confined_const confined_with_tenant_storage[OF assms])

lemma confined_update_timesheet:
  assumes "req_tenant req = Some c"
  shows "confined (ctx_connectionString c) (update_timesheet env req)"
  unfolding update_timesheet_def[abs_def] Let_def by (rule confined_with_tenant_storage[OF assms])

lemma confined_delete_timesheet:
  assumes "req_tenant req = Some c"
  shows "confined (ctx_connectionString c) (delete_timesheet env req)"
  unfolding delete_timesheet_def[abs_def] Let_def by (rule confined_with_tenant_storage[OF assms])

lemma confined_get_tasks:
  assumes "req_tenant req = Some c"
  shows "confined (ctx_connectionString c) (get_tasks env req)"
  unfolding get_tasks_def[abs_def] by (rule confined_with_tenant_storage[OF assms])

lemma confined_create_task:
  assumes "req_tenant req = Some c"
  shows "confined (ctx_connectionString c) (create_task env req)"
  unfolding create_task_def[abs_def]
  by (intro confined_case_option confined_const confined_with_tenant_storage[OF assms])

lemma confined_update_task:
  assumes "req_tenant req = Some c"
  shows "confined (ctx_connectionString c) (update_task env req)"
  unfolding update_task_def[abs_def] Let_def by (rule confined_with_tenant_storage[OF assms])

lemma confined_delete_task:
  assumes "req_tenant req = Some c"
  shows "confined (ctx_connectionString c) (delete_task env req)"
  unfolding delete_task_def[abs_def] Let_def by (rule confined_with_tenant_storage[OF assms])

lemma confined_get_assigned_projects:
  assumes "req_tenant req = Some c"
  shows "confined (ctx_connectionString c) (get_assigned_projects env req)"
  unfolding get_assigned_projects_def[abs_def] by (rule confined_with_tenant_storage[OF assms])

lemma confined_assign_user_to_project:
  assumes "req_tenant req = Some c"
  shows "confined (ctx_connectionString c) (assign_user_to_project env req)"
  unfolding assign_user_to_project_def[abs_def] Let_def by (rule confined_with_tenant_storage[OF assms])

lemma confined_get_expenses:
  assumes "req_tenant req = Some c"
  shows "confined (ctx_connectionString c) (get_expenses env req)"
  unfolding get_expenses_def[abs_def] by (rule confined_with_tenant_storage[OF assms])

lemma confined_create_expense:
  assumes "req_tenant req = Some c"
  shows "confined (ctx_connectionString c) (create_expense env req)"
  unfolding create_expense_def[abs_def]
  by (intro confined_case_option confined_const confined_with_tenant_storage[OF assms])

lemma confined_update_expense:
  assumes "req_tenant req = Some c"
  shows "confined (ctx_connectionString c) (update_expense env req)"
  unfolding update_expense_def[abs_def] Let_def by (rule confined_with_tenant_storage[OF assms])

lemma confined_delete_expense:
  assumes "req_tenant req = Some c"
  shows "confined (ctx_connectionString c) (delete_expense env req)"
  unfolding delete_expense_def[abs_def] Let_def by (rule confined_with_tenant_storage[OF assms])

lemma tenant_routes_confined:
  assumes "req_tenant req = Some c"
  shows "\<forall>(m, p, gate, h) \<in> set (tenant_routes env). confined (ctx_connectionString c) (h req)"
  by (simp add: tenant_routes_def
      confined_create_user[OF assms] confined_get_users[OF assms] confined_update_user[OF
      assms] confined_delete_user[OF assms] confined_get_customers[OF assms]
      confined_create_customer[OF assms] confined_update_customer[OF assms]
      confined_delete_customer[OF assms] confined_get_projects[OF assms]
      confined_create_project[OF assms] confined_update_project[OF assms]
      confined_delete_project[OF assms] confined_get_timesheets[OF assms]
      confined_create_timesheet[OF assms] confined_update_timesheet[OF assms]
      confined_delete_timesheet[OF assms] confined_get_tasks[OF assms]
      confined_create_task[OF assms] confined_update_task[OF assms] confined_delete_task[OF
      assms] confined_get_assigned_projects[OF assms] confined_assign_user_to_project[OF
      assms] confined_get_expenses[OF assms] confined_create_expense[OF assms]
      confined_update_expense[OF assms] confined_delete_expense[OF assms])

lemma js_or_if: "js_or x d = (if truthy x then the x else d)"
  by (auto simp: js_or_def truthy_def split: option.splits)

lemma count_users_at:
  assumes "registry_inv (registry w)"
  shows "fst (count_users env ts w) =
           sum_list (map (\<lambda>t. case map_get (dbs w)
                                      (js_or (dbConnectionString t) (DATABASE_URL env)) of
                                 None \<Rightarrow> 0
                               | Some db \<Rightarrow> length (getUsersByTenant db (tenant_id t))) ts) \<and>
         snd (count_users env ts w) =
           w\<lparr>registry :=
               snd (run_calls (map (\<lambda>t. js_or (dbConnectionString t) (DATABASE_URL env)) ts)
                      (registry w))\<rparr>"
  using assms
proof (induction ts arbitrary: w)
  case Nil
  show ?case by simp
next
  case (Cons t ts)
  let ?cs = "js_or (dbConnectionString t) (DATABASE_URL env)"
  obtain st w1 where cts: "createTenantStorage ?cs w = (st, w1)"
    by (cases "createTenantStorage ?cs w")
  from createTenantStorage_at[OF Cons.prems cts] have
    f: "storage_db w1 st = map_get (dbs w) ?cs" and d: "dbs w1 = dbs w"
    and inv1: "registry_inv (registry w1)" by simp_all
  obtain h reg1 where g: "getTenantDb ?cs (registry w) = (h, reg1)"
    by (cases "getTenantDb ?cs (registry w)")
  have w1: "w1 = w\<lparr>registry := reg1\<rparr>"
    using cts g by (simp add: createTenantStorage_def)
  obtain n w2 where c: "count_users env ts w1 = (n, w2)" by (cases "count_users env ts w1")
  obtain hs reg2 where r: "run_calls (map (\<lambda>t. js_or (dbConnectionString t) (DATABASE_URL env)) ts)
      reg1 = (hs, reg2)"
    by (cases "run_calls (map (\<lambda>t. js_or (dbConnectionString t) (DATABASE_URL env)) ts) reg1")
  from Cons.IH[OF inv1] c d w1 r have
    n: "n = sum_list (map (\<lambda>t. case map_get (dbs w)
                                      (js_or (dbConnectionString t) (DATABASE_URL env)) of
                                 None \<Rightarrow> 0
                               | Some db \<Rightarrow> length (getUsersByTenant db (tenant_id t))) ts)"
    and w2: "w2 = w\<lparr>registry := reg2\<rparr>"
    by simp_all
  show ?case
    using cts f c n w2 g r by (simp add: Let_def)
qed

lemma dashboard_at:
  assumes "registry_inv (registry w)"
  shows "dashboard env req w =
           (Reply 200
              (DashboardJson (length (tenants w))
                 (sum_list (map (\<lambda>t. case map_get (dbs w)
                                            (if truthy (dbConnectionString t)
                                             then the (dbConnectionString t)
                                             else DATABASE_URL env) of
                                       None \<Rightarrow> 0
                                     | Some db \<Rightarrow> length (getUsersByTenant db (tenant_id t)))
                            (tenants w)))
                 (length (filter (\<lambda>t. tenant_status t = ''active'') (tenants w)))
                 (rev (drop (length (tenants w) - 5) (tenants w)))),
            w\<lparr>registry :=
                snd (run_calls (map (\<lambda>t. if truthy (dbConnectionString t)
                                          then the (dbConnectionString t)
                                          else DATABASE_URL env) (tenants w))
                       (registry w))\<rparr>)"
proof -
  obtain n w1 where c: "count_users env (tenants w) w = (n, w1)"
    by (cases "count_users env (tenants w) w")
  from count_users_at[OF assms, of env "tenants w"] c show ?thesis
    by (simp add: dashboard_def js_or_if)
qed

lemma run_calls_opens:
  assumes "registry_inv reg" and "a \<in> set css"
  shows "map_has (tenantConnections (snd (run_calls css reg))) a"
proof -
  obtain hs reg' where r: "run_calls css reg = (hs, reg')" by (cases "run_calls css reg")
  have "registry_inv reg'" using assms(1) r by (rule run_calls_inv)
  moreover have "a \<in> connectionString ` set (constructed reg')"
    using run_calls_addresses[OF assms(1) r] assms(2) by auto
  ultimately show ?thesis using r by (simp add: registry_inv_has)
qed

lemma createTenant_address:
  assumes "createTenant env obj ts = Some (t', ts')"
    and "map_of obj ''dbConnectionString'' = Some (JStr a)" and "plain a"
  shows "dbConnectionString t' = Some a \<and> ts' = ts @ [t']"
proof -
  from assms(1) obtain r where r: "build_row env tenants_columns obj = Some r"
    and t: "t' = tenant_of_row (pg_serial env ''tenants'') (pg_now env) r"
    and ts: "ts' = ts @ [t']"
    by (auto simp: createTenant_def Let_def split: option.splits if_splits)
  have "map_of r (col_name (Column ''dbConnectionString'' CText False None False)) =
      col_value env (Column ''dbConnectionString'' CText False None False)
        (map_of obj (col_name (Column ''dbConnectionString'' CText False None False)))"
    by (rule build_row_lookup[OF r]) (simp_all add: tenants_columns_def)
  then have "map_of r ''dbConnectionString'' = Some (JStr a)"
    using assms(2,3) by (simp add: col_value_def)
  with t ts show ?thesis by (simp add: tenant_of_row_def as_string_def)
qed

lemma create_tenant_default_address:
  assumes nd: "\<not> js_truthy (map_of (body req) ''dbConnectionString'')"
    and pl: "plain (DATABASE_URL env)"
    and run: "create_tenant env req w = (rep, w')"
  shows "w' = w \<or>
         (\<exists>t'. rep = Reply 201 (TenantJson t') \<and> dbConnectionString t' = Some (DATABASE_URL env) \<and>
               w' = w\<lparr>tenants := tenants w @ [t']\<rparr>)"
proof (cases "parse env insertTenantSchema (body req)")
  case None
  with run show ?thesis by (simp add: create_tenant_def)
next
  case (Some v)
  have "map_of v ''dbConnectionString'' = map_of (body req) ''dbConnectionString''"
    using Some by (rule parse_map_of) (simp add: insertTenantSchema_def tenants_columns_def)
  then have d: "js_or_val (map_of v ''dbConnectionString'') (JStr (DATABASE_URL env)) =
      JStr (DATABASE_URL env)"
    using nd by (cases "map_of (body req) ''dbConnectionString''") (auto simp: js_or_val_def)
  show ?thesis
    using run Some d pl
    by (auto simp: create_tenant_def map_of_map_set
        split: option.splits if_splits dest!: createTenant_address)
qed

lemma create_tenant_created:
  assumes n: "map_of (body req) ''name'' = Some (JStr n)" "plain n" "length n \<le> 255"
    and s: "map_of (body req) ''subdomain'' = Some (JStr s)" "plain s" "length s \<le> 100"
      "s \<notin> set (map subdomain (tenants w))"
    and d: "map_of (body req) ''dbConnectionString'' \<in> {None, Some JNull, Some (JStr [])}"
    and opt: "\<forall>k \<in> {''status'', ''subscriptionPlan'', ''subscriptionStatus'',
                  ''subscriptionEndsAt'', ''stripeCustomerId'', ''stripeSubscriptionId'',
                  ''maxUsers''}. map_of (body req) k = None"
    and pl: "plain (DATABASE_URL env)"
    and row: "t' = \<lparr>tenant_id = pg_serial env ''tenants'', tenant_name = n, subdomain = s,
                    dbConnectionString = Some (DATABASE_URL env), tenant_status = ''active'',
                    subscriptionPlan = ''free'', subscriptionStatus = ''active'',
                    subscriptionEndsAt = None, stripeCustomerId = None,
                    stripeSubscriptionId = None, maxUsers = 10,
                    tenant_createdAt = pg_now env, tenant_updatedAt = pg_now env\<rparr>"
  shows "create_tenant env req w = (Reply 201 (TenantJson t'), w\<lparr>tenants := tenants w @ [t']\<rparr>)"
proof -
  have pls: "plain ''active''" "plain ''free''" by (simp_all add: plain_def)
  obtain v where v: "parse env insertTenantSchema (body req) = Some v"
    using n s d opt
    by (auto simp: parse_def insertTenantSchema_def tenants_columns_def field_ok_def
        presence_of_def)
  have m: "\<And>k. k \<in> set (map col_name tenants_columns) \<Longrightarrow> map_of v k = map_of (body req) k"
    using parse_map_of[OF v] by (simp add: insertTenantSchema_def)
  have look: "map_of v ''name'' = Some (JStr n)" "map_of v ''subdomain'' = Some (JStr s)"
    "map_of v ''status'' = None" "map_of v ''subscriptionPlan'' = None"
    "map_of v ''subscriptionStatus'' = None" "map_of v ''subscriptionEndsAt'' = None"
    "map_of v ''stripeCustomerId'' = None" "map_of v ''stripeSubscriptionId'' = None"
    "map_of v ''maxUsers'' = None"
    "map_of v ''dbConnectionString'' = map_of (body req) ''dbConnectionString''"
    using n(1) s(1) opt by (simp_all add: m tenants_columns_def)
  have dd: "js_or_val (map_of v ''dbConnectionString'') (JStr (DATABASE_URL env)) =
      JStr (DATABASE_URL env)"
    using d by (auto simp: look js_or_val_def js_truthy_def)
  have none: "getTenantBySubdomain (tenants w) s = None"
    using s(4) by (auto simp: getTenantBySubdomain_def find_None_iff)
  have ct: "createTenant env
       (map_set v ''dbConnectionString'' (JStr (DATABASE_URL env))) (tenants w) =
      Some (t', tenants w @ [t'])"
    using look n s pl pls row
    by (simp add: createTenant_def tenants_columns_def col_value_def null_value_def
        map_of_map_set tenant_of_row_def text_of_def as_string_def as_date_def int_of_val_def
        in_int4_def Let_def)
  show ?thesis
    using v look s none ct dd by (simp add: create_tenant_def text_param_def)
qed

lemma tenant_login_fallback:
  assumes nt: "\<not> truthy (dbConnectionString t)" and inv: "registry_inv (registry w)"
    and act: "tenant_status t = ''active''"
    and t: "getTenantBySubdomain (tenants w) (params_subdomain req) = Some t"
    and cred: "js_truthy (map_of (body req) ''email'')" "js_truthy (map_of (body req) ''password'')"
  shows "snd (tenant_login env req w) = snd (createTenantStorage (DATABASE_URL env) w) \<and>
         (\<forall>u tn tok. fst (tenant_login env req w) = Reply 200 (LoginJson u tn tok) \<longrightarrow>
            (\<exists>db. map_get (dbs w) (DATABASE_URL env) = Some db \<and> u \<in> set (users db)))"
proof -
  have cs: "js_or (dbConnectionString t) (DATABASE_URL env) = DATABASE_URL env"
    using nt by (rule js_or_falsy)
  obtain st w1 where cts: "createTenantStorage (DATABASE_URL env) w = (st, w1)"
    by (cases "createTenantStorage (DATABASE_URL env) w")
  from createTenantStorage_at[OF inv cts] have
    f: "storage_db w1 st = map_get (dbs w) (DATABASE_URL env)" by simp
  show ?thesis
    using act t cred cs cts f
    by (auto simp: tenant_login_def Let_def internal_error_def
        split: option.splits dest: getUserByEmail_in)
qed

lemma authenticateTenantUser_fallback:
  assumes nt: "\<not> truthy (dbConnectionString t)" and inv: "registry_inv (registry w)"
    and act: "tenant_status t = ''active''"
    and tok: "bearer_token req = Some token" "token \<noteq> []" "verifyToken env token = Some decoded"
    and t: "getTenant (tenants w) (claim_tenantId decoded) = Some t"
  shows "snd (authenticateTenantUser env req w) = snd (createTenantStorage (DATABASE_URL env) w) \<and>
         (\<forall>r. fst (authenticateTenantUser env req w) = Next r \<longrightarrow>
            (\<exists>c u db. req_tenant r = Some c \<and> ctx_connectionString c = DATABASE_URL env \<and>
               req_user r = Some u \<and> map_get (dbs w) (DATABASE_URL env) = Some db \<and>
               u \<in> set (users db)))"
proof -
  have cs: "js_or (dbConnectionString t) (DATABASE_URL env) = DATABASE_URL env"
    using nt by (rule js_or_falsy)
  obtain st w1 where cts: "createTenantStorage (DATABASE_URL env) w = (st, w1)"
    by (cases "createTenantStorage (DATABASE_URL env) w")
  from createTenantStorage_at[OF inv cts] have
    f: "storage_db w1 st = map_get (dbs w) (DATABASE_URL env)" by simp
  show ?thesis
    using act t tok cs cts f
    by (auto simp: authenticateTenantUser_def split: option.splits dest: getUser_in)
qed

lemma handlers_after_middleware:
  assumes inv: "registry_inv (registry w)"
    and w1: "w1 = snd (createTenantStorage a w)"
    and rt: "req_tenant r = Some c" and cc: "ctx_connectionString c = a"
  shows "\<forall>(m, p, gate, h) \<in> set (tenant_routes env).
           confined a (h r) \<and> registry (snd (h r w1)) = registry w1 \<and>
           tenants (snd (h r w1)) = tenants w \<and> writes_only a w (snd (h r w1))"
proof -
  obtain hd reg1 where g: "getTenantDb a (registry w) = (hd, reg1)"
    by (cases "getTenantDb a (registry w)")
  have w1': "w1 = w\<lparr>registry := reg1\<rparr>" using w1 g by (simp add: createTenantStorage_def)
  have inv1: "registry_inv (registry w1)"
    using getTenantDb_inv[OF inv g] w1' by simp
  from getTenantDb_returns[OF g] have "map_has (tenantConnections (registry w1)) a"
    using w1' by (auto simp: map_has_def)
  then have again: "snd (getTenantDb a (registry w1)) = registry w1"
    by (simp add: getTenantDb_known)
  have d: "dbs w1 = dbs w" "tenants w1 = tenants w" using w1' by simp_all
  {
    fix h :: "request \<Rightarrow> world \<Rightarrow> reply \<times> world"
    assume c: "confined a (h r)"
    from c inv1 have "tenants (snd (h r w1)) = tenants w1 \<and>
        (registry (snd (h r w1)) = registry w1 \<or>
         registry (snd (h r w1)) = snd (getTenantDb a (registry w1))) \<and>
        writes_only a w1 (snd (h r w1))"
      unfolding confined_def by blast
    with again d have "registry (snd (h r w1)) = registry w1 \<and>
           tenants (snd (h r w1)) = tenants w \<and> writes_only a w (snd (h r w1))"
      by (auto simp: writes_only_def)
  }
  with tenant_routes_confined[OF rt, of env] cc show ?thesis by auto
qed

text \<open>
  C9. Let the tenant be active with a \<open>dbConnectionString\<close> that is null or empty, and
  the registry one that \<open>getTenantDb\<close> built. Then:
  \<^item> login opens the storage at \<open>DATABASE_URL\<close>, and a user it logs in is a row of that
    database;
  \<^item> the middleware opens the storage at \<open>DATABASE_URL\<close>, the user it accepts is a row of
    that database, and it hands on \<open>DATABASE_URL\<close> as \<open>req.tenant.connectionString\<close>;
  \<^item> every handler of the tenant routes, run on the request that the middleware passed
    on, is confined to the database at \<open>DATABASE_URL\<close>: it reuses the connection that the
    middleware opened, writes to no other database, leaves the tenants table alone, and
    its reply depends on no other database;
  \<^item> the dashboard counts the users of every tenant without an address in the database
    at \<open>DATABASE_URL\<close>, and opens the connection for that address when there is such a
    tenant;
  \<^item> tenant creation with a body whose \<open>dbConnectionString\<close> is absent, null or empty
    stores nothing or stores \<open>DATABASE_URL\<close> as the address (a connection string of
    printable ASCII characters), and it does store the tenant when the body gives a name
    and a new subdomain and nothing else.
\<close>

theorem missing_store_address_falls_back_to_platform_database:
  assumes nt: "\<not> truthy (dbConnectionString t)" and inv: "registry_inv (registry w)"
    and act: "tenant_status t = ''active''"
  shows "(getTenantBySubdomain (tenants w) (params_subdomain req) = Some t \<and>
          js_truthy (map_of (body req) ''email'') \<and> js_truthy (map_of (body req) ''password'') \<longrightarrow>
          snd (tenant_login env req w) = snd (createTenantStorage (DATABASE_URL env) w) \<and>
          (\<forall>u tn tok. fst (tenant_login env req w) = Reply 200 (LoginJson u tn tok) \<longrightarrow>
             (\<exists>db. map_get (dbs w) (DATABASE_URL env) = Some db \<and> u \<in> set (users db)))) \<and>
         (bearer_token req = Some token \<and> token \<noteq> [] \<and> verifyToken env token = Some decoded \<and>
          getTenant (tenants w) (claim_tenantId decoded) = Some t \<longrightarrow>
          snd (authenticateTenantUser env req w) = snd (createTenantStorage (DATABASE_URL env) w) \<and>
          (\<forall>r. fst (authenticateTenantUser env req w) = Next r \<longrightarrow>
             (\<exists>c u db. req_tenant r = Some c \<and> ctx_connectionString c = DATABASE_URL env \<and>
                req_user r = Some u \<and> map_get (dbs w) (DATABASE_URL env) = Some db \<and>
                u \<in> set (users db)) \<and>
             (\<forall>(m, p, gate, h) \<in> set (tenant_routes env).
                confined (DATABASE_URL env) (h r) \<and>
                registry (snd (h r (snd (authenticateTenantUser env req w)))) =
                  registry (snd (authenticateTenantUser env req w)) \<and>
                tenants (snd (h r (snd (authenticateTenantUser env req w)))) = tenants w \<and>
                writes_only (DATABASE_URL env) w
                  (snd (h r (snd (authenticateTenantUser env req w))))))) \<and>
         dashboard env req w =
           (Reply 200
              (DashboardJson (length (tenants w))
                 (sum_list (map (\<lambda>x. case map_get (dbs w)
                                            (if truthy (dbConnectionString x)
                                             then the (dbConnectionString x)
                                             else DATABASE_URL env) of
                                       None \<Rightarrow> 0
                                     | Some db \<Rightarrow> length (getUsersByTenant db (tenant_id x)))
                            (tenants w)))
                 (length (filter (\<lambda>t. tenant_status t = ''active'') (tenants w)))
                 (rev (drop (length (tenants w) - 5) (tenants w)))),
            w\<lparr>registry :=
                snd (run_calls (map (\<lambda>x. if truthy (dbConnectionString x)
                                          then the (dbConnectionString x)
                                          else DATABASE_URL env) (tenants w))
                       (registry w))\<rparr>) \<and>
         (t \<in> set (tenants w) \<longrightarrow>
            map_has (tenantConnections (registry (snd (dashboard env req w)))) (DATABASE_URL env)) \<and>
         (\<forall>rep w'. \<not> js_truthy (map_of (body req) ''dbConnectionString'') \<and>
            plain (DATABASE_URL env) \<and> create_tenant env req w = (rep, w') \<longrightarrow>
            w' = w \<or>
            (\<exists>t'. rep = Reply 201 (TenantJson t') \<and>
                  dbConnectionString t' = Some (DATABASE_URL env) \<and>
                  w' = w\<lparr>tenants := tenants w @ [t']\<rparr>)) \<and>
         (\<forall>n s t'.
            map_of (body req) ''name'' = Some (JStr n) \<and> plain n \<and> length n \<le> 255 \<and>
            map_of (body req) ''subdomain'' = Some (JStr s) \<and> plain s \<and> length s \<le> 100 \<and>
            s \<notin> set (map subdomain (tenants w)) \<and>
            map_of (body req) ''dbConnectionString'' \<in> {None, Some JNull, Some (JStr [])} \<and>
            (\<forall>k \<in> {''status'', ''subscriptionPlan'', ''subscriptionStatus'',
                     ''subscriptionEndsAt'', ''stripeCustomerId'', ''stripeSubscriptionId'',
                     ''maxUsers''}. map_of (body req) k = None) \<and>
            plain (DATABASE_URL env) \<and>
            t' = \<lparr>tenant_id = pg_serial env ''tenants'', tenant_name = n, subdomain = s,
                   dbConnectionString = Some (DATABASE_URL env), tenant_status = ''active'',
                   subscriptionPlan = ''free'', subscriptionStatus = ''active'',
                   subscriptionEndsAt = None, stripeCustomerId = None,
                   stripeSubscriptionId = None, maxUsers = 10,
                   tenant_createdAt = pg_now env, tenant_updatedAt = pg_now env\<rparr> \<longrightarrow>
            create_tenant env req w =
              (Reply 201 (TenantJson t'), w\<lparr>tenants := tenants w @ [t']\<rparr>))"
proof (intro conjI)
  show "getTenantBySubdomain (tenants w) (params_subdomain req) = Some t \<and>
          js_truthy (map_of (body req) ''email'') \<and> js_truthy (map_of (body req) ''password'') \<longrightarrow>
          snd (tenant_login env req w) = snd (createTenantStorage (DATABASE_URL env) w) \<and>
          (\<forall>u tn tok. fst (tenant_login env req w) = Reply 200 (LoginJson u tn tok) \<longrightarrow>
             (\<exists>db. map_get (dbs w) (DATABASE_URL env) = Some db \<and> u \<in> set (users db)))"
    using tenant_login_fallback[OF nt inv act] by blast
next
  show "bearer_token req = Some token \<and> token \<noteq> [] \<and> verifyToken env token = Some decoded \<and>
          getTenant (tenants w) (claim_tenantId decoded) = Some t \<longrightarrow>
          snd (authenticateTenantUser env req w) = snd (createTenantStorage (DATABASE_URL env) w) \<and>
          (\<forall>r. fst (authenticateTenantUser env req w) = Next r \<longrightarrow>
             (\<exists>c u db. req_tenant r = Some c \<and> ctx_connectionString c = DATABASE_URL env \<and>
                req_user r = Some u \<and> map_get (dbs w) (DATABASE_URL env) = Some db \<and>
                u \<in> set (users db)) \<and>
             (\<forall>(m, p, gate, h) \<in> set (tenant_routes env).
                confined (DATABASE_URL env) (h r) \<and>
                registry (snd (h r (snd (authenticateTenantUser env req w)))) =
                  registry (snd (authenticateTenantUser env req w)) \<and>
                tenants (snd (h r (snd (authenticateTenantUser env req w)))) = tenants w \<and>
                writes_only (DATABASE_URL env) w
                  (snd (h r (snd (authenticateTenantUser env req w))))))"
  proof (intro impI, elim conjE)
    assume tok: "bearer_token req = Some token" "token \<noteq> []" "verifyToken env token = Some decoded"
      and t: "getTenant (tenants w) (claim_tenantId decoded) = Some t"
    let ?w1 = "snd (authenticateTenantUser env req w)"
    note fb = authenticateTenantUser_fallback[OF nt inv act tok t]
    then have w1: "?w1 = snd (createTenantStorage (DATABASE_URL env) w)" by simp
    show "snd (authenticateTenantUser env req w) = snd (createTenantStorage (DATABASE_URL env) w) \<and>
          (\<forall>r. fst (authenticateTenantUser env req w) = Next r \<longrightarrow>
             (\<exists>c u db. req_tenant r = Some c \<and> ctx_connectionString c = DATABASE_URL env \<and>
                req_user r = Some u \<and> map_get (dbs w) (DATABASE_URL env) = Some db \<and>
                u \<in> set (users db)) \<and>
             (\<forall>(m, p, gate, h) \<in> set (tenant_routes env).
                confined (DATABASE_URL env) (h r) \<and>
                registry (snd (h r ?w1)) = registry ?w1 \<and>
                tenants (snd (h r ?w1)) = tenants w \<and>
                writes_only (DATABASE_URL env) w (snd (h r ?w1))))"
    proof (intro conjI allI impI)
      show "snd (authenticateTenantUser env req w) = snd (createTenantStorage (DATABASE_URL env) w)"
        using fb by simp
    next
      fix r assume n: "fst (authenticateTenantUser env req w) = Next r"
      with fb show "\<exists>c u db. req_tenant r = Some c \<and> ctx_connectionString c = DATABASE_URL env \<and>
                req_user r = Some u \<and> map_get (dbs w) (DATABASE_URL env) = Some db \<and>
                u \<in> set (users db)" by blast
    next
      fix r assume n: "fst (authenticateTenantUser env req w) = Next r"
      from fb n obtain c where c: "req_tenant r = Some c" "ctx_connectionString c = DATABASE_URL env"
        by blast
      from handlers_after_middleware[OF inv w1 c, of env]
      show "\<forall>(m, p, gate, h) \<in> set (tenant_routes env).
                confined (DATABASE_URL env) (h r) \<and>
                registry (snd (h r ?w1)) = registry ?w1 \<and>
                tenants (snd (h r ?w1)) = tenants w \<and>
                writes_only (DATABASE_URL env) w (snd (h r ?w1))" .
    qed
  qed
next
  show "dashboard env req w =
           (Reply 200
              (DashboardJson (length (tenants w))
                 (sum_list (map (\<lambda>x. case map_get (dbs w)
                                            (if truthy (dbConnectionString x)
                                             then the (dbConnectionString x)
                                             else DATABASE_URL env) of
                                       None \<Rightarrow> 0
                                     | Some db \<Rightarrow> length (getUsersByTenant db (tenant_id x)))
                            (tenants w)))
                 (length (filter (\<lambda>t. tenant_status t = ''active'') (tenants w)))
                 (rev (drop (length (tenants w) - 5) (tenants w)))),
            w\<lparr>registry :=
                snd (run_calls (map (\<lambda>x. if truthy (dbConnectionString x)
                                          then the (dbConnectionString x)
                                          else DATABASE_URL env) (tenants w))
                       (registry w))\<rparr>)"
    using inv by (rule dashboard_at)
next
  show "t \<in> set (tenants w) \<longrightarrow>
        map_has (tenantConnections (registry (snd (dashboard env req w)))) (DATABASE_URL env)"
  proof
    assume "t \<in> set (tenants w)"
    with nt have "DATABASE_URL env \<in> set (map (\<lambda>x. if truthy (dbConnectionString x)
                                          then the (dbConnectionString x)
                                          else DATABASE_URL env) (tenants w))"
      by force
    from run_calls_opens[OF inv this] show
      "map_has (tenantConnections (registry (snd (dashboard env req w)))) (DATABASE_URL env)"
      by (simp add: dashboard_at[OF inv])
  qed
next
  show "\<forall>rep w'. \<not> js_truthy (map_of (body req) ''dbConnectionString'') \<and>
            plain (DATABASE_URL env) \<and> create_tenant env req w = (rep, w') \<longrightarrow>
            w' = w \<or>
            (\<exists>t'. rep = Reply 201 (TenantJson t') \<and>
                  dbConnectionString t' = Some (DATABASE_URL env) \<and>
                  w' = w\<lparr>tenants := tenants w @ [t']\<rparr>)"
    using create_tenant_default_address by blast
next
  show "\<forall>n s t'.
            map_of (body req) ''name'' = Some (JStr n) \<and> plain n \<and> length n \<le> 255 \<and>
            map_of (body req) ''subdomain'' = Some (JStr s) \<and> plain s \<and> length s \<le> 100 \<and>
            s \<notin> set (map subdomain (tenants w)) \<and>
            map_of (body req) ''dbConnectionString'' \<in> {None, Some JNull, Some (JStr [])} \<and>
            (\<forall>k \<in> {''status'', ''subscriptionPlan'', ''subscriptionStatus'',
                     ''subscriptionEndsAt'', ''stripeCustomerId'', ''stripeSubscriptionId'',
                     ''maxUsers''}. map_of (body req) k = None) \<and>
            plain (DATABASE_URL env) \<and>
            t' = \<lparr>tenant_id = pg_serial env ''tenants'', tenant_name = n, subdomain = s,
                   dbConnectionString = Some (DATABASE_URL env), tenant_status = ''active'',
                   subscriptionPlan = ''free'', subscriptionStatus = ''active'',
                   subscriptionEndsAt = None, stripeCustomerId = None,
                   stripeSubscriptionId = None, maxUsers = 10,
                   tenant_createdAt = pg_now env, tenant_updatedAt = pg_now env\<rparr> \<longrightarrow>
            create_tenant env req w =
              (Reply 201 (TenantJson t'), w\<lparr>tenants := tenants w @ [t']\<rparr>)"
  proof (intro allI impI)
    fix n s t'
    assume a: "map_of (body req) ''name'' = Some (JStr n) \<and> plain n \<and> length n \<le> 255 \<and>
            map_of (body req) ''subdomain'' = Some (JStr s) \<and> plain s \<and> length s \<le> 100 \<and>
            s \<notin> set (map subdomain (tenants w)) \<and>
            map_of (body req) ''dbConnectionString'' \<in> {None, Some JNull, Some (JStr [])} \<and>
            (\<forall>k \<in> {''status'', ''subscriptionPlan'', ''subscriptionStatus'',
                     ''subscriptionEndsAt'', ''stripeCustomerId'', ''stripeSubscriptionId'',
                     ''maxUsers''}. map_of (body req) k = None) \<and>
            plain (DATABASE_URL env) \<and>
            t' = \<lparr>tenant_id = pg_serial env ''tenants'', tenant_name = n, subdomain = s,
                   dbConnectionString = Some (DATABASE_URL env), tenant_status = ''active'',
                   subscriptionPlan = ''free'', subscriptionStatus = ''active'',
                   subscriptionEndsAt = None, stripeCustomerId = None,
                   stripeSubscriptionId = None, maxUsers = 10,
                   tenant_createdAt = pg_now env, tenant_updatedAt = pg_now env\<rparr>"
    show "create_tenant env req w =
              (Reply 201 (TenantJson t'), w\<lparr>tenants := tenants w @ [t']\<rparr>)"
      by (rule create_tenant_created[where n = n and s = s]) (use a in simp_all)
  qed
qed

theorem missing_store_address_falls_back_to_platform_database_witness:
  "\<not> truthy (dbConnectionString acme) \<and> acme \<in> set (tenants fresh_world) \<and>
   DATABASE_URL example_env = ''postgres://platform'' \<and>
   registry fresh_world = init_registry \<and>
   authenticateTenantUser example_env arriving_request fresh_world =
     (Next passed_request, stocked_world) \<and>
   stocked_world = fresh_world\<lparr>registry := opened_registry\<rparr> \<and>
   snd (createTenantStorage ''postgres://platform'' fresh_world) = stocked_world \<and>
   tenant_login example_env (arriving_request\<lparr>body := login_body\<rparr>) fresh_world =
     (Reply 200 (LoginJson alice acme ''token5''), stocked_world) \<and>
   fst (dashboard example_env arriving_request fresh_world) =
     Reply 200 (DashboardJson 2 1 2 [beta, acme]) \<and>
   map_has (tenantConnections (registry (snd (dashboard example_env arriving_request fresh_world))))
     ''postgres://platform'' \<and>
   create_tenant example_env (arriving_request\<lparr>body := tenant_body\<rparr>) fresh_world =
     (Reply 201 (TenantJson
        \<lparr>tenant_id = 2, tenant_name = ''Gamma'', subdomain = ''gamma'',
         dbConnectionString = Some ''postgres://platform'', tenant_status = ''active'',
         subscriptionPlan = ''free'', subscriptionStatus = ''active'',
         subscriptionEndsAt = None, stripeCustomerId = None, stripeSubscriptionId = None,
         maxUsers = 10, tenant_createdAt = 2000, tenant_updatedAt = 2000\<rparr>),
      fresh_world\<lparr>tenants := [acme, beta,
        \<lparr>tenant_id = 2, tenant_name = ''Gamma'', subdomain = ''gamma'',
         dbConnectionString = Some ''postgres://platform'', tenant_status = ''active'',
         subscriptionPlan = ''free'', subscriptionStatus = ''active'',
         subscriptionEndsAt = None, stripeCustomerId = None, stripeSubscriptionId = None,
         maxUsers = 10, tenant_createdAt = 2000, tenant_updatedAt = 2000\<rparr>]\<rparr>) \<and>
   map (\<lambda>h. fst (h example_env passed_request stocked_world))
     [get_users, get_customers, get_projects, get_timesheets, get_tasks, get_assigned_projects,
      get_expenses] =
     [Reply 200 (UsersJson [alice]),
      Reply 200 (RowsJson (customers stocked_db)),
      Reply 200 (RowsJson (projects stocked_db)),
      Reply 200 (RowsJson (timesheets stocked_db)),
      Reply 200 (RowsJson (tasks stocked_db)),
      Reply 200 (RowsJson (projects stocked_db)),
      Reply 200 (RowsJson (expenses stocked_db))] \<and>
   fst (get_tasks example_env (passed_request\<lparr>query_projectId := Some (JStr ''3'')\<rparr>)
          stocked_world) = Reply 200 (RowsJson (tasks stocked_db)) \<and>
   map (\<lambda>h. fst (h example_env (passed_request\<lparr>body := rename_body\<rparr>) stocked_world))
     [update_user, update_customer, update_project, update_timesheet, update_task,
      update_expense] =
     [Reply 200 (RowJson [(''id'', JNum 1), (''updatedAt'', JDate 1000)]),
      Reply 200 (RowJson [(''id'', JNum 1), (''name'', JStr ''Renamed''), (''updatedAt'', JDate 1000)]),
      Reply 200 (RowJson [(''id'', JNum 1), (''name'', JStr ''Renamed''), (''updatedAt'', JDate 1000)]),
      Reply 200 (RowJson [(''id'', JNum 1), (''name'', JStr ''Renamed''), (''updatedAt'', JDate 1000)]),
      Reply 200 (RowJson [(''id'', JNum 1), (''name'', JStr ''Renamed''), (''updatedAt'', JDate 1000)]),
      Reply 200 (RowJson [(''id'', JNum 1), (''name'', JStr ''Renamed''), (''updatedAt'', JDate 1000)])] \<and>
   map (\<lambda>h. fst (h example_env passed_request stocked_world))
     [delete_user, delete_customer, delete_project, delete_timesheet, delete_task,
      delete_expense] =
     [Reply 200 (Message ''User deleted successfully''),
      Reply 200 (Message ''Customer deleted successfully''),
      Reply 200 (Message ''Project deleted successfully''),
      Reply 200 (Message ''Timesheet deleted successfully''),
      Reply 200 (Message ''Task deleted successfully''),
      Reply 200 (Message ''Expense deleted successfully'')] \<and>
   delete_customer example_env passed_request stocked_world =
     (Reply 200 (Message ''Customer deleted successfully''),
      stocked_world\<lparr>dbs := map_set (dbs stocked_world) ''postgres://platform''
                              (stocked_db\<lparr>customers := []\<rparr>)\<rparr>) \<and>
   assign_user_to_project example_env (passed_request\<lparr>body := assign_body\<rparr>) stocked_world =
     (Reply 200 (Message ''User assigned to project successfully''),
      stocked_world\<lparr>dbs := map_set (dbs stocked_world) ''postgres://platform''
         (stocked_db\<lparr>projectUsers := projectUsers stocked_db @
            [[(''projectId'', JNum 3), (''userId'', JNum 1), (''role'', JStr ''member''),
              (''tenantId'', JNum 5)]]\<rparr>)\<rparr>) \<and>
   create_project example_env (passed_request\<lparr>body := project_body\<rparr>) stocked_world =
     (Reply 201 (RowJson
        [(''id'', JNum 2), (''name'', JStr ''Road''), (''description'', JNull),
         (''status'', JStr ''active''), (''customerId'', JNull), (''startDate'', JDate 86400000),
         (''endDate'', JNull), (''tenantId'', JNum 5), (''createdById'', JNum 1),
         (''createdAt'', JDate 2000), (''updatedAt'', JDate 2000)]),
      stocked_world\<lparr>dbs := map_set (dbs stocked_world) ''postgres://platform''
         (stocked_db\<lparr>projects := projects stocked_db @
            [[(''id'', JNum 2), (''name'', JStr ''Road''), (''description'', JNull),
              (''status'', JStr ''active''), (''customerId'', JNull),
              (''startDate'', JDate 86400000), (''endDate'', JNull), (''tenantId'', JNum 5),
              (''createdById'', JNum 1), (''createdAt'', JDate 2000),
              (''updatedAt'', JDate 2000)]]\<rparr>)\<rparr>) \<and>
   create_task example_env (passed_request\<lparr>body := task_body\<rparr>) stocked_world =
     (Reply 201 (RowJson
        [(''id'', JNum 2), (''projectId'', JNum 3), (''name'', JStr ''Dig''),
         (''description'', JNull), (''startDate'', JNull), (''endDate'', JNull),
         (''status'', JStr ''active''), (''tenantId'', JNum 5), (''createdById'', JNum 1),
         (''createdAt'', JDate 2000), (''updatedAt'', JDate 2000)]),
      stocked_world\<lparr>dbs := map_set (dbs stocked_world) ''postgres://platform''
         (stocked_db\<lparr>tasks := tasks stocked_db @
            [[(''id'', JNum 2), (''projectId'', JNum 3), (''name'', JStr ''Dig''),
              (''description'', JNull), (''startDate'', JNull), (''endDate'', JNull),
              (''status'', JStr ''active''), (''tenantId'', JNum 5), (''createdById'', JNum 1),
              (''createdAt'', JDate 2000), (''updatedAt'', JDate 2000)]]\<rparr>)\<rparr>) \<and>
   fst (create_user example_env (passed_request\<lparr>body := user_body\<rparr>) stocked_world) =
     Reply 201 (UserJson
        \<lparr>user_id = 2, user_email = ''bob@acme.test'', password = ''hash:pw'', firstName = None,
         lastName = None, employeeId = Some ''EMP001'', department = None, designation = None,
         role = ''user'', isActive = True, user_tenantId = 5, user_createdAt = 2000,
         user_updatedAt = 2000\<rparr>) \<and>
   fst (create_customer example_env (passed_request\<lparr>body := customer_body\<rparr>) stocked_world) =
     Reply 201 (RowJson
        [(''id'', JNum 2), (''customerId'', JStr ''CUS001''), (''name'', JStr ''Carol''),
         (''email'', JStr ''carol@c.test''), (''status'', JStr ''active''), (''address'', JNull),
         (''city'', JNull), (''state'', JNull), (''pincode'', JNull), (''tenantId'', JNum 5),
         (''createdById'', JNum 1), (''createdAt'', JDate 2000), (''updatedAt'', JDate 2000)]) \<and>
   fst (create_timesheet example_env (passed_request\<lparr>body := timesheet_with_Date\<rparr>)
          stocked_world) =
     Reply 201 (RowJson
        [(''id'', JNum 2), (''userId'', JNum 1), (''projectId'', JNum 3), (''taskId'', JNull),
         (''customerId'', JNum 1), (''date'', JDate 500), (''mondayHours'', JStr ''0.00''),
         (''tuesdayHours'', JStr ''0.00''), (''wednesdayHours'', JStr ''0.00''),
         (''thursdayHours'', JStr ''0.00''), (''fridayHours'', JStr ''0.00''),
         (''saturdayHours'', JStr ''0.00''), (''sundayHours'', JStr ''0.00''),
         (''totalHours'', JStr ''0.00''), (''payType'', JStr ''regular''),
         (''status'', JStr ''draft''), (''notes'', JNull), (''tenantId'', JNum 5),
         (''createdAt'', JDate 2000), (''updatedAt'', JDate 2000)]) \<and>
   fst (create_expense example_env (passed_request\<lparr>body := expense_with_Date\<rparr>)
          stocked_world) =
     Reply 201 (RowJson
        [(''id'', JNum 2), (''userId'', JNum 1), (''projectId'', JNull),
         (''amount'', JStr ''12.50''), (''currency'', JStr ''USD''), (''description'', JNull),
         (''category'', JNull), (''date'', JDate 500), (''status'', JStr ''pending''),
         (''receiptUrl'', JNull), (''tenantId'', JNum 5), (''createdAt'', JDate 2000),
         (''updatedAt'', JDate 2000)]) \<and>
   map_get (dbs (snd (create_task example_env passed_request
                        (snd (authenticateTenantUser example_env arriving_request fresh_world)))))
     ''postgres://beta'' = map_get (dbs fresh_world) ''postgres://beta'' \<and>
   registry (snd (create_task example_env passed_request
                    (snd (authenticateTenantUser example_env arriving_request fresh_world)))) =
     opened_registry"
proof -
  have nt: "\<not> truthy (dbConnectionString acme)" by (simp add: acme_def truthy_def)
  have inv: "registry_inv (registry fresh_world)"
    by (simp add: fresh_world_def init_registry_def registry_inv_def)
  have act: "tenant_status acme = ''active''" by (simp add: acme_def)
  have url: "DATABASE_URL example_env = ''postgres://platform''" by (simp add: example_env_def)
  have mem: "acme \<in> set (tenants fresh_world)"
    by (simp add: fresh_world_def stocked_world_def)
  have fr: "registry fresh_world = init_registry"
    "stocked_world = fresh_world\<lparr>registry := opened_registry\<rparr>"
    by (simp_all add: fresh_world_def stocked_world_def)
  have open': "snd (createTenantStorage ''postgres://platform'' fresh_world) = stocked_world"
    by code_simp
  have mw: "authenticateTenantUser example_env arriving_request fresh_world =
     (Next passed_request, stocked_world)"
    by code_simp
  have pre: "bearer_token arriving_request = Some ''token5'' \<and> ''token5'' \<noteq> [] \<and>
      verifyToken example_env ''token5'' = Some example_claims \<and>
      getTenant (tenants fresh_world) (claim_tenantId example_claims) = Some acme"
    by code_simp
  have lg: "tenant_login example_env (arriving_request\<lparr>body := login_body\<rparr>) fresh_world =
     (Reply 200 (LoginJson alice acme ''token5''), stocked_world)"
    by code_simp
  have lpre: "getTenantBySubdomain (tenants fresh_world)
        (params_subdomain (arriving_request\<lparr>body := login_body\<rparr>)) = Some acme \<and>
      js_truthy (map_of (body (arriving_request\<lparr>body := login_body\<rparr>)) ''email'') \<and>
      js_truthy (map_of (body (arriving_request\<lparr>body := login_body\<rparr>)) ''password'')"
    by code_simp
  have ds: "fst (dashboard example_env arriving_request fresh_world) =
     Reply 200 (DashboardJson 2 1 2 [beta, acme])"
    by code_simp
  have reads: "map (\<lambda>h. fst (h example_env passed_request stocked_world))
     [get_users, get_customers, get_projects, get_timesheets, get_tasks, get_assigned_projects,
      get_expenses] =
     [Reply 200 (UsersJson [alice]),
      Reply 200 (RowsJson (customers stocked_db)),
      Reply 200 (RowsJson (projects stocked_db)),
      Reply 200 (RowsJson (timesheets stocked_db)),
      Reply 200 (RowsJson (tasks stocked_db)),
      Reply 200 (RowsJson (projects stocked_db)),
      Reply 200 (RowsJson (expenses stocked_db))]"
    by code_simp
  have byproject: "fst (get_tasks example_env (passed_request\<lparr>query_projectId := Some (JStr ''3'')\<rparr>)
          stocked_world) = Reply 200 (RowsJson (tasks stocked_db))"
    by code_simp
  have updates: "map (\<lambda>h. fst (h example_env (passed_request\<lparr>body := rename_body\<rparr>) stocked_world))
     [update_user, update_customer, update_project, update_timesheet, update_task,
      update_expense] =
     [Reply 200 (RowJson [(''id'', JNum 1), (''updatedAt'', JDate 1000)]),
      Reply 200 (RowJson [(''id'', JNum 1), (''name'', JStr ''Renamed''), (''updatedAt'', JDate 1000)]),
      Reply 200 (RowJson [(''id'', JNum 1), (''name'', JStr ''Renamed''), (''updatedAt'', JDate 1000)]),
      Reply 200 (RowJson [(''id'', JNum 1), (''name'', JStr ''Renamed''), (''updatedAt'', JDate 1000)]),
      Reply 200 (RowJson [(''id'', JNum 1), (''name'', JStr ''Renamed''), (''updatedAt'', JDate 1000)]),
      Reply 200 (RowJson [(''id'', JNum 1), (''name'', JStr ''Renamed''), (''updatedAt'', JDate 1000)])]"
    by code_simp
  have deletes: "map (\<lambda>h. fst (h example_env passed_request stocked_world))
     [delete_user, delete_customer, delete_project, delete_timesheet, delete_task,
      delete_expense] =
     [Reply 200 (Message ''User deleted successfully''),
      Reply 200 (Message ''Customer deleted successfully''),
      Reply 200 (Message ''Project deleted successfully''),
      Reply 200 (Message ''Timesheet deleted successfully''),
      Reply 200 (Message ''Task deleted successfully''),
      Reply 200 (Message ''Expense deleted successfully'')]"
    by code_simp
  have dc: "delete_customer example_env passed_request stocked_world =
     (Reply 200 (Message ''Customer deleted successfully''),
      stocked_world\<lparr>dbs := map_set (dbs stocked_world) ''postgres://platform''
                              (stocked_db\<lparr>customers := []\<rparr>)\<rparr>)"
    by code_simp
  have asg: "assign_user_to_project example_env (passed_request\<lparr>body := assign_body\<rparr>)
       stocked_world =
     (Reply 200 (Message ''User assigned to project successfully''),
      stocked_world\<lparr>dbs := map_set (dbs stocked_world) ''postgres://platform''
         (stocked_db\<lparr>projectUsers := projectUsers stocked_db @
            [[(''projectId'', JNum 3), (''userId'', JNum 1), (''role'', JStr ''member''),
              (''tenantId'', JNum 5)]]\<rparr>)\<rparr>)"
    by code_simp
  have cp: "create_project example_env (passed_request\<lparr>body := project_body\<rparr>) stocked_world =
     (Reply 201 (RowJson
        [(''id'', JNum 2), (''name'', JStr ''Road''), (''description'', JNull),
         (''status'', JStr ''active''), (''customerId'', JNull), (''startDate'', JDate 86400000),
         (''endDate'', JNull), (''tenantId'', JNum 5), (''createdById'', JNum 1),
         (''createdAt'', JDate 2000), (''updatedAt'', JDate 2000)]),
      stocked_world\<lparr>dbs := map_set (dbs stocked_world) ''postgres://platform''
         (stocked_db\<lparr>projects := projects stocked_db @
            [[(''id'', JNum 2), (''name'', JStr ''Road''), (''description'', JNull),
              (''status'', JStr ''active''), (''customerId'', JNull),
              (''startDate'', JDate 86400000), (''endDate'', JNull), (''tenantId'', JNum 5),
              (''createdById'', JNum 1), (''createdAt'', JDate 2000),
              (''updatedAt'', JDate 2000)]]\<rparr>)\<rparr>)"
    by code_simp
  have ctk: "create_task example_env (passed_request\<lparr>body := task_body\<rparr>) stocked_world =
     (Reply 201 (RowJson
        [(''id'', JNum 2), (''projectId'', JNum 3), (''name'', JStr ''Dig''),
         (''description'', JNull), (''startDate'', JNull), (''endDate'', JNull),
         (''status'', JStr ''active''), (''tenantId'', JNum 5), (''createdById'', JNum 1),
         (''createdAt'', JDate 2000), (''updatedAt'', JDate 2000)]),
      stocked_world\<lparr>dbs := map_set (dbs stocked_world) ''postgres://platform''
         (stocked_db\<lparr>tasks := tasks stocked_db @
            [[(''id'', JNum 2), (''projectId'', JNum 3), (''name'', JStr ''Dig''),
              (''description'', JNull), (''startDate'', JNull), (''endDate'', JNull),
              (''status'', JStr ''active''), (''tenantId'', JNum 5), (''createdById'', JNum 1),
              (''createdAt'', JDate 2000), (''updatedAt'', JDate 2000)]]\<rparr>)\<rparr>)"
    by code_simp
  have cu: "fst (create_user example_env (passed_request\<lparr>body := user_body\<rparr>) stocked_world) =
     Reply 201 (UserJson
        \<lparr>user_id = 2, user_email = ''bob@acme.test'', password = ''hash:pw'', firstName = None,
         lastName = None, employeeId = Some ''EMP001'', department = None, designation = None,
         role = ''user'', isActive = True, user_tenantId = 5, user_createdAt = 2000,
         user_updatedAt = 2000\<rparr>)"
    by code_simp
  have cc: "fst (create_customer example_env (passed_request\<lparr>body := customer_body\<rparr>)
        stocked_world) =
     Reply 201 (RowJson
        [(''id'', JNum 2), (''customerId'', JStr ''CUS001''), (''name'', JStr ''Carol''),
         (''email'', JStr ''carol@c.test''), (''status'', JStr ''active''), (''address'', JNull),
         (''city'', JNull), (''state'', JNull), (''pincode'', JNull), (''tenantId'', JNum 5),
         (''createdById'', JNum 1), (''createdAt'', JDate 2000), (''updatedAt'', JDate 2000)])"
    by code_simp
  have cts: "fst (create_timesheet example_env (passed_request\<lparr>body := timesheet_with_Date\<rparr>)
          stocked_world) =
     Reply 201 (RowJson
        [(''id'', JNum 2), (''userId'', JNum 1), (''projectId'', JNum 3), (''taskId'', JNull),
         (''customerId'', JNum 1), (''date'', JDate 500), (''mondayHours'', JStr ''0.00''),
         (''tuesdayHours'', JStr ''0.00''), (''wednesdayHours'', JStr ''0.00''),
         (''thursdayHours'', JStr ''0.00''), (''fridayHours'', JStr ''0.00''),
         (''saturdayHours'', JStr ''0.00''), (''sundayHours'', JStr ''0.00''),
         (''totalHours'', JStr ''0.00''), (''payType'', JStr ''regular''),
         (''status'', JStr ''draft''), (''notes'', JNull), (''tenantId'', JNum 5),
         (''createdAt'', JDate 2000), (''updatedAt'', JDate 2000)])"
    by code_simp
  have ce: "fst (create_expense example_env (passed_request\<lparr>body := expense_with_Date\<rparr>)
          stocked_world) =
     Reply 201 (RowJson
        [(''id'', JNum 2), (''userId'', JNum 1), (''projectId'', JNull),
         (''amount'', JStr ''12.50''), (''currency'', JStr ''USD''), (''description'', JNull),
         (''category'', JNull), (''date'', JDate 500), (''status'', JStr ''pending''),
         (''receiptUrl'', JNull), (''tenantId'', JNum 5), (''createdAt'', JDate 2000),
         (''updatedAt'', JDate 2000)])"
    by code_simp
  note T = missing_store_address_falls_back_to_platform_database[OF nt inv act,
      where env = example_env and token = "''token5''" and decoded = example_claims]
  have tpre: "map_of (body (arriving_request\<lparr>body := tenant_body\<rparr>)) ''name'' =
        Some (JStr ''Gamma'') \<and> plain ''Gamma'' \<and> length ''Gamma'' \<le> 255 \<and>
      map_of (body (arriving_request\<lparr>body := tenant_body\<rparr>)) ''subdomain'' =
        Some (JStr ''gamma'') \<and> plain ''gamma'' \<and> length ''gamma'' \<le> 100 \<and>
      ''gamma'' \<notin> set (map subdomain (tenants fresh_world)) \<and>
      map_of (body (arriving_request\<lparr>body := tenant_body\<rparr>)) ''dbConnectionString'' \<in>
        {None, Some JNull, Some (JStr [])} \<and>
      (\<forall>k \<in> {''status'', ''subscriptionPlan'', ''subscriptionStatus'',
               ''subscriptionEndsAt'', ''stripeCustomerId'', ''stripeSubscriptionId'',
               ''maxUsers''}. map_of (body (arriving_request\<lparr>body := tenant_body\<rparr>)) k = None) \<and>
      plain (DATABASE_URL example_env) \<and>
      \<lparr>tenant_id = 2, tenant_name = ''Gamma'', subdomain = ''gamma'',
         dbConnectionString = Some ''postgres://platform'', tenant_status = ''active'',
         subscriptionPlan = ''free'', subscriptionStatus = ''active'',
         subscriptionEndsAt = None, stripeCustomerId = None, stripeSubscriptionId = None,
         maxUsers = 10, tenant_createdAt = 2000, tenant_updatedAt = 2000\<rparr> =
      \<lparr>tenant_id = pg_serial example_env ''tenants'', tenant_name = ''Gamma'',
         subdomain = ''gamma'', dbConnectionString = Some (DATABASE_URL example_env),
         tenant_status = ''active'', subscriptionPlan = ''free'', subscriptionStatus = ''active'',
         subscriptionEndsAt = None, stripeCustomerId = None, stripeSubscriptionId = None,
         maxUsers = 10, tenant_createdAt = pg_now example_env,
         tenant_updatedAt = pg_now example_env\<rparr>"
    by (simp add: arriving_request_def passed_request_def tenant_body_def plain_def
        fresh_world_def stocked_world_def acme_def beta_def example_env_def)
  have tn: "create_tenant example_env (arriving_request\<lparr>body := tenant_body\<rparr>) fresh_world =
     (Reply 201 (TenantJson
        \<lparr>tenant_id = 2, tenant_name = ''Gamma'', subdomain = ''gamma'',
         dbConnectionString = Some ''postgres://platform'', tenant_status = ''active'',
         subscriptionPlan = ''free'', subscriptionStatus = ''active'',
         subscriptionEndsAt = None, stripeCustomerId = None, stripeSubscriptionId = None,
         maxUsers = 10, tenant_createdAt = 2000, tenant_updatedAt = 2000\<rparr>),
      fresh_world\<lparr>tenants := [acme, beta,
        \<lparr>tenant_id = 2, tenant_name = ''Gamma'', subdomain = ''gamma'',
         dbConnectionString = Some ''postgres://platform'', tenant_status = ''active'',
         subscriptionPlan = ''free'', subscriptionStatus = ''active'',
         subscriptionEndsAt = None, stripeCustomerId = None, stripeSubscriptionId = None,
         maxUsers = 10, tenant_createdAt = 2000, tenant_updatedAt = 2000\<rparr>]\<rparr>)"
    using T[of "arriving_request\<lparr>body := tenant_body\<rparr>", THEN conjunct2, THEN conjunct2,
        THEN conjunct2, THEN conjunct2, THEN conjunct2, rule_format, OF tpre]
    by (simp add: fresh_world_def stocked_world_def)
  have lg2: "snd (tenant_login example_env (arriving_request\<lparr>body := login_body\<rparr>) fresh_world) =
      snd (createTenantStorage (DATABASE_URL example_env) fresh_world)"
    using T[of "arriving_request\<lparr>body := login_body\<rparr>", THEN conjunct1] lpre by blast
  have dh: "map_has (tenantConnections
       (registry (snd (dashboard example_env arriving_request fresh_world))))
     ''postgres://platform''"
    using T[of arriving_request, THEN conjunct2, THEN conjunct2, THEN conjunct2, THEN conjunct1]
      mem url by simp
  have routes: "\<forall>(m, p, gate, h) \<in> set (tenant_routes example_env).
                confined (DATABASE_URL example_env) (h passed_request) \<and>
                registry (snd (h passed_request
                    (snd (authenticateTenantUser example_env arriving_request fresh_world)))) =
                  registry (snd (authenticateTenantUser example_env arriving_request fresh_world)) \<and>
                tenants (snd (h passed_request
                    (snd (authenticateTenantUser example_env arriving_request fresh_world)))) =
                  tenants fresh_world \<and>
                writes_only (DATABASE_URL example_env) fresh_world
                  (snd (h passed_request
                    (snd (authenticateTenantUser example_env arriving_request fresh_world))))"
    using T[of arriving_request, THEN conjunct2, THEN conjunct1] pre mw by simp
  have "(''POST'', ''/api/tenant/:subdomain/tasks'', requireTenantUser, create_task example_env)
      \<in> set (tenant_routes example_env)"
    by (simp add: tenant_routes_def)
  with routes have task:
    "registry (snd (create_task example_env passed_request
                    (snd (authenticateTenantUser example_env arriving_request fresh_world)))) =
       registry (snd (authenticateTenantUser example_env arriving_request fresh_world)) \<and>
     writes_only (DATABASE_URL example_env) fresh_world
       (snd (create_task example_env passed_request
               (snd (authenticateTenantUser example_env arriving_request fresh_world))))"
    by blast
  have pb: "''postgres://beta'' \<noteq> DATABASE_URL example_env" by (simp add: example_env_def)
  have other: "\<And>w'. writes_only (DATABASE_URL example_env) fresh_world w' \<Longrightarrow>
      map_get (dbs w') ''postgres://beta'' = map_get (dbs fresh_world) ''postgres://beta''"
    using pb by (auto simp: writes_only_def map_get_def map_of_map_set)
  have t1: "map_get (dbs (snd (create_task example_env passed_request
                        (snd (authenticateTenantUser example_env arriving_request fresh_world)))))
     ''postgres://beta'' = map_get (dbs fresh_world) ''postgres://beta''"
    using task other by blast
  have t2: "registry (snd (create_task example_env passed_request
                    (snd (authenticateTenantUser example_env arriving_request fresh_world)))) =
     opened_registry"
    using task mw by (simp add: stocked_world_def)
  show ?thesis
    using nt mem url fr open' mw lg lg2 ds dh tn reads byproject updates deletes dc asg cp ctk cu cc
      cts ce t1 t2
    by simp
qed

end
